theory Spec2Isabelle
  imports Main "HOL-Library.Char_ord" "HOL-Library.List_Lexorder" "HOL-Library.Word"
begin

unbundle bit_operations_syntax

section \<open>JavaScript values\<close>

text \<open>
  The service is an Express application, and the repository holds four revisions of it:
  three modules in \<^verbatim>\<open>src/index.js\<close> and \<^verbatim>\<open>src/unnamed/part_000\<close>.
  \<^item> \<^verbatim>\<open>src/index.js\<close> lines 1-204 (constants suffixed \<open>_index\<close>) guards \<^verbatim>\<open>/sign\<close> and
    \<^verbatim>\<open>/cloudinary/delete\<close> by the role \<^verbatim>\<open>admin\<close> and deletes through the media library.
  \<^item> \<^verbatim>\<open>src/index.js\<close> lines 205-350 (suffix \<open>_index2\<close>) guards \<^verbatim>\<open>/sign\<close> by a shared
    key and the e-mail address of one administrator.
  \<^item> \<^verbatim>\<open>src/index.js\<close> lines 351-419 (suffix \<open>_index3\<close>) has \<^verbatim>\<open>/sign\<close> without a guard.
  \<^item> \<^verbatim>\<open>src/unnamed/part_000\<close> (suffix \<open>_part0\<close>) lets admins and moderators in, signs the
    delete itself and has the route that writes roles.

  Request bodies, role documents and response bodies are JSON, so a field can hold any
  JavaScript value. The service does no arithmetic on the numbers it is sent: it prints them
  and tests whether they are zero. A number is therefore kept as the text JavaScript prints
  for it, which determines it: \<^verbatim>\<open>1000\<close> is \<open>JNum ''1000''\<close>, a half is \<open>JNum ''0.5''\<close>,
  and \<open>js_int\<close> below gives the number of an integer. Strings are lists of 8-bit characters,
  read as the code units U+0000 to U+00FF. An object is the list of its properties in
  insertion order, each key once.
\<close>

datatype jsval =
    JUndefined
  | JNull
  | JBool bool
  | JNum string
  | JStr string
  | JArr "jsval list"
  | JObj "(string \<times> jsval) list"

text \<open>\<^verbatim>\<open>!v\<close> is the negation of \<open>truthy v\<close>; the zeros print as \<^verbatim>\<open>0\<close>.\<close>

fun truthy :: "jsval \<Rightarrow> bool" where
  "truthy JUndefined = False"
| "truthy JNull = False"
| "truthy (JBool b) = b"
| "truthy (JNum n) = (n \<noteq> ''0'' \<and> n \<noteq> ''NaN'')"
| "truthy (JStr s) = (s \<noteq> [])"
| "truthy (JArr xs) = True"
| "truthy (JObj kvs) = True"

text \<open>\<^verbatim>\<open>a || b\<close> and \<^verbatim>\<open>a ?? b\<close>.\<close>

definition js_or :: "jsval \<Rightarrow> jsval \<Rightarrow> jsval" where
  "js_or a b = (if truthy a then a else b)"

fun nullish :: "jsval \<Rightarrow> bool" where
  "nullish JUndefined = True"
| "nullish JNull = True"
| "nullish v = False"

definition js_coalesce :: "jsval \<Rightarrow> jsval \<Rightarrow> jsval" where
  "js_coalesce a b = (if nullish a then b else a)"

subsection \<open>Conversion to string\<close>

definition digit_char :: "nat \<Rightarrow> char" where
  "digit_char d = char_of (48 + d)"

fun nat_to_string :: "nat \<Rightarrow> string" where
  "nat_to_string n =
     (if n < 10 then [digit_char n] else nat_to_string (n div 10) @ [digit_char (n mod 10)])"

declare nat_to_string.simps [simp del]

definition int_to_string :: "int \<Rightarrow> string" where
  "int_to_string i = (if i < 0 then CHR ''-'' # nat_to_string (nat (- i)) else nat_to_string (nat i))"

text \<open>
  The number of an integer that the service computes itself: a unix time, a status. Such an
  integer is far below \<open>2\<^sup>5\<^sup>3\<close>, where JavaScript prints every digit.
\<close>

definition js_int :: "int \<Rightarrow> jsval" where
  "js_int i = JNum (int_to_string i)"

fun join :: "string \<Rightarrow> string list \<Rightarrow> string" where
  "join sep [] = []"
| "join sep [x] = x"
| "join sep (x # y # ys) = x @ sep @ join sep (y # ys)"

text \<open>Conversions one after the other; the first that throws ends them.\<close>

fun sequence :: "('e + 'a) list \<Rightarrow> 'e + 'a list" where
  "sequence [] = Inr []"
| "sequence (x # xs) =
     (case x of
        Inl e \<Rightarrow> Inl e
      | Inr v \<Rightarrow> (case sequence xs of Inl e \<Rightarrow> Inl e | Inr vs \<Rightarrow> Inr (v # vs)))"

text \<open>
  \<^verbatim>\<open>String(v)\<close> and the conversion inside a template literal \<^verbatim>\<open>`${v}`\<close>. An array
  joins its elements with a comma, printing \<^verbatim>\<open>null\<close> and \<^verbatim>\<open>undefined\<close> as nothing. An
  object prints as \<^verbatim>\<open>[object Object]\<close>, unless it has a property \<^verbatim>\<open>toString\<close> of its own:
  in JSON that is never a function, the method of the prototype is hidden, and the
  conversion throws a TypeError.
\<close>

fun to_string :: "jsval \<Rightarrow> string + string" where
  "to_string JUndefined = Inr ''undefined''"
| "to_string JNull = Inr ''null''"
| "to_string (JBool b) = Inr (if b then ''true'' else ''false'')"
| "to_string (JNum n) = Inr n"
| "to_string (JStr s) = Inr s"
| "to_string (JArr xs) =
     (case sequence (map (\<lambda>x. if nullish x then Inr [] else to_string x) xs) of
        Inl e \<Rightarrow> Inl e
      | Inr ss \<Rightarrow> Inr (join '','' ss))"
| "to_string (JObj kvs) =
     (if map_of kvs ''toString'' = None then Inr ''[object Object]''
      else Inl ''TypeError: Cannot convert object to primitive value'')"

text \<open>
  The method call \<^verbatim>\<open>v.toString()\<close> on a value that is neither \<^verbatim>\<open>null\<close> nor
  \<^verbatim>\<open>undefined\<close>: as above, but an object with a \<^verbatim>\<open>toString\<close> of its own fails at the
  call. The wording of that error is the engine's; the text here stands for it.
\<close>

definition method_toString :: "jsval \<Rightarrow> string + string" where
  "method_toString v =
     (case v of
        JObj kvs \<Rightarrow>
          if map_of kvs ''toString'' = None then Inr ''[object Object]''
          else Inl ''TypeError: toString is not a function''
      | _ \<Rightarrow> to_string v)"

subsection \<open>String methods\<close>

definition is_space :: "char \<Rightarrow> bool" where
  "is_space c = (let n = (of_char c :: nat) in (9 \<le> n \<and> n \<le> 13) \<or> n = 32 \<or> n = 160)"

text \<open>\<^verbatim>\<open>s.trim()\<close>: white space and line terminators are dropped at both ends.\<close>

definition trim :: "string \<Rightarrow> string" where
  "trim s = rev (dropWhile is_space (rev (dropWhile is_space s)))"

definition lower_char :: "char \<Rightarrow> char" where
  "lower_char c =
     (let n = (of_char c :: nat)
      in if (65 \<le> n \<and> n \<le> 90) \<or> (192 \<le> n \<and> n \<le> 222 \<and> n \<noteq> 215) then char_of (n + 32) else c)"

text \<open>\<^verbatim>\<open>s.toLowerCase()\<close>.\<close>

definition toLowerCase :: "string \<Rightarrow> string" where
  "toLowerCase s = map lower_char s"

text \<open>\<^verbatim>\<open>s.startsWith(p)\<close>.\<close>

fun startsWith :: "string \<Rightarrow> string \<Rightarrow> bool" where
  "startsWith s [] = True"
| "startsWith [] (p # ps) = False"
| "startsWith (c # cs) (p # ps) = (c = p \<and> startsWith cs ps)"

subsection \<open>Objects\<close>

definition quoted :: "string \<Rightarrow> string" where
  "quoted s = CHR 0x27 # s @ [CHR 0x27]"

text \<open>
  Reading a property \<open>k\<close> of \<^verbatim>\<open>req.body\<close>, as the destructuring
  \<^verbatim>\<open>const { folder, public_id } = req.body\<close> does: \<^verbatim>\<open>null\<close> and \<^verbatim>\<open>undefined\<close> throw a
  TypeError that names the first property, an object gives the property or
  \<^verbatim>\<open>undefined\<close>, and the other values have no property of the names the service reads.
\<close>

fun get_prop :: "jsval \<Rightarrow> string \<Rightarrow> string + jsval" where
  "get_prop JUndefined k =
     Inl (''TypeError: Cannot destructure property '' @ quoted k @ '' of '' @
          quoted ''req.body'' @ '' as it is undefined.'')"
| "get_prop JNull k =
     Inl (''TypeError: Cannot destructure property '' @ quoted k @ '' of '' @
          quoted ''req.body'' @ '' as it is null.'')"
| "get_prop (JObj kvs) k = Inr (case map_of kvs k of None \<Rightarrow> JUndefined | Some v \<Rightarrow> v)"
| "get_prop v k = Inr JUndefined"

section \<open>The signer\<close>

text \<open>
  The signing expression of the \<^verbatim>\<open>/sign\<close> handlers:
  \<^verbatim>\<open>Object.keys(params).sort().map((k) => `${k}=${params[k]}`).join("&")\<close>.
  An object literal is the list of its properties in insertion order; \<^verbatim>\<open>sort()\<close> without a
  comparator orders strings by code unit, which is the lexicographic order on \<open>string\<close>.
  The expression throws when a value cannot be converted.
\<close>

definition object_keys :: "(string \<times> jsval) list \<Rightarrow> string list" where
  "object_keys params = map fst params"

definition render_pair :: "(string \<times> jsval) list \<Rightarrow> string \<Rightarrow> string + string" where
  "render_pair params k =
     (case to_string (case map_of params k of None \<Rightarrow> JUndefined | Some v \<Rightarrow> v) of
        Inl e \<Rightarrow> Inl e
      | Inr s \<Rightarrow> Inr (k @ ''='' @ s))"

definition stringToSign :: "(string \<times> jsval) list \<Rightarrow> string + string" where
  "stringToSign params =
     (case sequence (map (render_pair params) (sort (object_keys params))) of
        Inl e \<Rightarrow> Inl e
      | Inr pairs \<Rightarrow> Inr (join ''&'' pairs))"

text \<open>
  \<^verbatim>\<open>crypto.createHash("sha1").update(stringToSign + API_SECRET).digest("hex")\<close>: the digest is
  Node's, a parameter \<open>sha1_hex\<close> of the signer and a field of the world below.
\<close>

definition sign ::
  "(string \<Rightarrow> string) \<Rightarrow> (string \<times> jsval) list \<Rightarrow> string \<Rightarrow> string + string" where
  "sign sha1_hex params secret =
     (case stringToSign params of
        Inl e \<Rightarrow> Inl e
      | Inr s \<Rightarrow> Inr (sha1_hex (s @ secret)))"

subsection \<open>SHA-1\<close>

text \<open>
  Node's \<^verbatim>\<open>crypto\<close> module is not part of the repository. The digest it computes for
  \<^verbatim>\<open>"sha1"\<close> is the function of FIPS 180-4, written out here so that the worlds of the
  examples below have the digest the running service has: \<^verbatim>\<open>update\<close> takes the UTF-8
  bytes of the string, the message is padded to whole blocks of 64 bytes, each block is
  expanded to 80 words of 32 bits and mixed into five chaining words by 80 rounds, and the
  five words are printed as 40 lowercase hex digits.
\<close>

definition utf8 :: "string \<Rightarrow> nat list" where
  "utf8 s =
     concat (map (\<lambda>c. let n = (of_char c :: nat)
                      in if n < 128 then [n] else [192 + n div 64, 128 + n mod 64]) s)"

definition sha1_pad :: "string \<Rightarrow> nat list" where
  "sha1_pad s =
     (let bytes = utf8 s;
          n = length bytes;
          zeros = (119 - n mod 64) mod 64
      in bytes @ [128] @ replicate zeros 0 @
         map (\<lambda>i. ((8 * n) div 256 ^ (7 - i)) mod 256) [0..<8])"

fun be32 :: "nat list \<Rightarrow> 32 word" where
  "be32 [a, b, c, d] = word_of_nat (((a * 256 + b) * 256 + c) * 256 + d)"
| "be32 bs = 0"

fun chunks :: "nat \<Rightarrow> 'a list \<Rightarrow> 'a list list" where
  "chunks n [] = []"
| "chunks n xs = (if n = 0 then [] else take n xs # chunks n (drop n xs))"

fun schedule :: "nat \<Rightarrow> 32 word list \<Rightarrow> 32 word list" where
  "schedule 0 ws = ws"
| "schedule (Suc k) ws =
     schedule k (ws @ [word_rotl 1 (ws ! (length ws - 3) XOR ws ! (length ws - 8) XOR
                                   ws ! (length ws - 14) XOR ws ! (length ws - 16))])"

type_synonym sha1_state = "32 word \<times> 32 word \<times> 32 word \<times> 32 word \<times> 32 word"

definition sha1_f :: "nat \<Rightarrow> 32 word \<Rightarrow> 32 word \<Rightarrow> 32 word \<Rightarrow> 32 word" where
  "sha1_f t b c d =
     (if t < 20 then (b AND c) OR (NOT b AND d)
      else if t < 40 then b XOR c XOR d
      else if t < 60 then (b AND c) OR (b AND d) OR (c AND d)
      else b XOR c XOR d)"

definition sha1_k :: "nat \<Rightarrow> 32 word" where
  "sha1_k t =
     (if t < 20 then 0x5A827999 else if t < 40 then 0x6ED9EBA1
      else if t < 60 then 0x8F1BBCDC else 0xCA62C1D6)"

definition sha1_round :: "sha1_state \<Rightarrow> nat \<times> 32 word \<Rightarrow> sha1_state" where
  "sha1_round st tw =
     (case st of (a, b, c, d, e) \<Rightarrow>
        (word_rotl 5 a + sha1_f (fst tw) b c d + e + sha1_k (fst tw) + snd tw,
         a, word_rotl 30 b, c, d))"

definition sha1_block :: "sha1_state \<Rightarrow> nat list \<Rightarrow> sha1_state" where
  "sha1_block h blk =
     (let ws = schedule 64 (map be32 (chunks 4 blk));
          r = foldl sha1_round h (zip [0..<80] ws)
      in case h of (h0, h1, h2, h3, h4) \<Rightarrow>
           (case r of (a, b, c, d, e) \<Rightarrow> (h0 + a, h1 + b, h2 + c, h3 + d, h4 + e)))"

definition hex_digit :: "nat \<Rightarrow> char" where
  "hex_digit d = ''0123456789abcdef'' ! d"

definition hex32 :: "32 word \<Rightarrow> string" where
  "hex32 x = map (\<lambda>i. hex_digit (unat (drop_bit (4 * (7 - i)) x AND 15))) [0..<8]"

definition sha1 :: "string \<Rightarrow> string" where
  "sha1 s =
     (case foldl sha1_block (0x67452301, 0xEFCDAB89, 0x98BADCFE, 0x10325476, 0xC3D2E1F0)
             (chunks 64 (sha1_pad s)) of
        (h0, h1, h2, h3, h4) \<Rightarrow> hex32 h0 @ hex32 h1 @ hex32 h2 @ hex32 h3 @ hex32 h4)"

section \<open>The server and the services it calls\<close>

text \<open>
  The variables of the environment (\<open>None\<close> is an unset variable) and
  \<^verbatim>\<open>admin.apps.length\<close> as \<^verbatim>\<open>initFirebaseAdmin\<close> left it.
\<close>

record config =
  CLOUD_NAME :: "string option"
  API_KEY :: "string option"
  API_SECRET :: "string option"
  SIGNER_KEY :: "string option"
  env_ADMIN_EMAIL :: "string option"
  admin_apps :: nat

text \<open>\<^verbatim>\<open>!X\<close> for a variable of the environment: unset or empty.\<close>

definition unset :: "string option \<Rightarrow> bool" where
  "unset v = (case v of None \<Rightarrow> True | Some s \<Rightarrow> s = [])"

definition env_val :: "string option \<Rightarrow> jsval" where
  "env_val v = (case v of None \<Rightarrow> JUndefined | Some s \<Rightarrow> JStr s)"

text \<open>A variable of the environment appended to a string.\<close>

definition env_str :: "string option \<Rightarrow> string" where
  "env_str v = (case v of None \<Rightarrow> ''undefined'' | Some s \<Rightarrow> s)"

text \<open>
  What a handler does outside the process: a digest computed, a form posted to the media
  API, a call of the media library, a role document written.
\<close>

datatype effect =
    Sha1 string
  | HttpPost string "(string \<times> string) list"
  | Destroy jsval
  | RoleSet string jsval

text \<open>The claims of a verified token that the service reads; a missing one is empty.\<close>

record decoded =
  uid :: string
  email :: string

text \<open>
  The collaborators of a request. \<open>verifyIdToken\<close> gives the decoded token or the text of
  the rejection. \<open>roles\<close> is the Firestore collection \<^verbatim>\<open>roles\<close>, a document being the map
  of its fields; \<open>get_fails\<close> and \<open>set_fails\<close> give, for a document id, the text of the
  error when the library or the store rejects a read or a write of that document;
  \<open>server_time\<close> is the time the store stamps on a write. \<open>sha1_hex\<close> is the digest of
  \<^verbatim>\<open>crypto\<close>. \<open>now\<close> is \<^verbatim>\<open>Date.now()\<close>. \<open>fetch\<close> answers a form posted to a URL with a
  status and a text, or throws (as does reading the text of the answer); \<open>JSON_parse\<close> is
  \<^verbatim>\<open>JSON.parse\<close>, \<open>None\<close> when it throws; \<open>destroy\<close> is
  \<^verbatim>\<open>cloudinary.uploader.destroy\<close>, resolving to a result or rejecting. \<open>log\<close> collects the
  effects.
\<close>

record world =
  verifyIdToken :: "string \<Rightarrow> string + decoded"
  roles :: "string \<rightharpoonup> (string \<rightharpoonup> jsval)"
  get_fails :: "string \<Rightarrow> string option"
  set_fails :: "string \<Rightarrow> string option"
  server_time :: int
  sha1_hex :: "string \<Rightarrow> string"
  now :: int
  fetch :: "string \<Rightarrow> (string \<times> string) list \<Rightarrow> string + nat \<times> string"
  JSON_parse :: "string \<Rightarrow> jsval option"
  destroy :: "jsval \<Rightarrow> string + jsval"
  log :: "effect list"

text \<open>The headers the service reads, and \<^verbatim>\<open>req.body\<close> as \<^verbatim>\<open>express.json()\<close> left it.\<close>

record request =
  authorization :: "string option"
  x_signer_key :: "string option"
  body :: jsval

record response =
  status :: nat
  json :: "(string \<times> jsval) list"

text \<open>\<^verbatim>\<open>res.status(st).json(obj)\<close>: JSON leaves out a property whose value is \<^verbatim>\<open>undefined\<close>.\<close>

definition res_json :: "nat \<Rightarrow> (string \<times> jsval) list \<Rightarrow> response" where
  "res_json st obj = \<lparr>status = st, json = filter (\<lambda>kv. snd kv \<noteq> JUndefined) obj\<rparr>"

definition emit :: "effect \<Rightarrow> world \<Rightarrow> world" where
  "emit e w = w\<lparr>log := log w @ [e]\<rparr>"

text \<open>\<^verbatim>\<open>admin.firestore().collection("roles").doc(uid).get()\<close>.\<close>

definition firestore_get :: "world \<Rightarrow> string \<Rightarrow> string + (string \<rightharpoonup> jsval) option" where
  "firestore_get w doc_id =
     (case get_fails w doc_id of Some e \<Rightarrow> Inl e | None \<Rightarrow> Inr (roles w doc_id))"

definition field :: "(string \<rightharpoonup> jsval) \<Rightarrow> string \<Rightarrow> jsval" where
  "field d k = (case d k of None \<Rightarrow> JUndefined | Some v \<Rightarrow> v)"

text \<open>
  \<^verbatim>\<open>.doc(uid).set({ role, updatedAt: serverTimestamp() }, { merge: true })\<close>: the library
  refuses a document path that is not a non-empty string, with the error below; a rejected
  write changes nothing.
\<close>

definition invalid_document_path :: string where
  \<open>invalid_document_path =
     ''Error: Value for argument "documentPath" is not a valid resource path. '' @
     ''Path must be a non-empty string.''\<close>

definition firestore_set :: "world \<Rightarrow> jsval \<Rightarrow> jsval \<Rightarrow> string + world" where
  "firestore_set w doc_id role =
     (case doc_id of
        JStr u \<Rightarrow>
          if u = [] then Inl invalid_document_path
          else
            (case set_fails w u of
               Some e \<Rightarrow> Inl e
             | None \<Rightarrow>
                 Inr (emit (RoleSet u role)
                   (w\<lparr>roles := (roles w)(u \<mapsto>
                        (case roles w u of None \<Rightarrow> Map.empty | Some d \<Rightarrow> d)
                          (''role'' \<mapsto> role, ''updatedAt'' \<mapsto> js_int (server_time w)))\<rparr>)))
      | _ \<Rightarrow> Inl invalid_document_path)"

text \<open>
  \<^verbatim>\<open>auth.startsWith("Bearer ") ? auth.slice(7).trim() : null\<close> on
  \<^verbatim>\<open>req.header("authorization") || ""\<close>.
\<close>

definition bearer_token :: "request \<Rightarrow> string option" where
  "bearer_token req =
     (let auth = (case authorization req of None \<Rightarrow> [] | Some a \<Rightarrow> a)
      in if startsWith auth ''Bearer '' then Some (trim (drop 7 auth)) else None)"

text \<open>
  \<^verbatim>\<open>const params = { folder, timestamp }; if (public_id) params.public_id = public_id;\<close>
\<close>

definition sign_params :: "jsval \<Rightarrow> jsval \<Rightarrow> int \<Rightarrow> (string \<times> jsval) list" where
  "sign_params folder public_id timestamp =
     [(''folder'', folder), (''timestamp'', js_int timestamp)] @
     (if truthy public_id then [(''public_id'', public_id)] else [])"

text \<open>
  \<^verbatim>\<open>Math.floor(Date.now() / 1000)\<close>: the clock counts whole milliseconds, and for every
  time a clock shows the floor of the floating-point quotient is the integer quotient.
\<close>

definition unix_seconds :: "world \<Rightarrow> int" where
  "unix_seconds w = now w div 1000"

section \<open>The service of \<^verbatim>\<open>src/index.js\<close>, lines 1-204\<close>

definition mustHaveEnv :: "config \<Rightarrow> string + unit" where
  "mustHaveEnv cfg =
     (if unset (CLOUD_NAME cfg) \<or> unset (API_KEY cfg) \<or> unset (API_SECRET cfg)
      then Inl ''Error: Cloudinary env vars not set''
      else if admin_apps cfg = 0 then Inl ''Error: Firebase Admin not initialized''
      else Inr ())"

text \<open>The middleware answers, or goes on with \<^verbatim>\<open>req.user\<close> set.\<close>

definition requireAuth_index :: "config \<Rightarrow> world \<Rightarrow> request \<Rightarrow> response + decoded" where
  "requireAuth_index cfg w req =
     (case mustHaveEnv cfg of
        Inl e \<Rightarrow> Inl (res_json 401 [(''error'', JStr ''Invalid token''), (''details'', JStr e)])
      | Inr _ \<Rightarrow>
          (case bearer_token req of
             None \<Rightarrow> Inl (res_json 401 [(''error'', JStr ''Missing Authorization Bearer token'')])
           | Some idToken \<Rightarrow>
               if idToken = [] then
                 Inl (res_json 401 [(''error'', JStr ''Missing Authorization Bearer token'')])
               else
                 (case verifyIdToken w idToken of
                    Inl e \<Rightarrow>
                      Inl (res_json 401 [(''error'', JStr ''Invalid token''), (''details'', JStr e)])
                  | Inr user \<Rightarrow> Inr user)))"

text \<open>\<^verbatim>\<open>(roleDoc.exists ? roleDoc.data()?.role : null) || "user"\<close>\<close>

definition role_index :: "(string \<rightharpoonup> jsval) option \<Rightarrow> jsval" where
  "role_index roleDoc =
     js_or (case roleDoc of None \<Rightarrow> JNull | Some d \<Rightarrow> field d ''role'') (JStr ''user'')"

definition requireAdmin_index :: "world \<Rightarrow> decoded \<Rightarrow> response + unit" where
  "requireAdmin_index w user =
     (if uid user = [] then Inl (res_json 401 [(''error'', JStr ''No user in request'')])
      else
        (case firestore_get w (uid user) of
           Inl e \<Rightarrow>
             Inl (res_json 500 [(''error'', JStr ''Role check failed''), (''details'', JStr e)])
         | Inr roleDoc \<Rightarrow>
             (let role = role_index roleDoc
              in if role \<noteq> JStr ''admin'' then Inl (res_json 403 [(''error'', JStr ''Not admin'')])
                 else Inr ())))"

text \<open>The helper \<^verbatim>\<open>requireModeratorOrAdmin\<close>, which no route of \<^verbatim>\<open>src/index.js\<close> uses.\<close>

definition requireModeratorOrAdmin_index :: "world \<Rightarrow> decoded \<Rightarrow> response + unit" where
  "requireModeratorOrAdmin_index w user =
     (if uid user = [] then Inl (res_json 401 [(''error'', JStr ''No user in request'')])
      else
        (case firestore_get w (uid user) of
           Inl e \<Rightarrow>
             Inl (res_json 500 [(''error'', JStr ''Role check failed''), (''details'', JStr e)])
         | Inr roleDoc \<Rightarrow>
             (let role = role_index roleDoc
              in if role \<noteq> JStr ''admin'' \<and> role \<noteq> JStr ''moderator''
                 then Inl (res_json 403 [(''error'', JStr ''Not allowed'')])
                 else Inr ())))"

text \<open>The chain \<^verbatim>\<open>requireAuth, requireAdmin\<close> in front of both routes.\<close>

definition gate_index :: "config \<Rightarrow> world \<Rightarrow> request \<Rightarrow> response + unit" where
  "gate_index cfg w req =
     (case requireAuth_index cfg w req of
        Inl r \<Rightarrow> Inl r
      | Inr user \<Rightarrow> requireAdmin_index w user)"

text \<open>
  The handler of \<^verbatim>\<open>/sign\<close>. Whatever is thrown inside it, by the destructuring or by the
  signing expression, is answered 500.
\<close>

definition sign_index :: "config \<Rightarrow> world \<Rightarrow> request \<Rightarrow> response \<times> world" where
  "sign_index cfg w req =
     (case mustHaveEnv cfg of
        Inl e \<Rightarrow> (res_json 500 [(''error'', JStr e)], w)
      | Inr _ \<Rightarrow>
          (case get_prop (body req) ''folder'' of
             Inl e \<Rightarrow> (res_json 500 [(''error'', JStr e)], w)
           | Inr folder \<Rightarrow>
               (case get_prop (body req) ''public_id'' of
                  Inl e \<Rightarrow> (res_json 500 [(''error'', JStr e)], w)
                | Inr public_id \<Rightarrow>
                    if \<not> truthy folder then
                      (res_json 400 [(''error'', JStr ''folder required'')], w)
                    else
                      (let timestamp = unix_seconds w;
                           params = sign_params folder public_id timestamp
                       in case stringToSign params of
                            Inl e \<Rightarrow> (res_json 500 [(''error'', JStr e)], w)
                          | Inr to_sign \<Rightarrow>
                              (let signature = sha1_hex w (to_sign @ env_str (API_SECRET cfg))
                               in (res_json 200
                                     [(''cloudName'', env_val (CLOUD_NAME cfg)),
                                      (''apiKey'', env_val (API_KEY cfg)),
                                      (''timestamp'', js_int timestamp),
                                      (''signature'', JStr signature),
                                      (''folder'', folder),
                                      (''public_id'', js_coalesce public_id JNull)],
                                   emit (Sha1 (to_sign @ env_str (API_SECRET cfg))) w))))))"

definition post_sign_index :: "config \<Rightarrow> world \<Rightarrow> request \<Rightarrow> response \<times> world" where
  "post_sign_index cfg w req =
     (case gate_index cfg w req of Inl r \<Rightarrow> (r, w) | Inr _ \<Rightarrow> sign_index cfg w req)"

definition delete_index :: "config \<Rightarrow> world \<Rightarrow> request \<Rightarrow> response \<times> world" where
  "delete_index cfg w req =
     (case mustHaveEnv cfg of
        Inl e \<Rightarrow>
          (res_json 500 [(''error'', JStr ''Cloudinary delete failed''), (''details'', JStr e)], w)
      | Inr _ \<Rightarrow>
          (case get_prop (body req) ''public_id'' of
             Inl e \<Rightarrow>
               (res_json 500 [(''error'', JStr ''Cloudinary delete failed''), (''details'', JStr e)],
                w)
           | Inr public_id \<Rightarrow>
               if \<not> truthy public_id then
                 (res_json 400 [(''error'', JStr ''public_id required'')], w)
               else
                 (case destroy w public_id of
                    Inl e \<Rightarrow>
                      (res_json 500
                         [(''error'', JStr ''Cloudinary delete failed''), (''details'', JStr e)],
                       emit (Destroy public_id) w)
                  | Inr result \<Rightarrow>
                      (res_json 200
                         [(''ok'', JBool True), (''public_id'', public_id), (''result'', result)],
                       emit (Destroy public_id) w))))"

definition post_delete_index :: "config \<Rightarrow> world \<Rightarrow> request \<Rightarrow> response \<times> world" where
  "post_delete_index cfg w req =
     (case gate_index cfg w req of Inl r \<Rightarrow> (r, w) | Inr _ \<Rightarrow> delete_index cfg w req)"

section \<open>The handler of \<^verbatim>\<open>/sign\<close> in the other three revisions\<close>

text \<open>
  \<^verbatim>\<open>src/index.js\<close> lines 310-346 and 376-413 and \<^verbatim>\<open>part_000\<close> lines 109-145 have one
  handler, word for word but for the message \<open>not_set\<close> about the environment, which is
  \<^verbatim>\<open>Server env vars not set\<close> in the last module of \<^verbatim>\<open>src/index.js\<close> and
  \<^verbatim>\<open>Cloudinary env vars not set\<close> in the other two. It answers the string-to-sign too.
\<close>

definition sign_handler :: "string \<Rightarrow> config \<Rightarrow> world \<Rightarrow> request \<Rightarrow> response \<times> world" where
  "sign_handler not_set cfg w req =
     (case get_prop (body req) ''folder'' of
        Inl e \<Rightarrow> (res_json 500 [(''error'', JStr e)], w)
      | Inr folder \<Rightarrow>
          (case get_prop (body req) ''public_id'' of
             Inl e \<Rightarrow> (res_json 500 [(''error'', JStr e)], w)
           | Inr public_id \<Rightarrow>
               if \<not> truthy folder then
                 (res_json 400 [(''error'', JStr ''folder required'')], w)
               else if unset (CLOUD_NAME cfg) \<or> unset (API_KEY cfg) \<or> unset (API_SECRET cfg) then
                 (res_json 500 [(''error'', JStr not_set)], w)
               else
                 (let timestamp = unix_seconds w;
                      params = sign_params folder public_id timestamp
                  in case stringToSign params of
                       Inl e \<Rightarrow> (res_json 500 [(''error'', JStr e)], w)
                     | Inr to_sign \<Rightarrow>
                         (let signature = sha1_hex w (to_sign @ env_str (API_SECRET cfg))
                          in (res_json 200
                                [(''cloudName'', env_val (CLOUD_NAME cfg)),
                                 (''apiKey'', env_val (API_KEY cfg)),
                                 (''timestamp'', js_int timestamp),
                                 (''signature'', JStr signature),
                                 (''folder'', folder),
                                 (''public_id'', js_coalesce public_id JNull),
                                 (''stringToSign'', JStr to_sign)],
                              emit (Sha1 (to_sign @ env_str (API_SECRET cfg))) w)))))"

section \<open>The service of \<^verbatim>\<open>src/index.js\<close>, lines 205-350\<close>

text \<open>\<^verbatim>\<open>(process.env.ADMIN_EMAIL || "").trim().toLowerCase()\<close>\<close>

definition ADMIN_EMAIL :: "config \<Rightarrow> string" where
  "ADMIN_EMAIL cfg =
     toLowerCase (trim (case env_ADMIN_EMAIL cfg of None \<Rightarrow> [] | Some s \<Rightarrow> s))"

definition requireSignerKey :: "config \<Rightarrow> request \<Rightarrow> response + unit" where
  "requireSignerKey cfg req =
     (if unset (SIGNER_KEY cfg) then
        Inl (res_json 500 [(''error'', JStr ''Server SIGNER_KEY not set'')])
      else if x_signer_key req = None \<or> x_signer_key req = Some [] \<or>
              x_signer_key req \<noteq> SIGNER_KEY cfg then
        Inl (res_json 401 [(''error'', JStr ''Invalid signer key'')])
      else Inr ())"

text \<open>
  \<^verbatim>\<open>authHeader.match(/^Bearer (.+)$/i)\<close>: the word in either case, a space, and at least
  one character, none of them a line break; the token is all that follows the space.
\<close>

definition bearer_match :: "request \<Rightarrow> string option" where
  "bearer_match req =
     (let authHeader = (case authorization req of None \<Rightarrow> [] | Some a \<Rightarrow> a);
          rest = drop 7 authHeader
      in if toLowerCase (take 7 authHeader) = ''bearer '' \<and> rest \<noteq> [] \<and>
            CHR 0x0A \<notin> set rest \<and> CHR 0x0D \<notin> set rest
         then Some rest else None)"

definition requireAdmin_index2 :: "config \<Rightarrow> world \<Rightarrow> request \<Rightarrow> response + decoded" where
  "requireAdmin_index2 cfg w req =
     (if admin_apps cfg = 0 then
        Inl (res_json 500 [(''error'', JStr ''Firebase Admin not initialized'')])
      else if ADMIN_EMAIL cfg = [] then
        Inl (res_json 500 [(''error'', JStr ''Server ADMIN_EMAIL not set'')])
      else
        (case bearer_match req of
           None \<Rightarrow> Inl (res_json 401 [(''error'', JStr ''Missing Authorization Bearer token'')])
         | Some idToken \<Rightarrow>
             (case verifyIdToken w idToken of
                Inl e \<Rightarrow>
                  Inl (res_json 401 [(''error'', JStr ''Invalid token''), (''details'', JStr e)])
              | Inr user \<Rightarrow>
                  (let address = toLowerCase (trim (email user))
                   in if address = [] then
                        Inl (res_json 403 [(''error'', JStr ''Token has no email'')])
                      else if address \<noteq> ADMIN_EMAIL cfg then
                        Inl (res_json 403 [(''error'', JStr ''Not admin'')])
                      else Inr user))))"

text \<open>The chain \<^verbatim>\<open>requireSignerKey, requireAdmin\<close> in front of \<^verbatim>\<open>/sign\<close>.\<close>

definition gate_index2 :: "config \<Rightarrow> world \<Rightarrow> request \<Rightarrow> response + decoded" where
  "gate_index2 cfg w req =
     (case requireSignerKey cfg req of
        Inl r \<Rightarrow> Inl r
      | Inr _ \<Rightarrow> requireAdmin_index2 cfg w req)"

definition post_sign_index2 :: "config \<Rightarrow> world \<Rightarrow> request \<Rightarrow> response \<times> world" where
  "post_sign_index2 cfg w req =
     (case gate_index2 cfg w req of
        Inl r \<Rightarrow> (r, w)
      | Inr _ \<Rightarrow> sign_handler ''Cloudinary env vars not set'' cfg w req)"

section \<open>The service of \<^verbatim>\<open>src/index.js\<close>, lines 351-419\<close>

text \<open>\<^verbatim>\<open>app.post("/sign", (req, res) => ...)\<close>: the handler and nothing in front of it.\<close>

definition post_sign_index3 :: "config \<Rightarrow> world \<Rightarrow> request \<Rightarrow> response \<times> world" where
  "post_sign_index3 cfg w req = sign_handler ''Server env vars not set'' cfg w req"

section \<open>The service of \<^verbatim>\<open>src/unnamed/part_000\<close>\<close>

definition requireAuth_part0 :: "config \<Rightarrow> world \<Rightarrow> request \<Rightarrow> response + decoded" where
  "requireAuth_part0 cfg w req =
     (if admin_apps cfg = 0 then
        Inl (res_json 500 [(''error'', JStr ''Firebase Admin not initialized'')])
      else
        (case bearer_token req of
           None \<Rightarrow> Inl (res_json 401 [(''error'', JStr ''Missing Authorization token'')])
         | Some idToken \<Rightarrow>
             if idToken = [] then
               Inl (res_json 401 [(''error'', JStr ''Missing Authorization token'')])
             else
               (case verifyIdToken w idToken of
                  Inl e \<Rightarrow>
                    Inl (res_json 401 [(''error'', JStr ''Invalid token''), (''details'', JStr e)])
                | Inr user \<Rightarrow> Inr user)))"

text \<open>
  \<^verbatim>\<open>(snap.exists ? (snap.data()?.role || "") : "").toString().toLowerCase().trim()\<close>
\<close>

definition resolved_role :: "(string \<rightharpoonup> jsval) option \<Rightarrow> string + string" where
  "resolved_role snap =
     (case method_toString
             (case snap of None \<Rightarrow> JStr [] | Some d \<Rightarrow> js_or (field d ''role'') (JStr [])) of
        Inl e \<Rightarrow> Inl e
      | Inr s \<Rightarrow> Inr (trim (toLowerCase s)))"

text \<open>The middleware answers, or goes on with \<^verbatim>\<open>req.role\<close> set.\<close>

definition requireAdminOrModeratorByRolesDoc :: "world \<Rightarrow> decoded \<Rightarrow> response + string" where
  "requireAdminOrModeratorByRolesDoc w user =
     (if uid user = [] then Inl (res_json 401 [(''error'', JStr ''No uid'')])
      else
        (case firestore_get w (uid user) of
           Inl e \<Rightarrow>
             Inl (res_json 500 [(''error'', JStr ''Role check failed''), (''details'', JStr e)])
         | Inr snap \<Rightarrow>
             (case resolved_role snap of
                Inl e \<Rightarrow>
                  Inl (res_json 500 [(''error'', JStr ''Role check failed''), (''details'', JStr e)])
              | Inr role \<Rightarrow>
                  if role \<noteq> ''admin'' \<and> role \<noteq> ''moderator''
                  then Inl (res_json 403 [(''error'', JStr ''Forbidden: admin/moderator only'')])
                  else Inr role)))"

text \<open>The chain \<^verbatim>\<open>requireAuth, requireAdminOrModeratorByRolesDoc\<close> in front of the routes.\<close>

definition gate_part0 :: "config \<Rightarrow> world \<Rightarrow> request \<Rightarrow> response + string" where
  "gate_part0 cfg w req =
     (case requireAuth_part0 cfg w req of
        Inl r \<Rightarrow> Inl r
      | Inr user \<Rightarrow> requireAdminOrModeratorByRolesDoc w user)"

definition post_sign_part0 :: "config \<Rightarrow> world \<Rightarrow> request \<Rightarrow> response \<times> world" where
  "post_sign_part0 cfg w req =
     (case gate_part0 cfg w req of
        Inl r \<Rightarrow> (r, w)
      | Inr _ \<Rightarrow> sign_handler ''Cloudinary env vars not set'' cfg w req)"

text \<open>
  \<^verbatim>\<open>`public_id=${public_id}&timestamp=${timestamp}`\<close>, which throws when the identifier
  cannot be converted.
\<close>

definition destroy_stringToSign :: "jsval \<Rightarrow> int \<Rightarrow> string + string" where
  "destroy_stringToSign public_id timestamp =
     (case to_string public_id of
        Inl e \<Rightarrow> Inl e
      | Inr s \<Rightarrow> Inr (''public_id='' @ s @ ''&timestamp='' @ int_to_string timestamp))"

text \<open>\<^verbatim>\<open>resp.ok\<close>: the status is in the range 200 to 299.\<close>

definition resp_ok :: "nat \<Rightarrow> bool" where
  "resp_ok st = (200 \<le> st \<and> st \<le> 299)"

text \<open>
  \<^verbatim>\<open>let json = null; try { json = JSON.parse(text); } catch (_) {}\<close> and then
  \<^verbatim>\<open>json ?? text\<close>.
\<close>

definition json_or_text :: "world \<Rightarrow> string \<Rightarrow> jsval" where
  "json_or_text w text =
     js_coalesce (case JSON_parse w text of None \<Rightarrow> JNull | Some j \<Rightarrow> j) (JStr text)"

text \<open>
  The signature over the string-to-sign \<open>s\<close>, the form \<^verbatim>\<open>formBody\<close> that carries it with
  the identifier as \<^verbatim>\<open>append\<close> converts it, and the address the form is posted to.
\<close>

definition destroy_signature :: "config \<Rightarrow> world \<Rightarrow> string \<Rightarrow> string" where
  "destroy_signature cfg w s = sha1_hex w (s @ env_str (API_SECRET cfg))"

definition formBody :: "config \<Rightarrow> world \<Rightarrow> string \<Rightarrow> string \<Rightarrow> (string \<times> string) list" where
  "formBody cfg w public_id s =
     [(''api_key'', env_str (API_KEY cfg)),
      (''timestamp'', int_to_string (unix_seconds w)),
      (''public_id'', public_id),
      (''signature'', destroy_signature cfg w s)]"

definition destroy_url :: "config \<Rightarrow> string" where
  "destroy_url cfg = ''https://api.cloudinary.com/v1_1/'' @ env_str (CLOUD_NAME cfg) @ ''/image/destroy''"

text \<open>The world after the digest and the post.\<close>

definition destroy_called :: "config \<Rightarrow> world \<Rightarrow> string \<Rightarrow> string \<Rightarrow> world" where
  "destroy_called cfg w public_id s =
     emit (HttpPost (destroy_url cfg) (formBody cfg w public_id s))
       (emit (Sha1 (s @ env_str (API_SECRET cfg))) w)"

text \<open>
  The handler of \<^verbatim>\<open>/cloudinary/delete\<close>. Whatever is thrown inside it is answered 500: by
  the destructuring, by the template of the string-to-sign (before anything is hashed or
  posted), by \<^verbatim>\<open>fetch\<close> or the reading of its answer (after the digest and the post).
\<close>

definition delete_part0 :: "config \<Rightarrow> world \<Rightarrow> request \<Rightarrow> response \<times> world" where
  "delete_part0 cfg w req =
     (case get_prop (body req) ''public_id'' of
        Inl e \<Rightarrow> (res_json 500 [(''error'', JStr e)], w)
      | Inr public_id \<Rightarrow>
          if \<not> truthy public_id then
            (res_json 400 [(''error'', JStr ''public_id required'')], w)
          else if unset (CLOUD_NAME cfg) \<or> unset (API_KEY cfg) \<or> unset (API_SECRET cfg) then
            (res_json 500 [(''error'', JStr ''Cloudinary env vars not set'')], w)
          else
            (case destroy_stringToSign public_id (unix_seconds w) of
               Inl e \<Rightarrow> (res_json 500 [(''error'', JStr e)], w)
             | Inr to_sign \<Rightarrow>
                 (case to_string public_id of
                    Inl e \<Rightarrow> (res_json 500 [(''error'', JStr e)], w)
                  | Inr pid \<Rightarrow>
                      (case fetch w (destroy_url cfg) (formBody cfg w pid to_sign) of
                         Inl e \<Rightarrow>
                           (res_json 500 [(''error'', JStr e)],
                            destroy_called cfg w pid to_sign)
                       | Inr (st, text) \<Rightarrow>
                           if \<not> resp_ok st then
                             (res_json 500
                                [(''error'', JStr ''Cloudinary destroy failed''),
                                 (''status'', js_int (int st)),
                                 (''body'', json_or_text w text)],
                              destroy_called cfg w pid to_sign)
                           else
                             (res_json 200
                                [(''ok'', JBool True), (''cloudinary'', json_or_text w text)],
                              destroy_called cfg w pid to_sign)))))"

definition post_delete_part0 :: "config \<Rightarrow> world \<Rightarrow> request \<Rightarrow> response \<times> world" where
  "post_delete_part0 cfg w req =
     (case gate_part0 cfg w req of Inl r \<Rightarrow> (r, w) | Inr _ \<Rightarrow> delete_part0 cfg w req)"

text \<open>\<^verbatim>\<open>const allowed = ["admin", "moderator", "user"]; allowed.includes(role)\<close>\<close>

definition allowed :: "jsval list" where
  "allowed = [JStr ''admin'', JStr ''moderator'', JStr ''user'']"

text \<open>
  The handler of \<^verbatim>\<open>/roles/set\<close>, with the \<^verbatim>\<open>req.role\<close> the middleware has set;
  \<open>target\<close> is the \<^verbatim>\<open>uid\<close> of the body.
\<close>

definition roles_set_part0 :: "world \<Rightarrow> string \<Rightarrow> request \<Rightarrow> response \<times> world" where
  "roles_set_part0 w req_role req =
     (if req_role \<noteq> ''admin'' then (res_json 403 [(''error'', JStr ''Admins only'')], w)
      else
        (case get_prop (body req) ''uid'' of
           Inl e \<Rightarrow> (res_json 500 [(''error'', JStr e)], w)
         | Inr target \<Rightarrow>
             (case get_prop (body req) ''role'' of
                Inl e \<Rightarrow> (res_json 500 [(''error'', JStr e)], w)
              | Inr role \<Rightarrow>
                  if \<not> truthy target then (res_json 400 [(''error'', JStr ''uid required'')], w)
                  else if role \<notin> set allowed then
                    (res_json 400 [(''error'', JStr ''invalid role'')], w)
                  else
                    (case firestore_set w target role of
                       Inl e \<Rightarrow> (res_json 500 [(''error'', JStr e)], w)
                     | Inr w' \<Rightarrow>
                         (res_json 200 [(''ok'', JBool True), (''uid'', target), (''role'', role)],
                          w')))))"

definition post_roles_set_part0 :: "config \<Rightarrow> world \<Rightarrow> request \<Rightarrow> response \<times> world" where
  "post_roles_set_part0 cfg w req =
     (case gate_part0 cfg w req of
        Inl r \<Rightarrow> (r, w)
      | Inr req_role \<Rightarrow> roles_set_part0 w req_role req)"

section \<open>A server, a world and some requests\<close>

text \<open>
  A configured server, whose administrator is alice; a world in which the tokens of alice,
  bob, carol, dave and erin verify, alice is an admin, bob a moderator, carol a user, dave has
  no role document and no e-mail address, and the role of erin was typed \<^verbatim>\<open>" Admin "\<close>,
  the media API answers a destroy with the JSON text of the object
  \<^verbatim>\<open>{result: "ok"}\<close>, the digest is SHA-1, and the clock stands at 1000999 ms. \<open>parse0\<close>
  is \<^verbatim>\<open>JSON.parse\<close> on the two answers the media API gives in these worlds.
\<close>

definition cfg0 :: config where
  "cfg0 = \<lparr>CLOUD_NAME = Some ''demo'', API_KEY = Some ''key'', API_SECRET = Some ''abc'',
           SIGNER_KEY = Some ''s3cret'', env_ADMIN_EMAIL = Some '' Alice@Example.com'',
           admin_apps = 1\<rparr>"

definition verify0 :: "string \<Rightarrow> string + decoded" where
  "verify0 t =
     (if t = ''alice-token'' then Inr \<lparr>uid = ''alice'', email = ''alice@example.com''\<rparr>
      else if t = ''bob-token'' then Inr \<lparr>uid = ''bob'', email = ''bob@example.com''\<rparr>
      else if t = ''carol-token'' then Inr \<lparr>uid = ''carol'', email = ''carol@example.com''\<rparr>
      else if t = ''dave-token'' then Inr \<lparr>uid = ''dave'', email = []\<rparr>
      else if t = ''erin-token'' then Inr \<lparr>uid = ''erin'', email = ''erin@example.com''\<rparr>
      else Inl ''Error: Decoding Firebase ID token failed'')"

definition roles0 :: "string \<rightharpoonup> (string \<rightharpoonup> jsval)" where
  "roles0 =
     [''alice'' \<mapsto> [''role'' \<mapsto> JStr ''admin''],
      ''bob'' \<mapsto> [''role'' \<mapsto> JStr ''moderator''],
      ''carol'' \<mapsto> [''role'' \<mapsto> JStr ''user''],
      ''erin'' \<mapsto> [''role'' \<mapsto> JStr '' Admin '']]"

definition destroyed_ok :: jsval where
  "destroyed_ok = JObj [(''result'', JStr ''ok'')]"

definition destroyed_text :: string where
  \<open>destroyed_text = ''{"result":"ok"}''\<close>

definition parse0 :: "string \<Rightarrow> jsval option" where
  "parse0 t = (if t = destroyed_text then Some destroyed_ok else None)"

definition w0 :: world where
  "w0 = \<lparr>verifyIdToken = verify0, roles = roles0, get_fails = (\<lambda>doc_id. None),
         set_fails = (\<lambda>doc_id. None),
         server_time = 1001, sha1_hex = sha1, now = 1000999,
         fetch = (\<lambda>url form. Inr (200, destroyed_text)), JSON_parse = parse0,
         destroy = (\<lambda>public_id. Inr destroyed_ok), log = []\<rparr>"

text \<open>The same world with the media API refusing the destroy.\<close>

definition w1 :: world where
  "w1 = w0\<lparr>fetch := (\<lambda>url form. Inr (404, ''Not Found'')),
           destroy := (\<lambda>public_id. Inl ''Error: Not Found'')\<rparr>"

text \<open>A request with a bearer token and an object as its body, and the same with a key.\<close>

definition request_of :: "string \<Rightarrow> (string \<times> jsval) list \<Rightarrow> request" where
  "request_of token obj =
     \<lparr>authorization = Some (''Bearer '' @ token), x_signer_key = None, body = JObj obj\<rparr>"

definition keyed_request_of :: "string \<Rightarrow> string \<Rightarrow> (string \<times> jsval) list \<Rightarrow> request" where
  "keyed_request_of key token obj = (request_of token obj)\<lparr>x_signer_key := Some key\<rparr>"

section \<open>Facts about the signer\<close>

lemma sort_sign_keys2: "sort [''folder'', ''timestamp''] = [''folder'', ''timestamp'']"
  by code_simp

lemma sort_sign_keys3:
  "sort [''folder'', ''timestamp'', ''public_id''] = [''folder'', ''public_id'', ''timestamp'']"
  by code_simp

lemma sort_destroy_keys: "sort [''public_id'', ''timestamp''] = [''public_id'', ''timestamp'']"
  by code_simp

lemma to_string_js_int: "to_string (js_int i) = Inr (int_to_string i)"
  by (simp add: js_int_def)

lemma stringToSign_sign_params:
  "stringToSign (sign_params folder public_id timestamp) =
     (case to_string folder of
        Inl e \<Rightarrow> Inl e
      | Inr f \<Rightarrow>
          if truthy public_id then
            (case to_string public_id of
               Inl e \<Rightarrow> Inl e
             | Inr p \<Rightarrow>
                 Inr (''folder='' @ f @ ''&public_id='' @ p @ ''&timestamp='' @
                      int_to_string timestamp))
          else Inr (''folder='' @ f @ ''&timestamp='' @ int_to_string timestamp))"
  by (simp add: stringToSign_def sign_params_def object_keys_def render_pair_def
        sort_sign_keys2 sort_sign_keys3 to_string_js_int split: sum.split)

lemma int_to_string_1000: "int_to_string 1000 = ''1000''"
  by code_simp

lemma map_of_eq_of_set_eq:
  assumes "distinct (map fst P)" and "distinct (map fst P')" and "set P = set P'"
  shows "map_of P = map_of P'"
  using assms by (simp add: map_of_inject_set)

lemma sort_keys_eq_of_set_eq:
  assumes "distinct (map fst P)" and "distinct (map fst P')" and "set P = set P'"
  shows "sort (object_keys P) = sort (object_keys P')"
proof (rule sorted_distinct_set_unique)
  show "distinct (sort (object_keys P))" using assms(1) by (simp add: object_keys_def)
  show "distinct (sort (object_keys P'))" using assms(2) by (simp add: object_keys_def)
  show "set (sort (object_keys P)) = set (sort (object_keys P'))"
    using assms(3) by (simp add: object_keys_def)
qed simp_all

subsection \<open>The digest is 40 lowercase hex digits\<close>

lemma nibble_less: "unat ((x :: 32 word) AND 15) < 16"
proof -
  have "x AND 15 \<le> 15" by (rule word_and_le1)
  then have "unat (x AND 15) \<le> unat (15 :: 32 word)" by (simp add: word_le_nat_alt)
  then show ?thesis by simp
qed

lemma hex_digit_lower: "d < 16 \<Longrightarrow> hex_digit d \<in> set ''0123456789abcdef''"
  unfolding hex_digit_def by (rule nth_mem) simp

lemma hex32_length: "length (hex32 x) = 8"
  by (simp add: hex32_def)

lemma hex32_lower: "set (hex32 x) \<subseteq> set ''0123456789abcdef''"
  unfolding hex32_def using hex_digit_lower [OF nibble_less] by auto

lemma sha1_length: "length (sha1 s) = 40"
  by (simp add: sha1_def hex32_length split: prod.split)

lemma sha1_lower: "set (sha1 s) \<subseteq> set ''0123456789abcdef''"
proof -
  obtain h0 h1 h2 h3 h4 where
    "foldl sha1_block (0x67452301, 0xEFCDAB89, 0x98BADCFE, 0x10325476, 0xC3D2E1F0)
       (chunks 64 (sha1_pad s)) = (h0, h1, h2, h3, h4)"
    by (metis prod_cases5)
  then have "sha1 s = hex32 h0 @ hex32 h1 @ hex32 h2 @ hex32 h3 @ hex32 h4"
    by (simp add: sha1_def)
  then show ?thesis
    using hex32_lower [of h0] hex32_lower [of h1] hex32_lower [of h2] hex32_lower [of h3]
      hex32_lower [of h4]
    by (simp del: set_simps list.set)
qed

section \<open>Facts about the example world\<close>

lemma unix_seconds_w0: "unix_seconds w0 = 1000"
  by (simp add: unix_seconds_def w0_def)

lemma sha1_hex_w0: "sha1_hex w0 = sha1"
  by (simp add: w0_def)

lemma bearer_token_alice: "bearer_token (request_of ''alice-token'' obj) = Some ''alice-token''"
  by (simp add: bearer_token_def request_of_def trim_def is_space_def)

lemma bearer_token_bob: "bearer_token (request_of ''bob-token'' obj) = Some ''bob-token''"
  by (simp add: bearer_token_def request_of_def trim_def is_space_def)




lemma body_request_of: "body (request_of token obj) = JObj obj"
  by (simp add: request_of_def)

lemma mustHaveEnv_cfg0: "mustHaveEnv cfg0 = Inr ()"
  by (simp add: mustHaveEnv_def cfg0_def unset_def)

lemma env_cfg0:
  "\<not> unset (CLOUD_NAME cfg0)" "\<not> unset (API_KEY cfg0)" "\<not> unset (API_SECRET cfg0)"
  "env_val (CLOUD_NAME cfg0) = JStr ''demo''" "env_val (API_KEY cfg0) = JStr ''key''"
  "env_str (API_SECRET cfg0) = ''abc''" "env_str (API_KEY cfg0) = ''key''"
  "env_str (CLOUD_NAME cfg0) = ''demo''"
  by (simp_all add: cfg0_def unset_def env_val_def env_str_def)

lemma requireAuth_index_alice:
  "requireAuth_index cfg0 w0 (request_of ''alice-token'' obj) =
     Inr \<lparr>uid = ''alice'', email = ''alice@example.com''\<rparr>"
  by (simp add: requireAuth_index_def mustHaveEnv_cfg0 bearer_token_alice w0_def verify0_def)






lemma requireAuth_part0_alice:
  "requireAuth_part0 cfg0 w0 (request_of ''alice-token'' obj) =
     Inr \<lparr>uid = ''alice'', email = ''alice@example.com''\<rparr>"
  by (simp add: requireAuth_part0_def cfg0_def bearer_token_alice w0_def verify0_def)

lemma requireAuth_part0_bob:
  "requireAuth_part0 cfg0 w0 (request_of ''bob-token'' obj) =
     Inr \<lparr>uid = ''bob'', email = ''bob@example.com''\<rparr>"
  by (simp add: requireAuth_part0_def cfg0_def bearer_token_bob w0_def verify0_def)



lemma roles_w0:
  "get_fails w0 doc_id = None" "set_fails w0 doc_id = None"
  "roles w0 ''alice'' = Some [''role'' \<mapsto> JStr ''admin'']"
  "roles w0 ''bob'' = Some [''role'' \<mapsto> JStr ''moderator'']"
  "roles w0 ''carol'' = Some [''role'' \<mapsto> JStr ''user'']"
  "roles w0 ''dave'' = None"
  "roles w0 ''erin'' = Some [''role'' \<mapsto> JStr '' Admin '']"
  by (simp_all add: w0_def roles0_def)

lemma firestore_get_w0: "firestore_get w0 doc_id = Inr (roles w0 doc_id)"
  by (simp add: firestore_get_def w0_def)

lemma role_index_string:
  "d ''role'' = Some (JStr r) \<Longrightarrow> r \<noteq> [] \<Longrightarrow> role_index (Some d) = JStr r"
  by (simp add: role_index_def field_def js_or_def)


lemma resolved_role_string:
  "d ''role'' = Some (JStr r) \<Longrightarrow> resolved_role (Some d) = Inr (trim (toLowerCase r))"
  by (cases "r = []")
    (simp_all add: resolved_role_def field_def js_or_def method_toString_def toLowerCase_def)

lemma normal_admin: "trim (toLowerCase ''admin'') = ''admin''"
  by (simp add: toLowerCase_def lower_char_def trim_def is_space_def)

lemma normal_moderator: "trim (toLowerCase ''moderator'') = ''moderator''"
  by (simp add: toLowerCase_def lower_char_def trim_def is_space_def)





lemma requireAdmin_index_alice:
  "requireAdmin_index w0 \<lparr>uid = ''alice'', email = ''alice@example.com''\<rparr> = Inr ()"
  by (simp add: requireAdmin_index_def firestore_get_w0 roles_w0 role_index_string)

lemma gate_index_alice: "gate_index cfg0 w0 (request_of ''alice-token'' obj) = Inr ()"
  by (simp add: gate_index_def requireAuth_index_alice requireAdmin_index_alice)

lemma gate_part0_alice: "gate_part0 cfg0 w0 (request_of ''alice-token'' obj) = Inr ''admin''"
  by (simp add: gate_part0_def requireAuth_part0_alice requireAdminOrModeratorByRolesDoc_def
        firestore_get_w0 roles_w0 resolved_role_string normal_admin)

lemma gate_part0_bob: "gate_part0 cfg0 w0 (request_of ''bob-token'' obj) = Inr ''moderator''"
  by (simp add: gate_part0_def requireAuth_part0_bob requireAdminOrModeratorByRolesDoc_def
        firestore_get_w0 roles_w0 resolved_role_string normal_moderator)

section \<open>Facts about the gates\<close>

lemma gate_index_env: "gate_index cfg w req = Inr u \<Longrightarrow> mustHaveEnv cfg = Inr ()"
  by (auto simp: gate_index_def requireAuth_index_def split: sum.splits)

lemma gate_index_status: "gate_index cfg w req = Inl r \<Longrightarrow> status r \<noteq> 200"
  by (auto simp: gate_index_def requireAuth_index_def requireAdmin_index_def res_json_def Let_def
      split: sum.splits option.splits if_splits)

lemma gate_part0_status: "gate_part0 cfg w req = Inl r \<Longrightarrow> status r \<noteq> 200"
  by (auto simp: gate_part0_def requireAuth_part0_def requireAdminOrModeratorByRolesDoc_def
        res_json_def Let_def split: sum.splits option.splits if_splits)

lemma bearer_token_body: "bearer_token (req\<lparr>body := b\<rparr>) = bearer_token req"
  by (simp add: bearer_token_def)

lemma gate_index_body: "gate_index cfg w (req\<lparr>body := b\<rparr>) = gate_index cfg w req"
  unfolding gate_index_def requireAuth_index_def bearer_token_body ..

lemma gate_part0_body: "gate_part0 cfg w (req\<lparr>body := b\<rparr>) = gate_part0 cfg w req"
  unfolding gate_part0_def requireAuth_part0_def bearer_token_body ..


lemma bearer_token_keyed: "bearer_token (req\<lparr>x_signer_key := k\<rparr>) = bearer_token req"
  by (simp add: bearer_token_def)

lemma bearer_match_body: "bearer_match (req\<lparr>body := b\<rparr>) = bearer_match req"
  by (simp add: bearer_match_def)

lemma gate_index2_body: "gate_index2 cfg w (req\<lparr>body := b\<rparr>) = gate_index2 cfg w req"
  by (simp add: gate_index2_def requireSignerKey_def requireAdmin_index2_def bearer_match_body)

lemma gate_index2_status: "gate_index2 cfg w req = Inl r \<Longrightarrow> status r \<noteq> 200"
  by (auto simp: gate_index2_def requireSignerKey_def requireAdmin_index2_def res_json_def Let_def
      split: sum.splits option.splits if_splits)

section \<open>Facts about the administrator of the example\<close>

lemma lower_bearer: "toLowerCase ''Bearer '' = ''bearer ''"
  by code_simp

lemma ADMIN_EMAIL_cfg0: "ADMIN_EMAIL cfg0 = ''alice@example.com''"
  by code_simp

lemma address_alice: "toLowerCase (trim ''alice@example.com'') = ''alice@example.com''"
  by code_simp


lemma bearer_match_request_of:
  "token \<noteq> [] \<Longrightarrow> CHR 0x0A \<notin> set token \<Longrightarrow> CHR 0x0D \<notin> set token \<Longrightarrow>
   bearer_match (keyed_request_of key token obj) = Some token"
  by (simp add: bearer_match_def keyed_request_of_def request_of_def lower_bearer)

lemma requireSignerKey_cfg0: "requireSignerKey cfg0 (keyed_request_of ''s3cret'' token obj) = Inr ()"
  by (simp add: requireSignerKey_def keyed_request_of_def request_of_def cfg0_def unset_def)

lemma gate_index2_alice:
  "gate_index2 cfg0 w0 (keyed_request_of ''s3cret'' ''alice-token'' obj) =
     Inr \<lparr>uid = ''alice'', email = ''alice@example.com''\<rparr>"
  by (simp add: gate_index2_def requireSignerKey_cfg0 requireAdmin_index2_def
        bearer_match_request_of ADMIN_EMAIL_cfg0 address_alice w0_def verify0_def)
    (simp add: cfg0_def)

lemma body_keyed_request_of: "body (keyed_request_of key token obj) = JObj obj"
  by (simp add: keyed_request_of_def request_of_def)

lemma gate_index_keyed: "gate_index cfg w (req\<lparr>x_signer_key := k\<rparr>) = gate_index cfg w req"
  unfolding gate_index_def requireAuth_index_def bearer_token_keyed ..

lemma gate_part0_keyed: "gate_part0 cfg w (req\<lparr>x_signer_key := k\<rparr>) = gate_part0 cfg w req"
  unfolding gate_part0_def requireAuth_part0_def bearer_token_keyed ..

lemma gate_index_keyed_alice:
  "gate_index cfg0 w0 (keyed_request_of key ''alice-token'' obj) = Inr ()"
  unfolding keyed_request_of_def gate_index_keyed by (rule gate_index_alice)

lemma gate_part0_keyed_alice:
  "gate_part0 cfg0 w0 (keyed_request_of key ''alice-token'' obj) = Inr ''admin''"
  unfolding keyed_request_of_def gate_part0_keyed by (rule gate_part0_alice)

section \<open>The claims about the signer\<close>

text \<open>
  C1. For the parameter mapping \<^verbatim>\<open>{folder:"x", timestamp:1000}\<close> and the secret
  \<^verbatim>\<open>"abc"\<close> the string-to-sign is \<^verbatim>\<open>folder=x&timestamp=1000\<close> and the signature is
  the SHA-1 digest of \<^verbatim>\<open>folder=x&timestamp=1000abc\<close>, whatever function \<open>H\<close> computes the
  digest; a digest is 40 lowercase hex digits, that is 160 bits. The \<^verbatim>\<open>/sign\<close> route of
  each of the four revisions answers so for the administrator who asks for folder \<^verbatim>\<open>x\<close> at
  unix time 1000 on a server whose secret is \<^verbatim>\<open>abc\<close>.
\<close>

theorem sign_example:
  "stringToSign [(''folder'', JStr ''x''), (''timestamp'', JNum ''1000'')] =
     Inr ''folder=x&timestamp=1000''
   \<and> sign H [(''folder'', JStr ''x''), (''timestamp'', JNum ''1000'')] ''abc'' =
       Inr (H ''folder=x&timestamp=1000abc'')
   \<and> length (sha1 s) = 40
   \<and> set (sha1 s) \<subseteq> set ''0123456789abcdef''
   \<and> post_sign_index cfg0 w0 (request_of ''alice-token'' [(''folder'', JStr ''x'')]) =
       (\<lparr>status = 200,
         json = [(''cloudName'', JStr ''demo''), (''apiKey'', JStr ''key''),
                 (''timestamp'', JNum ''1000''),
                 (''signature'', JStr (sha1 ''folder=x&timestamp=1000abc'')),
                 (''folder'', JStr ''x''), (''public_id'', JNull)]\<rparr>,
        emit (Sha1 ''folder=x&timestamp=1000abc'') w0)
   \<and> post_sign_part0 cfg0 w0 (request_of ''alice-token'' [(''folder'', JStr ''x'')]) =
       (\<lparr>status = 200,
         json = [(''cloudName'', JStr ''demo''), (''apiKey'', JStr ''key''),
                 (''timestamp'', JNum ''1000''),
                 (''signature'', JStr (sha1 ''folder=x&timestamp=1000abc'')),
                 (''folder'', JStr ''x''), (''public_id'', JNull),
                 (''stringToSign'', JStr ''folder=x&timestamp=1000'')]\<rparr>,
        emit (Sha1 ''folder=x&timestamp=1000abc'') w0)
   \<and> post_sign_index2 cfg0 w0
         (keyed_request_of ''s3cret'' ''alice-token'' [(''folder'', JStr ''x'')]) =
       (\<lparr>status = 200,
         json = [(''cloudName'', JStr ''demo''), (''apiKey'', JStr ''key''),
                 (''timestamp'', JNum ''1000''),
                 (''signature'', JStr (sha1 ''folder=x&timestamp=1000abc'')),
                 (''folder'', JStr ''x''), (''public_id'', JNull),
                 (''stringToSign'', JStr ''folder=x&timestamp=1000'')]\<rparr>,
        emit (Sha1 ''folder=x&timestamp=1000abc'') w0)
   \<and> post_sign_index3 cfg0 w0 (request_of ''alice-token'' [(''folder'', JStr ''x'')]) =
       (\<lparr>status = 200,
         json = [(''cloudName'', JStr ''demo''), (''apiKey'', JStr ''key''),
                 (''timestamp'', JNum ''1000''),
                 (''signature'', JStr (sha1 ''folder=x&timestamp=1000abc'')),
                 (''folder'', JStr ''x''), (''public_id'', JNull),
                 (''stringToSign'', JStr ''folder=x&timestamp=1000'')]\<rparr>,
        emit (Sha1 ''folder=x&timestamp=1000abc'') w0)"
proof -
  have params: "[(''folder'', JStr ''x''), (''timestamp'', JNum ''1000'')] =
      sign_params (JStr ''x'') JUndefined 1000"
    by (simp add: sign_params_def js_int_def int_to_string_1000)
  have sts: "stringToSign [(''folder'', JStr ''x''), (''timestamp'', JNum ''1000'')] =
      Inr ''folder=x&timestamp=1000''"
    unfolding params by (simp add: stringToSign_sign_params int_to_string_1000)
  have sig: "sign H [(''folder'', JStr ''x''), (''timestamp'', JNum ''1000'')] ''abc'' =
      Inr (H ''folder=x&timestamp=1000abc'')"
    by (simp add: sign_def sts)
  have idx: "post_sign_index cfg0 w0 (request_of ''alice-token'' [(''folder'', JStr ''x'')]) =
      (\<lparr>status = 200,
        json = [(''cloudName'', JStr ''demo''), (''apiKey'', JStr ''key''),
                (''timestamp'', JNum ''1000''),
                (''signature'', JStr (sha1 ''folder=x&timestamp=1000abc'')),
                (''folder'', JStr ''x''), (''public_id'', JNull)]\<rparr>,
       emit (Sha1 ''folder=x&timestamp=1000abc'') w0)"
    by (simp add: post_sign_index_def gate_index_alice sign_index_def mustHaveEnv_cfg0
          body_request_of unix_seconds_w0 sha1_hex_w0 env_cfg0 stringToSign_sign_params
          js_int_def int_to_string_1000 res_json_def js_coalesce_def)
  have h: "sign_handler msg cfg0 w0 \<lparr>authorization = a, x_signer_key = k,
        body = JObj [(''folder'', JStr ''x'')]\<rparr> =
      (\<lparr>status = 200,
        json = [(''cloudName'', JStr ''demo''), (''apiKey'', JStr ''key''),
                (''timestamp'', JNum ''1000''),
                (''signature'', JStr (sha1 ''folder=x&timestamp=1000abc'')),
                (''folder'', JStr ''x''), (''public_id'', JNull),
                (''stringToSign'', JStr ''folder=x&timestamp=1000'')]\<rparr>,
       emit (Sha1 ''folder=x&timestamp=1000abc'') w0)" for msg a k
    by (simp add: sign_handler_def unix_seconds_w0 sha1_hex_w0 env_cfg0
          stringToSign_sign_params js_int_def int_to_string_1000 res_json_def js_coalesce_def)
  have p0: "post_sign_part0 cfg0 w0 (request_of ''alice-token'' [(''folder'', JStr ''x'')]) =
      (\<lparr>status = 200,
        json = [(''cloudName'', JStr ''demo''), (''apiKey'', JStr ''key''),
                (''timestamp'', JNum ''1000''),
                (''signature'', JStr (sha1 ''folder=x&timestamp=1000abc'')),
                (''folder'', JStr ''x''), (''public_id'', JNull),
                (''stringToSign'', JStr ''folder=x&timestamp=1000'')]\<rparr>,
       emit (Sha1 ''folder=x&timestamp=1000abc'') w0)"
    unfolding post_sign_part0_def gate_part0_alice by (simp add: request_of_def h)
  have i2: "post_sign_index2 cfg0 w0
        (keyed_request_of ''s3cret'' ''alice-token'' [(''folder'', JStr ''x'')]) =
      (\<lparr>status = 200,
        json = [(''cloudName'', JStr ''demo''), (''apiKey'', JStr ''key''),
                (''timestamp'', JNum ''1000''),
                (''signature'', JStr (sha1 ''folder=x&timestamp=1000abc'')),
                (''folder'', JStr ''x''), (''public_id'', JNull),
                (''stringToSign'', JStr ''folder=x&timestamp=1000'')]\<rparr>,
       emit (Sha1 ''folder=x&timestamp=1000abc'') w0)"
    unfolding post_sign_index2_def gate_index2_alice
    by (simp add: keyed_request_of_def request_of_def h)
  have i3: "post_sign_index3 cfg0 w0 (request_of ''alice-token'' [(''folder'', JStr ''x'')]) =
      (\<lparr>status = 200,
        json = [(''cloudName'', JStr ''demo''), (''apiKey'', JStr ''key''),
                (''timestamp'', JNum ''1000''),
                (''signature'', JStr (sha1 ''folder=x&timestamp=1000abc'')),
                (''folder'', JStr ''x''), (''public_id'', JNull),
                (''stringToSign'', JStr ''folder=x&timestamp=1000'')]\<rparr>,
       emit (Sha1 ''folder=x&timestamp=1000abc'') w0)"
    unfolding post_sign_index3_def by (simp add: request_of_def h)
  show ?thesis
    using sts sig sha1_length [of s] sha1_lower [of s] idx p0 i2 i3 by blast
qed

text \<open>
  C2. The signer is a function of the mapping and the secret, and the order in which the keys
  were inserted does not matter: two objects with the same properties have the same
  string-to-sign and the same signature.
\<close>

theorem sign_key_order:
  assumes "distinct (map fst P)" and "distinct (map fst P')" and "set P = set P'"
  shows "stringToSign P = stringToSign P' \<and> sign H P S = sign H P' S"
proof -
  have m: "map_of P = map_of P'" using assms by (rule map_of_eq_of_set_eq)
  have r: "render_pair P = render_pair P'" by (rule ext) (simp add: render_pair_def m)
  have s: "sort (object_keys P) = sort (object_keys P')"
    using assms by (rule sort_keys_eq_of_set_eq)
  have "stringToSign P = stringToSign P'" by (simp add: stringToSign_def r s)
  then show ?thesis by (simp add: sign_def)
qed

theorem sign_key_order_witness:
  "distinct (map fst [(''b'', JNum ''2''), (''a'', JNum ''1'')])
   \<and> distinct (map fst [(''a'', JNum ''1''), (''b'', JNum ''2'')])
   \<and> set [(''b'', JNum ''2''), (''a'', JNum ''1'')] = set [(''a'', JNum ''1''), (''b'', JNum ''2'')]
   \<and> stringToSign [(''b'', JNum ''2''), (''a'', JNum ''1'')] = stringToSign [(''a'', JNum ''1''), (''b'', JNum ''2'')]
   \<and> sign sha1 [(''b'', JNum ''2''), (''a'', JNum ''1'')] ''abc'' =
       sign sha1 [(''a'', JNum ''1''), (''b'', JNum ''2'')] ''abc''"
proof -
  have d1: "distinct (map fst [(''b'', JNum ''2''), (''a'', JNum ''1'')])" by simp
  have d2: "distinct (map fst [(''a'', JNum ''1''), (''b'', JNum ''2'')])" by simp
  have e: "set [(''b'', JNum ''2''), (''a'', JNum ''1'')] = set [(''a'', JNum ''1''), (''b'', JNum ''2'')]"
    by (simp add: insert_commute)
  show ?thesis
    using d1 d2 e sign_key_order [OF d1 d2 e, of sha1 "''abc''"] by blast
qed

text \<open>
  C10. A value goes into the string-to-sign as it is, \<^verbatim>\<open>=\<close> and \<^verbatim>\<open>&\<close> included, so two
  different mappings can have one string-to-sign and, for every secret and every digest
  function, one signature: the folder \<^verbatim>\<open>x&public_id=y\<close> alone, and the folder \<^verbatim>\<open>x\<close>
  with the public id \<^verbatim>\<open>y\<close>. The two requests get the same signature from \<^verbatim>\<open>/sign\<close>,
  in each of the four revisions.
\<close>

theorem sign_unescaped_collision:
  "map_of (sign_params (JStr ''x&public_id=y'') JUndefined t) \<noteq>
     map_of (sign_params (JStr ''x'') (JStr ''y'') t)
   \<and> stringToSign (sign_params (JStr ''x&public_id=y'') JUndefined t) =
       Inr (''folder=x&public_id=y&timestamp='' @ int_to_string t)
   \<and> stringToSign (sign_params (JStr ''x'') (JStr ''y'') t) =
       Inr (''folder=x&public_id=y&timestamp='' @ int_to_string t)
   \<and> sign H (sign_params (JStr ''x&public_id=y'') JUndefined t) S =
       Inr (H (''folder=x&public_id=y&timestamp='' @ int_to_string t @ S))
   \<and> sign H (sign_params (JStr ''x'') (JStr ''y'') t) S =
       Inr (H (''folder=x&public_id=y&timestamp='' @ int_to_string t @ S))
   \<and> map_of (json (fst (post_sign_index cfg w
         \<lparr>authorization = a, x_signer_key = k,
          body = JObj [(''folder'', JStr ''x&public_id=y'')]\<rparr>))) ''signature'' =
       map_of (json (fst (post_sign_index cfg w
         \<lparr>authorization = a, x_signer_key = k,
          body = JObj [(''folder'', JStr ''x''), (''public_id'', JStr ''y'')]\<rparr>))) ''signature''
   \<and> map_of (json (fst (post_sign_part0 cfg w
         \<lparr>authorization = a, x_signer_key = k,
          body = JObj [(''folder'', JStr ''x&public_id=y'')]\<rparr>))) ''signature'' =
       map_of (json (fst (post_sign_part0 cfg w
         \<lparr>authorization = a, x_signer_key = k,
          body = JObj [(''folder'', JStr ''x''), (''public_id'', JStr ''y'')]\<rparr>))) ''signature''
   \<and> map_of (json (fst (post_sign_index2 cfg w
         \<lparr>authorization = a, x_signer_key = k,
          body = JObj [(''folder'', JStr ''x&public_id=y'')]\<rparr>))) ''signature'' =
       map_of (json (fst (post_sign_index2 cfg w
         \<lparr>authorization = a, x_signer_key = k,
          body = JObj [(''folder'', JStr ''x''), (''public_id'', JStr ''y'')]\<rparr>))) ''signature''
   \<and> map_of (json (fst (post_sign_index3 cfg w
         \<lparr>authorization = a, x_signer_key = k,
          body = JObj [(''folder'', JStr ''x&public_id=y'')]\<rparr>))) ''signature'' =
       map_of (json (fst (post_sign_index3 cfg w
         \<lparr>authorization = a, x_signer_key = k,
          body = JObj [(''folder'', JStr ''x''), (''public_id'', JStr ''y'')]\<rparr>))) ''signature''"
proof -
  let ?P = "sign_params (JStr ''x&public_id=y'') JUndefined t"
  let ?Q = "sign_params (JStr ''x'') (JStr ''y'') t"
  let ?r1 = "\<lparr>authorization = a, x_signer_key = k,
      body = JObj [(''folder'', JStr ''x&public_id=y'')]\<rparr>"
  let ?r2 = "\<lparr>authorization = a, x_signer_key = k,
      body = JObj [(''folder'', JStr ''x''), (''public_id'', JStr ''y'')]\<rparr>"
  have "map_of ?P ''public_id'' \<noteq> map_of ?Q ''public_id''"
    by (simp add: sign_params_def)
  then have ne: "map_of ?P \<noteq> map_of ?Q" by metis
  have s1: "stringToSign ?P = Inr (''folder=x&public_id=y&timestamp='' @ int_to_string t)"
    by (simp add: stringToSign_sign_params)
  have s2: "stringToSign ?Q = Inr (''folder=x&public_id=y&timestamp='' @ int_to_string t)"
    by (simp add: stringToSign_sign_params)
  have sg1: "sign H ?P S = Inr (H (''folder=x&public_id=y&timestamp='' @ int_to_string t @ S))"
    by (simp add: sign_def s1)
  have sg2: "sign H ?Q S = Inr (H (''folder=x&public_id=y&timestamp='' @ int_to_string t @ S))"
    by (simp add: sign_def s2)
  have r2: "?r2 = ?r1\<lparr>body := JObj [(''folder'', JStr ''x''), (''public_id'', JStr ''y'')]\<rparr>"
    by simp
  have g1: "gate_index cfg w ?r2 = gate_index cfg w ?r1"
    unfolding r2 by (rule gate_index_body)
  have g2: "gate_part0 cfg w ?r2 = gate_part0 cfg w ?r1"
    unfolding r2 by (rule gate_part0_body)
  have g3: "gate_index2 cfg w ?r2 = gate_index2 cfg w ?r1"
    unfolding r2 by (rule gate_index2_body)
  have i: "map_of (json (fst (post_sign_index cfg w ?r1))) ''signature'' =
      map_of (json (fst (post_sign_index cfg w ?r2))) ''signature''"
    unfolding post_sign_index_def g1
    by (cases "gate_index cfg w ?r1"; cases "mustHaveEnv cfg")
      (simp_all add: sign_index_def stringToSign_sign_params res_json_def Let_def)
  have h: "map_of (json (fst (sign_handler msg cfg w ?r1))) ''signature'' =
      map_of (json (fst (sign_handler msg cfg w ?r2))) ''signature''" for msg
    by (simp add: sign_handler_def stringToSign_sign_params res_json_def Let_def)
  have p: "map_of (json (fst (post_sign_part0 cfg w ?r1))) ''signature'' =
      map_of (json (fst (post_sign_part0 cfg w ?r2))) ''signature''"
    unfolding post_sign_part0_def g2 by (cases "gate_part0 cfg w ?r1") (simp_all add: h)
  have i2: "map_of (json (fst (post_sign_index2 cfg w ?r1))) ''signature'' =
      map_of (json (fst (post_sign_index2 cfg w ?r2))) ''signature''"
    unfolding post_sign_index2_def g3 by (cases "gate_index2 cfg w ?r1") (simp_all add: h)
  have i3: "map_of (json (fst (post_sign_index3 cfg w ?r1))) ''signature'' =
      map_of (json (fst (post_sign_index3 cfg w ?r2))) ''signature''"
    unfolding post_sign_index3_def by (rule h)
  show ?thesis using ne s1 s2 sg1 sg2 i p i2 i3 by blast
qed

section \<open>The claims about \<^verbatim>\<open>POST /sign\<close>\<close>

lemma get_prop_total: "get_prop b k = Inr v \<Longrightarrow> \<exists>v'. get_prop b k' = Inr v'"
  by (cases b) simp_all

lemma truthy_defined: "truthy v \<Longrightarrow> v \<noteq> JUndefined"
  by (cases v) simp_all

lemma js_coalesce_null: "js_coalesce v JNull \<noteq> JUndefined"
  by (cases v) (simp_all add: js_coalesce_def)

lemma js_int_defined: "js_int i \<noteq> JUndefined"
  by (simp add: js_int_def)

lemma not_unset: "\<not> unset v \<Longrightarrow> \<exists>s. v = Some s \<and> s \<noteq> [] \<and> env_val v = JStr s \<and> env_str v = s"
  by (cases v) (simp_all add: unset_def env_val_def env_str_def)

lemma mustHaveEnv_ok:
  "mustHaveEnv cfg = Inr u \<Longrightarrow>
     \<not> unset (CLOUD_NAME cfg) \<and> \<not> unset (API_KEY cfg) \<and> \<not> unset (API_SECRET cfg)"
  by (auto simp: mustHaveEnv_def split: if_splits)

text \<open>The handlers on a body without a folder, and on no body at all.\<close>

lemma sign_index_falsy:
  assumes "mustHaveEnv cfg = Inr ()" and "get_prop (body req) ''folder'' = Inr folder"
    and "\<not> truthy folder"
  shows "sign_index cfg w req = (res_json 400 [(''error'', JStr ''folder required'')], w)"
proof -
  from get_prop_total [OF assms(2)] obtain public_id
    where pid: "get_prop (body req) ''public_id'' = Inr public_id" by blast
  show ?thesis using assms by (simp add: sign_index_def pid)
qed

lemma sign_index_throws:
  assumes "mustHaveEnv cfg = Inr ()" and "get_prop (body req) ''folder'' = Inl e"
  shows "sign_index cfg w req = (res_json 500 [(''error'', JStr e)], w)"
  using assms by (simp add: sign_index_def)

lemma sign_handler_falsy:
  assumes "get_prop (body req) ''folder'' = Inr folder" and "\<not> truthy folder"
  shows "sign_handler msg cfg w req = (res_json 400 [(''error'', JStr ''folder required'')], w)"
proof -
  from get_prop_total [OF assms(1)] obtain public_id
    where pid: "get_prop (body req) ''public_id'' = Inr public_id" by blast
  show ?thesis using assms by (simp add: sign_handler_def pid)
qed

lemma sign_handler_throws:
  assumes "get_prop (body req) ''folder'' = Inl e"
  shows "sign_handler msg cfg w req = (res_json 500 [(''error'', JStr e)], w)"
  using assms by (simp add: sign_handler_def)

text \<open>What a successful answer of a handler is.\<close>

lemma sign_index_success:
  assumes "mustHaveEnv cfg = Inr ()" and "status (fst (sign_index cfg w req)) = 200"
  shows "\<exists>folder public_id c k s.
           get_prop (body req) ''folder'' = Inr folder \<and>
           get_prop (body req) ''public_id'' = Inr public_id \<and>
           truthy folder \<and> CLOUD_NAME cfg = Some c \<and> API_KEY cfg = Some k \<and>
           stringToSign (sign_params folder public_id (now w div 1000)) = Inr s \<and>
           sign_index cfg w req =
             (\<lparr>status = 200,
               json = [(''cloudName'', JStr c), (''apiKey'', JStr k),
                       (''timestamp'', js_int (now w div 1000)),
                       (''signature'', JStr (sha1_hex w (s @ env_str (API_SECRET cfg)))),
                       (''folder'', folder),
                       (''public_id'', js_coalesce public_id JNull)]\<rparr>,
              emit (Sha1 (s @ env_str (API_SECRET cfg))) w)"
proof -
  from mustHaveEnv_ok [OF assms(1)] not_unset [of "CLOUD_NAME cfg"] not_unset [of "API_KEY cfg"]
  obtain c k where ck: "CLOUD_NAME cfg = Some c" "API_KEY cfg = Some k"
      "env_val (CLOUD_NAME cfg) = JStr c" "env_val (API_KEY cfg) = JStr k"
    by blast
  show ?thesis
  proof (cases "get_prop (body req) ''folder''")
    case (Inl e)
    then show ?thesis using assms by (simp add: sign_index_throws res_json_def)
  next
    case folder: (Inr folder)
    from get_prop_total [OF folder] obtain public_id
      where pid: "get_prop (body req) ''public_id'' = Inr public_id" by blast
    show ?thesis
    proof (cases "truthy folder")
      case False
      then show ?thesis
        using assms sign_index_falsy [OF assms(1) folder False, of w] by (simp add: res_json_def)
    next
      case True
      show ?thesis
      proof (cases "stringToSign (sign_params folder public_id (now w div 1000))")
        case (Inl e)
        then show ?thesis
          using assms True
          by (simp add: sign_index_def folder pid res_json_def unix_seconds_def)
      next
        case (Inr s)
        then show ?thesis
          using assms(1) True truthy_defined [OF True] js_coalesce_null [of public_id]
            js_int_defined [of "now w div 1000"]
          by (simp add: sign_index_def folder pid res_json_def ck(1,2) env_val_def
                unix_seconds_def Let_def)
      qed
    qed
  qed
qed

lemma sign_handler_success:
  assumes "status (fst (sign_handler msg cfg w req)) = 200"
  shows "\<exists>folder public_id c k s.
           get_prop (body req) ''folder'' = Inr folder \<and>
           get_prop (body req) ''public_id'' = Inr public_id \<and>
           truthy folder \<and> CLOUD_NAME cfg = Some c \<and> API_KEY cfg = Some k \<and>
           stringToSign (sign_params folder public_id (now w div 1000)) = Inr s \<and>
           sign_handler msg cfg w req =
             (\<lparr>status = 200,
               json = [(''cloudName'', JStr c), (''apiKey'', JStr k),
                       (''timestamp'', js_int (now w div 1000)),
                       (''signature'', JStr (sha1_hex w (s @ env_str (API_SECRET cfg)))),
                       (''folder'', folder),
                       (''public_id'', js_coalesce public_id JNull),
                       (''stringToSign'', JStr s)]\<rparr>,
              emit (Sha1 (s @ env_str (API_SECRET cfg))) w)"
proof (cases "get_prop (body req) ''folder''")
  case (Inl e)
  then show ?thesis using assms by (simp add: sign_handler_throws res_json_def)
next
  case folder: (Inr folder)
  from get_prop_total [OF folder] obtain public_id
    where pid: "get_prop (body req) ''public_id'' = Inr public_id" by blast
  show ?thesis
  proof (cases "truthy folder")
    case False
    then show ?thesis
      using assms sign_handler_falsy [OF folder False, of msg cfg w] by (simp add: res_json_def)
  next
    case True
    show ?thesis
    proof (cases "unset (CLOUD_NAME cfg) \<or> unset (API_KEY cfg) \<or> unset (API_SECRET cfg)")
      case unset: True
      then show ?thesis
        using assms True by (simp add: sign_handler_def folder pid res_json_def)
    next
      case set: False
      with not_unset [of "CLOUD_NAME cfg"] not_unset [of "API_KEY cfg"]
      obtain c k where ck: "CLOUD_NAME cfg = Some c" "API_KEY cfg = Some k"
          "env_val (CLOUD_NAME cfg) = JStr c" "env_val (API_KEY cfg) = JStr k"
        by blast
      show ?thesis
      proof (cases "stringToSign (sign_params folder public_id (now w div 1000))")
        case (Inl e)
        then show ?thesis
          using assms True set
          by (simp add: sign_handler_def folder pid res_json_def unix_seconds_def)
      next
        case (Inr s)
        then show ?thesis
          using set True truthy_defined [OF True] js_coalesce_null [of public_id]
            js_int_defined [of "now w div 1000"]
          by (simp add: sign_handler_def folder pid res_json_def ck(1,2) env_val_def
                unix_seconds_def Let_def)
      qed
    qed
  qed
qed

text \<open>The routes behind their gates.\<close>

lemma post_sign_index_passed:
  "gate_index cfg w req = Inr u \<Longrightarrow>
     mustHaveEnv cfg = Inr () \<and> post_sign_index cfg w req = sign_index cfg w req"
  using gate_index_env [of cfg w req u] by (simp add: post_sign_index_def)

lemma post_sign_index_refused:
  "gate_index cfg w req = Inl r \<Longrightarrow>
     post_sign_index cfg w req = (r, w) \<and> status r \<noteq> 200"
  using gate_index_status [of cfg w req r] by (simp add: post_sign_index_def)

lemma post_sign_part0_passed:
  "gate_part0 cfg w req = Inr role \<Longrightarrow>
     post_sign_part0 cfg w req = sign_handler ''Cloudinary env vars not set'' cfg w req"
  by (simp add: post_sign_part0_def)

lemma post_sign_part0_refused:
  "gate_part0 cfg w req = Inl r \<Longrightarrow>
     post_sign_part0 cfg w req = (r, w) \<and> status r \<noteq> 200"
  using gate_part0_status [of cfg w req r] by (simp add: post_sign_part0_def)

lemma post_sign_index2_passed:
  "gate_index2 cfg w req = Inr user \<Longrightarrow>
     post_sign_index2 cfg w req = sign_handler ''Cloudinary env vars not set'' cfg w req"
  by (simp add: post_sign_index2_def)

lemma post_sign_index2_refused:
  "gate_index2 cfg w req = Inl r \<Longrightarrow>
     post_sign_index2 cfg w req = (r, w) \<and> status r \<noteq> 200"
  using gate_index2_status [of cfg w req r] by (simp add: post_sign_index2_def)

text \<open>The routes read the folder and the public id of the body, and nothing else of it.\<close>

lemma sign_handler_reads:
  assumes "get_prop b ''folder'' = get_prop (body req) ''folder''"
    and "get_prop b ''public_id'' = get_prop (body req) ''public_id''"
  shows "sign_handler msg cfg w (req\<lparr>body := b\<rparr>) = sign_handler msg cfg w req"
  using assms by (simp add: sign_handler_def cong: sum.case_cong)

lemma post_sign_index_reads:
  assumes "get_prop b ''folder'' = get_prop (body req) ''folder''"
    and "get_prop b ''public_id'' = get_prop (body req) ''public_id''"
  shows "post_sign_index cfg w (req\<lparr>body := b\<rparr>) = post_sign_index cfg w req"
proof -
  have h: "sign_index cfg w (req\<lparr>body := b\<rparr>) = sign_index cfg w req"
    using assms by (simp add: sign_index_def cong: sum.case_cong)
  show ?thesis unfolding post_sign_index_def gate_index_body h ..
qed

lemma post_sign_part0_reads:
  assumes "get_prop b ''folder'' = get_prop (body req) ''folder''"
    and "get_prop b ''public_id'' = get_prop (body req) ''public_id''"
  shows "post_sign_part0 cfg w (req\<lparr>body := b\<rparr>) = post_sign_part0 cfg w req"
  unfolding post_sign_part0_def gate_part0_body sign_handler_reads [OF assms] ..

lemma post_sign_index2_reads:
  assumes "get_prop b ''folder'' = get_prop (body req) ''folder''"
    and "get_prop b ''public_id'' = get_prop (body req) ''public_id''"
  shows "post_sign_index2 cfg w (req\<lparr>body := b\<rparr>) = post_sign_index2 cfg w req"
  unfolding post_sign_index2_def gate_index2_body sign_handler_reads [OF assms] ..

lemma post_sign_index3_reads:
  assumes "get_prop b ''folder'' = get_prop (body req) ''folder''"
    and "get_prop b ''public_id'' = get_prop (body req) ''public_id''"
  shows "post_sign_index3 cfg w (req\<lparr>body := b\<rparr>) = post_sign_index3 cfg w req"
  unfolding post_sign_index3_def sign_handler_reads [OF assms] ..

text \<open>A route that is refused by its gate or by its handler leaves the world as it was.\<close>

lemma post_sign_index_no_folder:
  assumes "sign_index cfg w req = (r, w)" and "status r \<noteq> 200"
  shows "status (fst (post_sign_index cfg w req)) \<noteq> 200 \<and> snd (post_sign_index cfg w req) = w"
proof (cases "gate_index cfg w req")
  case (Inl r')
  then show ?thesis using post_sign_index_refused [OF Inl] by simp
next
  case (Inr u)
  then show ?thesis using post_sign_index_passed [OF Inr] assms by simp
qed






lemma post_sign_index_success:
  assumes "status (fst (post_sign_index cfg w req)) = 200"
  shows "\<exists>folder public_id c k s.
           get_prop (body req) ''folder'' = Inr folder \<and>
           get_prop (body req) ''public_id'' = Inr public_id \<and>
           truthy folder \<and> CLOUD_NAME cfg = Some c \<and> API_KEY cfg = Some k \<and>
           stringToSign (sign_params folder public_id (now w div 1000)) = Inr s \<and>
           post_sign_index cfg w req =
             (\<lparr>status = 200,
               json = [(''cloudName'', JStr c), (''apiKey'', JStr k),
                       (''timestamp'', js_int (now w div 1000)),
                       (''signature'', JStr (sha1_hex w (s @ env_str (API_SECRET cfg)))),
                       (''folder'', folder),
                       (''public_id'', js_coalesce public_id JNull)]\<rparr>,
              emit (Sha1 (s @ env_str (API_SECRET cfg))) w)"
proof (cases "gate_index cfg w req")
  case (Inl r)
  then show ?thesis using assms post_sign_index_refused [OF Inl] by simp
next
  case (Inr u)
  from post_sign_index_passed [OF Inr] have env: "mustHaveEnv cfg = Inr ()"
    and route: "post_sign_index cfg w req = sign_index cfg w req" by simp_all
  from assms have s: "status (fst (sign_index cfg w req)) = 200" by (simp add: route)
  show ?thesis unfolding route by (rule sign_index_success [OF env s])
qed

lemma post_sign_part0_success:
  assumes "status (fst (post_sign_part0 cfg w req)) = 200"
  shows "\<exists>folder public_id c k s.
           get_prop (body req) ''folder'' = Inr folder \<and>
           get_prop (body req) ''public_id'' = Inr public_id \<and>
           truthy folder \<and> CLOUD_NAME cfg = Some c \<and> API_KEY cfg = Some k \<and>
           stringToSign (sign_params folder public_id (now w div 1000)) = Inr s \<and>
           post_sign_part0 cfg w req =
             (\<lparr>status = 200,
               json = [(''cloudName'', JStr c), (''apiKey'', JStr k),
                       (''timestamp'', js_int (now w div 1000)),
                       (''signature'', JStr (sha1_hex w (s @ env_str (API_SECRET cfg)))),
                       (''folder'', folder),
                       (''public_id'', js_coalesce public_id JNull),
                       (''stringToSign'', JStr s)]\<rparr>,
              emit (Sha1 (s @ env_str (API_SECRET cfg))) w)"
proof (cases "gate_part0 cfg w req")
  case (Inl r)
  then show ?thesis using assms post_sign_part0_refused [OF Inl] by simp
next
  case (Inr u)
  note route = post_sign_part0_passed [OF Inr]
  from assms have s: "status (fst (sign_handler ''Cloudinary env vars not set'' cfg w req)) = 200"
    by (simp add: route)
  show ?thesis unfolding route by (rule sign_handler_success [OF s])
qed

lemma post_sign_index2_success:
  assumes "status (fst (post_sign_index2 cfg w req)) = 200"
  shows "\<exists>folder public_id c k s.
           get_prop (body req) ''folder'' = Inr folder \<and>
           get_prop (body req) ''public_id'' = Inr public_id \<and>
           truthy folder \<and> CLOUD_NAME cfg = Some c \<and> API_KEY cfg = Some k \<and>
           stringToSign (sign_params folder public_id (now w div 1000)) = Inr s \<and>
           post_sign_index2 cfg w req =
             (\<lparr>status = 200,
               json = [(''cloudName'', JStr c), (''apiKey'', JStr k),
                       (''timestamp'', js_int (now w div 1000)),
                       (''signature'', JStr (sha1_hex w (s @ env_str (API_SECRET cfg)))),
                       (''folder'', folder),
                       (''public_id'', js_coalesce public_id JNull),
                       (''stringToSign'', JStr s)]\<rparr>,
              emit (Sha1 (s @ env_str (API_SECRET cfg))) w)"
proof (cases "gate_index2 cfg w req")
  case (Inl r)
  then show ?thesis using assms post_sign_index2_refused [OF Inl] by simp
next
  case (Inr u)
  note route = post_sign_index2_passed [OF Inr]
  from assms have s: "status (fst (sign_handler ''Cloudinary env vars not set'' cfg w req)) = 200"
    by (simp add: route)
  show ?thesis unfolding route by (rule sign_handler_success [OF s])
qed

lemma post_sign_index3_success:
  assumes "status (fst (post_sign_index3 cfg w req)) = 200"
  shows "\<exists>folder public_id c k s.
           get_prop (body req) ''folder'' = Inr folder \<and>
           get_prop (body req) ''public_id'' = Inr public_id \<and>
           truthy folder \<and> CLOUD_NAME cfg = Some c \<and> API_KEY cfg = Some k \<and>
           stringToSign (sign_params folder public_id (now w div 1000)) = Inr s \<and>
           post_sign_index3 cfg w req =
             (\<lparr>status = 200,
               json = [(''cloudName'', JStr c), (''apiKey'', JStr k),
                       (''timestamp'', js_int (now w div 1000)),
                       (''signature'', JStr (sha1_hex w (s @ env_str (API_SECRET cfg)))),
                       (''folder'', folder),
                       (''public_id'', js_coalesce public_id JNull),
                       (''stringToSign'', JStr s)]\<rparr>,
              emit (Sha1 (s @ env_str (API_SECRET cfg))) w)"
  using assms unfolding post_sign_index3_def by (rule sign_handler_success)

text \<open>What alice, the administrator of the example world, gets from each route.\<close>

lemma post_sign_index_alice:
  assumes "get_prop (JObj obj) ''folder'' = Inr folder"
    and "get_prop (JObj obj) ''public_id'' = Inr public_id" and "truthy folder"
    and "stringToSign (sign_params folder public_id 1000) = Inr s"
  shows "post_sign_index cfg0 w0 (keyed_request_of ''s3cret'' ''alice-token'' obj) =
      (\<lparr>status = 200,
        json = [(''cloudName'', JStr ''demo''), (''apiKey'', JStr ''key''),
                 (''timestamp'', JNum ''1000''),
                 (''signature'', JStr (sha1 (s @ ''abc''))),
                 (''folder'', folder),
                 (''public_id'', js_coalesce public_id JNull)]\<rparr>,
       emit (Sha1 (s @ ''abc'')) w0)"
  using assms truthy_defined [OF assms(3)] js_coalesce_null [of public_id]
  by (simp add: post_sign_index_def gate_index_keyed_alice sign_index_def mustHaveEnv_cfg0
        body_keyed_request_of unix_seconds_w0 sha1_hex_w0 env_cfg0 res_json_def Let_def
        js_int_def int_to_string_1000)

lemma post_sign_part0_alice:
  assumes "get_prop (JObj obj) ''folder'' = Inr folder"
    and "get_prop (JObj obj) ''public_id'' = Inr public_id" and "truthy folder"
    and "stringToSign (sign_params folder public_id 1000) = Inr s"
  shows "post_sign_part0 cfg0 w0 (keyed_request_of ''s3cret'' ''alice-token'' obj) =
      (\<lparr>status = 200,
        json = [(''cloudName'', JStr ''demo''), (''apiKey'', JStr ''key''),
                 (''timestamp'', JNum ''1000''),
                 (''signature'', JStr (sha1 (s @ ''abc''))),
                 (''folder'', folder),
                 (''public_id'', js_coalesce public_id JNull),
                 (''stringToSign'', JStr s)]\<rparr>,
       emit (Sha1 (s @ ''abc'')) w0)"
  using assms truthy_defined [OF assms(3)] js_coalesce_null [of public_id]
  by (simp add: post_sign_part0_def gate_part0_keyed_alice sign_handler_def
        body_keyed_request_of unix_seconds_w0 sha1_hex_w0 env_cfg0 res_json_def Let_def
        js_int_def int_to_string_1000)

lemma post_sign_index2_alice:
  assumes "get_prop (JObj obj) ''folder'' = Inr folder"
    and "get_prop (JObj obj) ''public_id'' = Inr public_id" and "truthy folder"
    and "stringToSign (sign_params folder public_id 1000) = Inr s"
  shows "post_sign_index2 cfg0 w0 (keyed_request_of ''s3cret'' ''alice-token'' obj) =
      (\<lparr>status = 200,
        json = [(''cloudName'', JStr ''demo''), (''apiKey'', JStr ''key''),
                 (''timestamp'', JNum ''1000''),
                 (''signature'', JStr (sha1 (s @ ''abc''))),
                 (''folder'', folder),
                 (''public_id'', js_coalesce public_id JNull),
                 (''stringToSign'', JStr s)]\<rparr>,
       emit (Sha1 (s @ ''abc'')) w0)"
  using assms truthy_defined [OF assms(3)] js_coalesce_null [of public_id]
  by (simp add: post_sign_index2_def gate_index2_alice sign_handler_def
        body_keyed_request_of unix_seconds_w0 sha1_hex_w0 env_cfg0 res_json_def Let_def
        js_int_def int_to_string_1000)

lemma post_sign_index3_alice:
  assumes "get_prop (JObj obj) ''folder'' = Inr folder"
    and "get_prop (JObj obj) ''public_id'' = Inr public_id" and "truthy folder"
    and "stringToSign (sign_params folder public_id 1000) = Inr s"
  shows "post_sign_index3 cfg0 w0 (keyed_request_of ''s3cret'' ''alice-token'' obj) =
      (\<lparr>status = 200,
        json = [(''cloudName'', JStr ''demo''), (''apiKey'', JStr ''key''),
                 (''timestamp'', JNum ''1000''),
                 (''signature'', JStr (sha1 (s @ ''abc''))),
                 (''folder'', folder),
                 (''public_id'', js_coalesce public_id JNull),
                 (''stringToSign'', JStr s)]\<rparr>,
       emit (Sha1 (s @ ''abc'')) w0)"
  using assms truthy_defined [OF assms(3)] js_coalesce_null [of public_id]
  by (simp add: post_sign_index3_def sign_handler_def
        body_keyed_request_of unix_seconds_w0 sha1_hex_w0 env_cfg0 res_json_def Let_def
        js_int_def int_to_string_1000)

text \<open>
  C4, as the code has it. A successful \<^verbatim>\<open>/sign\<close> computes one digest, over the
  string-to-sign of the mapping \<open>sign_params\<close> and the secret: the folder of the body, the
  unix time of the server's clock, and the public id of the body when that is truthy (an
  empty public id is left out, as a missing one is). The answer depends on the folder and the
  public id of the body only, so a \<^verbatim>\<open>timestamp\<close> that the caller sends changes nothing.
  This holds for the route of each of the four revisions.
\<close>

theorem sign_signed_mapping:
  "(status (fst (post_sign_index cfg w req)) = 200 \<longrightarrow>
      (\<exists>folder public_id s.
         get_prop (body req) ''folder'' = Inr folder \<and>
         get_prop (body req) ''public_id'' = Inr public_id \<and>
         stringToSign (sign_params folder public_id (now w div 1000)) = Inr s \<and>
         snd (post_sign_index cfg w req) = emit (Sha1 (s @ env_str (API_SECRET cfg))) w \<and>
         map_of (json (fst (post_sign_index cfg w req))) ''signature'' =
           Some (JStr (sha1_hex w (s @ env_str (API_SECRET cfg))))))
   \<and> (status (fst (post_sign_part0 cfg w req)) = 200 \<longrightarrow>
      (\<exists>folder public_id s.
         get_prop (body req) ''folder'' = Inr folder \<and>
         get_prop (body req) ''public_id'' = Inr public_id \<and>
         stringToSign (sign_params folder public_id (now w div 1000)) = Inr s \<and>
         snd (post_sign_part0 cfg w req) = emit (Sha1 (s @ env_str (API_SECRET cfg))) w \<and>
         map_of (json (fst (post_sign_part0 cfg w req))) ''signature'' =
           Some (JStr (sha1_hex w (s @ env_str (API_SECRET cfg))))))
   \<and> (status (fst (post_sign_index2 cfg w req)) = 200 \<longrightarrow>
      (\<exists>folder public_id s.
         get_prop (body req) ''folder'' = Inr folder \<and>
         get_prop (body req) ''public_id'' = Inr public_id \<and>
         stringToSign (sign_params folder public_id (now w div 1000)) = Inr s \<and>
         snd (post_sign_index2 cfg w req) = emit (Sha1 (s @ env_str (API_SECRET cfg))) w \<and>
         map_of (json (fst (post_sign_index2 cfg w req))) ''signature'' =
           Some (JStr (sha1_hex w (s @ env_str (API_SECRET cfg))))))
   \<and> (status (fst (post_sign_index3 cfg w req)) = 200 \<longrightarrow>
      (\<exists>folder public_id s.
         get_prop (body req) ''folder'' = Inr folder \<and>
         get_prop (body req) ''public_id'' = Inr public_id \<and>
         stringToSign (sign_params folder public_id (now w div 1000)) = Inr s \<and>
         snd (post_sign_index3 cfg w req) = emit (Sha1 (s @ env_str (API_SECRET cfg))) w \<and>
         map_of (json (fst (post_sign_index3 cfg w req))) ''signature'' =
           Some (JStr (sha1_hex w (s @ env_str (API_SECRET cfg))))))
   \<and> sign_params f p t =
       [(''folder'', f), (''timestamp'', js_int t)] @ (if truthy p then [(''public_id'', p)] else [])
   \<and> (get_prop b ''folder'' = get_prop (body req) ''folder'' \<and>
       get_prop b ''public_id'' = get_prop (body req) ''public_id'' \<longrightarrow>
         post_sign_index cfg w (req\<lparr>body := b\<rparr>) = post_sign_index cfg w req \<and>
         post_sign_part0 cfg w (req\<lparr>body := b\<rparr>) = post_sign_part0 cfg w req \<and>
         post_sign_index2 cfg w (req\<lparr>body := b\<rparr>) = post_sign_index2 cfg w req \<and>
         post_sign_index3 cfg w (req\<lparr>body := b\<rparr>) = post_sign_index3 cfg w req)"
proof -
  have c0: "(status (fst (post_sign_index cfg w req)) = 200 \<longrightarrow>
          (\<exists>folder public_id s.
             get_prop (body req) ''folder'' = Inr folder \<and>
             get_prop (body req) ''public_id'' = Inr public_id \<and>
             stringToSign (sign_params folder public_id (now w div 1000)) = Inr s \<and>
             snd (post_sign_index cfg w req) = emit (Sha1 (s @ env_str (API_SECRET cfg))) w \<and>
             map_of (json (fst (post_sign_index cfg w req))) ''signature'' =
               Some (JStr (sha1_hex w (s @ env_str (API_SECRET cfg))))))"
  proof
    assume "status (fst (post_sign_index cfg w req)) = 200"
    from post_sign_index_success [OF this] obtain folder public_id c k s where
      h: "get_prop (body req) ''folder'' = Inr folder"
         "get_prop (body req) ''public_id'' = Inr public_id"
         "stringToSign (sign_params folder public_id (now w div 1000)) = Inr s"
         "post_sign_index cfg w req =
             (\<lparr>status = 200,
               json = [(''cloudName'', JStr c), (''apiKey'', JStr k),
                        (''timestamp'', js_int (now w div 1000)),
                        (''signature'', JStr (sha1_hex w (s @ env_str (API_SECRET cfg)))),
                        (''folder'', folder),
                        (''public_id'', js_coalesce public_id JNull)]\<rparr>,
              emit (Sha1 (s @ env_str (API_SECRET cfg))) w)"
      by blast
    show "\<exists>folder public_id s.
         get_prop (body req) ''folder'' = Inr folder \<and>
         get_prop (body req) ''public_id'' = Inr public_id \<and>
         stringToSign (sign_params folder public_id (now w div 1000)) = Inr s \<and>
         snd (post_sign_index cfg w req) = emit (Sha1 (s @ env_str (API_SECRET cfg))) w \<and>
         map_of (json (fst (post_sign_index cfg w req))) ''signature'' =
           Some (JStr (sha1_hex w (s @ env_str (API_SECRET cfg))))"
      by (rule exI [of _ folder], rule exI [of _ public_id], rule exI [of _ s]) (simp add: h)
  qed
  have c1: "(status (fst (post_sign_part0 cfg w req)) = 200 \<longrightarrow>
          (\<exists>folder public_id s.
             get_prop (body req) ''folder'' = Inr folder \<and>
             get_prop (body req) ''public_id'' = Inr public_id \<and>
             stringToSign (sign_params folder public_id (now w div 1000)) = Inr s \<and>
             snd (post_sign_part0 cfg w req) = emit (Sha1 (s @ env_str (API_SECRET cfg))) w \<and>
             map_of (json (fst (post_sign_part0 cfg w req))) ''signature'' =
               Some (JStr (sha1_hex w (s @ env_str (API_SECRET cfg))))))"
  proof
    assume "status (fst (post_sign_part0 cfg w req)) = 200"
    from post_sign_part0_success [OF this] obtain folder public_id c k s where
      h: "get_prop (body req) ''folder'' = Inr folder"
         "get_prop (body req) ''public_id'' = Inr public_id"
         "stringToSign (sign_params folder public_id (now w div 1000)) = Inr s"
         "post_sign_part0 cfg w req =
             (\<lparr>status = 200,
               json = [(''cloudName'', JStr c), (''apiKey'', JStr k),
                        (''timestamp'', js_int (now w div 1000)),
                        (''signature'', JStr (sha1_hex w (s @ env_str (API_SECRET cfg)))),
                        (''folder'', folder),
                        (''public_id'', js_coalesce public_id JNull),
                        (''stringToSign'', JStr s)]\<rparr>,
              emit (Sha1 (s @ env_str (API_SECRET cfg))) w)"
      by blast
    show "\<exists>folder public_id s.
         get_prop (body req) ''folder'' = Inr folder \<and>
         get_prop (body req) ''public_id'' = Inr public_id \<and>
         stringToSign (sign_params folder public_id (now w div 1000)) = Inr s \<and>
         snd (post_sign_part0 cfg w req) = emit (Sha1 (s @ env_str (API_SECRET cfg))) w \<and>
         map_of (json (fst (post_sign_part0 cfg w req))) ''signature'' =
           Some (JStr (sha1_hex w (s @ env_str (API_SECRET cfg))))"
      by (rule exI [of _ folder], rule exI [of _ public_id], rule exI [of _ s]) (simp add: h)
  qed
  have c2: "(status (fst (post_sign_index2 cfg w req)) = 200 \<longrightarrow>
          (\<exists>folder public_id s.
             get_prop (body req) ''folder'' = Inr folder \<and>
             get_prop (body req) ''public_id'' = Inr public_id \<and>
             stringToSign (sign_params folder public_id (now w div 1000)) = Inr s \<and>
             snd (post_sign_index2 cfg w req) = emit (Sha1 (s @ env_str (API_SECRET cfg))) w \<and>
             map_of (json (fst (post_sign_index2 cfg w req))) ''signature'' =
               Some (JStr (sha1_hex w (s @ env_str (API_SECRET cfg))))))"
  proof
    assume "status (fst (post_sign_index2 cfg w req)) = 200"
    from post_sign_index2_success [OF this] obtain folder public_id c k s where
      h: "get_prop (body req) ''folder'' = Inr folder"
         "get_prop (body req) ''public_id'' = Inr public_id"
         "stringToSign (sign_params folder public_id (now w div 1000)) = Inr s"
         "post_sign_index2 cfg w req =
             (\<lparr>status = 200,
               json = [(''cloudName'', JStr c), (''apiKey'', JStr k),
                        (''timestamp'', js_int (now w div 1000)),
                        (''signature'', JStr (sha1_hex w (s @ env_str (API_SECRET cfg)))),
                        (''folder'', folder),
                        (''public_id'', js_coalesce public_id JNull),
                        (''stringToSign'', JStr s)]\<rparr>,
              emit (Sha1 (s @ env_str (API_SECRET cfg))) w)"
      by blast
    show "\<exists>folder public_id s.
         get_prop (body req) ''folder'' = Inr folder \<and>
         get_prop (body req) ''public_id'' = Inr public_id \<and>
         stringToSign (sign_params folder public_id (now w div 1000)) = Inr s \<and>
         snd (post_sign_index2 cfg w req) = emit (Sha1 (s @ env_str (API_SECRET cfg))) w \<and>
         map_of (json (fst (post_sign_index2 cfg w req))) ''signature'' =
           Some (JStr (sha1_hex w (s @ env_str (API_SECRET cfg))))"
      by (rule exI [of _ folder], rule exI [of _ public_id], rule exI [of _ s]) (simp add: h)
  qed
  have c3: "(status (fst (post_sign_index3 cfg w req)) = 200 \<longrightarrow>
          (\<exists>folder public_id s.
             get_prop (body req) ''folder'' = Inr folder \<and>
             get_prop (body req) ''public_id'' = Inr public_id \<and>
             stringToSign (sign_params folder public_id (now w div 1000)) = Inr s \<and>
             snd (post_sign_index3 cfg w req) = emit (Sha1 (s @ env_str (API_SECRET cfg))) w \<and>
             map_of (json (fst (post_sign_index3 cfg w req))) ''signature'' =
               Some (JStr (sha1_hex w (s @ env_str (API_SECRET cfg))))))"
  proof
    assume "status (fst (post_sign_index3 cfg w req)) = 200"
    from post_sign_index3_success [OF this] obtain folder public_id c k s where
      h: "get_prop (body req) ''folder'' = Inr folder"
         "get_prop (body req) ''public_id'' = Inr public_id"
         "stringToSign (sign_params folder public_id (now w div 1000)) = Inr s"
         "post_sign_index3 cfg w req =
             (\<lparr>status = 200,
               json = [(''cloudName'', JStr c), (''apiKey'', JStr k),
                        (''timestamp'', js_int (now w div 1000)),
                        (''signature'', JStr (sha1_hex w (s @ env_str (API_SECRET cfg)))),
                        (''folder'', folder),
                        (''public_id'', js_coalesce public_id JNull),
                        (''stringToSign'', JStr s)]\<rparr>,
              emit (Sha1 (s @ env_str (API_SECRET cfg))) w)"
      by blast
    show "\<exists>folder public_id s.
         get_prop (body req) ''folder'' = Inr folder \<and>
         get_prop (body req) ''public_id'' = Inr public_id \<and>
         stringToSign (sign_params folder public_id (now w div 1000)) = Inr s \<and>
         snd (post_sign_index3 cfg w req) = emit (Sha1 (s @ env_str (API_SECRET cfg))) w \<and>
         map_of (json (fst (post_sign_index3 cfg w req))) ''signature'' =
           Some (JStr (sha1_hex w (s @ env_str (API_SECRET cfg))))"
      by (rule exI [of _ folder], rule exI [of _ public_id], rule exI [of _ s]) (simp add: h)
  qed
  have q: "sign_params f p t =
      [(''folder'', f), (''timestamp'', js_int t)] @ (if truthy p then [(''public_id'', p)] else [])"
    by (simp add: sign_params_def)
  have r: "get_prop b ''folder'' = get_prop (body req) ''folder'' \<and>
       get_prop b ''public_id'' = get_prop (body req) ''public_id'' \<longrightarrow>
         post_sign_index cfg w (req\<lparr>body := b\<rparr>) = post_sign_index cfg w req \<and>
         post_sign_part0 cfg w (req\<lparr>body := b\<rparr>) = post_sign_part0 cfg w req \<and>
         post_sign_index2 cfg w (req\<lparr>body := b\<rparr>) = post_sign_index2 cfg w req \<and>
         post_sign_index3 cfg w (req\<lparr>body := b\<rparr>) = post_sign_index3 cfg w req"
    using post_sign_index_reads [of b req cfg w] post_sign_part0_reads [of b req cfg w]
      post_sign_index2_reads [of b req cfg w] post_sign_index3_reads [of b req cfg w]
    by blast
  show ?thesis using c0 c1 c2 c3 q r by blast
qed

text \<open>
  alice asks for folder \<^verbatim>\<open>x\<close> and public id \<^verbatim>\<open>y\<close> and sends a timestamp 5 of her own: the
  digest is over the clock's 1000, and the answer is the one she gets without the timestamp.
\<close>

theorem sign_signed_mapping_witness:
  "status (fst (post_sign_index cfg0 w0 (keyed_request_of ''s3cret'' ''alice-token''
       [(''folder'', JStr ''x''), (''public_id'', JStr ''y''), (''timestamp'', JNum ''5'')]))) = 200
   \<and> snd (post_sign_index cfg0 w0 (keyed_request_of ''s3cret'' ''alice-token''
       [(''folder'', JStr ''x''), (''public_id'', JStr ''y''), (''timestamp'', JNum ''5'')])) =
       emit (Sha1 ''folder=x&public_id=y&timestamp=1000abc'') w0
   \<and> post_sign_index cfg0 w0 (keyed_request_of ''s3cret'' ''alice-token''
       [(''folder'', JStr ''x''), (''public_id'', JStr ''y''), (''timestamp'', JNum ''5'')]) =
     post_sign_index cfg0 w0 (keyed_request_of ''s3cret'' ''alice-token''
       [(''folder'', JStr ''x''), (''public_id'', JStr ''y'')])
   \<and> status (fst (post_sign_part0 cfg0 w0 (keyed_request_of ''s3cret'' ''alice-token''
       [(''folder'', JStr ''x''), (''public_id'', JStr ''y''), (''timestamp'', JNum ''5'')]))) = 200
   \<and> snd (post_sign_part0 cfg0 w0 (keyed_request_of ''s3cret'' ''alice-token''
       [(''folder'', JStr ''x''), (''public_id'', JStr ''y''), (''timestamp'', JNum ''5'')])) =
       emit (Sha1 ''folder=x&public_id=y&timestamp=1000abc'') w0
   \<and> post_sign_part0 cfg0 w0 (keyed_request_of ''s3cret'' ''alice-token''
       [(''folder'', JStr ''x''), (''public_id'', JStr ''y''), (''timestamp'', JNum ''5'')]) =
     post_sign_part0 cfg0 w0 (keyed_request_of ''s3cret'' ''alice-token''
       [(''folder'', JStr ''x''), (''public_id'', JStr ''y'')])
   \<and> status (fst (post_sign_index2 cfg0 w0 (keyed_request_of ''s3cret'' ''alice-token''
       [(''folder'', JStr ''x''), (''public_id'', JStr ''y''), (''timestamp'', JNum ''5'')]))) = 200
   \<and> snd (post_sign_index2 cfg0 w0 (keyed_request_of ''s3cret'' ''alice-token''
       [(''folder'', JStr ''x''), (''public_id'', JStr ''y''), (''timestamp'', JNum ''5'')])) =
       emit (Sha1 ''folder=x&public_id=y&timestamp=1000abc'') w0
   \<and> post_sign_index2 cfg0 w0 (keyed_request_of ''s3cret'' ''alice-token''
       [(''folder'', JStr ''x''), (''public_id'', JStr ''y''), (''timestamp'', JNum ''5'')]) =
     post_sign_index2 cfg0 w0 (keyed_request_of ''s3cret'' ''alice-token''
       [(''folder'', JStr ''x''), (''public_id'', JStr ''y'')])
   \<and> status (fst (post_sign_index3 cfg0 w0 (keyed_request_of ''s3cret'' ''alice-token''
       [(''folder'', JStr ''x''), (''public_id'', JStr ''y''), (''timestamp'', JNum ''5'')]))) = 200
   \<and> snd (post_sign_index3 cfg0 w0 (keyed_request_of ''s3cret'' ''alice-token''
       [(''folder'', JStr ''x''), (''public_id'', JStr ''y''), (''timestamp'', JNum ''5'')])) =
       emit (Sha1 ''folder=x&public_id=y&timestamp=1000abc'') w0
   \<and> post_sign_index3 cfg0 w0 (keyed_request_of ''s3cret'' ''alice-token''
       [(''folder'', JStr ''x''), (''public_id'', JStr ''y''), (''timestamp'', JNum ''5'')]) =
     post_sign_index3 cfg0 w0 (keyed_request_of ''s3cret'' ''alice-token''
       [(''folder'', JStr ''x''), (''public_id'', JStr ''y'')])"
proof -
  let ?obj = "[(''folder'', JStr ''x''), (''public_id'', JStr ''y''), (''timestamp'', JNum ''5'')]"
  let ?obj' = "[(''folder'', JStr ''x''), (''public_id'', JStr ''y'')]"
  let ?req = "keyed_request_of ''s3cret'' ''alice-token'' ?obj"
  have sts: "stringToSign (sign_params (JStr ''x'') (JStr ''y'') 1000) =
      Inr ''folder=x&public_id=y&timestamp=1000''"
    by (simp add: stringToSign_sign_params int_to_string_1000)
  have now: "now w0 div 1000 = 1000" using unix_seconds_w0 by (simp add: unix_seconds_def)
  have req': "?req\<lparr>body := JObj ?obj'\<rparr> = keyed_request_of ''s3cret'' ''alice-token'' ?obj'"
    by (simp add: keyed_request_of_def request_of_def)
  have rd: "get_prop (JObj ?obj') ''folder'' = get_prop (body ?req) ''folder'' \<and>
      get_prop (JObj ?obj') ''public_id'' = get_prop (body ?req) ''public_id''"
    by (simp add: body_keyed_request_of)
  note t = sign_signed_mapping [where cfg = cfg0 and w = w0 and req = ?req and b = "JObj ?obj'"
      and f = "JStr ''x''" and p = "JStr ''y''" and t = 1000]
  note reads = t [THEN conjunct2, THEN conjunct2, THEN conjunct2, THEN conjunct2,
      THEN conjunct2, rule_format, OF rd, unfolded req']
  have s0: "status (fst (post_sign_index cfg0 w0 ?req)) = 200"
    by (simp add: post_sign_index_alice [of ?obj "JStr ''x''" "JStr ''y''", OF _ _ _ sts])
  from t [THEN conjunct1, rule_format, OF s0]
  have e0: "snd (post_sign_index cfg0 w0 ?req) =
      emit (Sha1 ''folder=x&public_id=y&timestamp=1000abc'') w0"
    by (auto simp: body_keyed_request_of now env_cfg0 sts)
  have r0: "post_sign_index cfg0 w0 ?req =
      post_sign_index cfg0 w0 (keyed_request_of ''s3cret'' ''alice-token'' ?obj')"
    by (rule reads [THEN conjunct1, symmetric])
  have s1: "status (fst (post_sign_part0 cfg0 w0 ?req)) = 200"
    by (simp add: post_sign_part0_alice [of ?obj "JStr ''x''" "JStr ''y''", OF _ _ _ sts])
  from t [THEN conjunct2, THEN conjunct1, rule_format, OF s1]
  have e1: "snd (post_sign_part0 cfg0 w0 ?req) =
      emit (Sha1 ''folder=x&public_id=y&timestamp=1000abc'') w0"
    by (auto simp: body_keyed_request_of now env_cfg0 sts)
  have r1: "post_sign_part0 cfg0 w0 ?req =
      post_sign_part0 cfg0 w0 (keyed_request_of ''s3cret'' ''alice-token'' ?obj')"
    by (rule reads [THEN conjunct2, THEN conjunct1, symmetric])
  have s2: "status (fst (post_sign_index2 cfg0 w0 ?req)) = 200"
    by (simp add: post_sign_index2_alice [of ?obj "JStr ''x''" "JStr ''y''", OF _ _ _ sts])
  from t [THEN conjunct2, THEN conjunct2, THEN conjunct1, rule_format, OF s2]
  have e2: "snd (post_sign_index2 cfg0 w0 ?req) =
      emit (Sha1 ''folder=x&public_id=y&timestamp=1000abc'') w0"
    by (auto simp: body_keyed_request_of now env_cfg0 sts)
  have r2: "post_sign_index2 cfg0 w0 ?req =
      post_sign_index2 cfg0 w0 (keyed_request_of ''s3cret'' ''alice-token'' ?obj')"
    by (rule reads [THEN conjunct2, THEN conjunct2, THEN conjunct1, symmetric])
  have s3: "status (fst (post_sign_index3 cfg0 w0 ?req)) = 200"
    by (simp add: post_sign_index3_alice [of ?obj "JStr ''x''" "JStr ''y''", OF _ _ _ sts])
  from t [THEN conjunct2, THEN conjunct2, THEN conjunct2, THEN conjunct1, rule_format, OF s3]
  have e3: "snd (post_sign_index3 cfg0 w0 ?req) =
      emit (Sha1 ''folder=x&public_id=y&timestamp=1000abc'') w0"
    by (auto simp: body_keyed_request_of now env_cfg0 sts)
  have r3: "post_sign_index3 cfg0 w0 ?req =
      post_sign_index3 cfg0 w0 (keyed_request_of ''s3cret'' ''alice-token'' ?obj')"
    by (rule reads [THEN conjunct2, THEN conjunct2, THEN conjunct2, symmetric])
  show ?thesis using s0 e0 r0 s1 e1 r1 s2 e2 r2 s3 e3 r3 by blast
qed

text \<open>
  C4 as it is written fails when the caller supplies an empty public id: the request
  succeeds, the answer echoes the empty public id, and the signed mapping has the keys
  \<^verbatim>\<open>folder\<close> and \<^verbatim>\<open>timestamp\<close> only.
\<close>

theorem sign_empty_public_id_counterexample:
  "get_prop (body (keyed_request_of ''s3cret'' ''alice-token''
       [(''folder'', JStr ''x''), (''public_id'', JStr [])])) ''public_id'' = Inr (JStr [])
   \<and> object_keys (sign_params (JStr ''x'') (JStr []) 1000) = [''folder'', ''timestamp'']
   \<and> post_sign_index cfg0 w0
        (keyed_request_of ''s3cret'' ''alice-token''
           [(''folder'', JStr ''x''), (''public_id'', JStr [])]) =
       (\<lparr>status = 200,
         json = [(''cloudName'', JStr ''demo''), (''apiKey'', JStr ''key''),
                 (''timestamp'', JNum ''1000''),
                 (''signature'', JStr (sha1 ''folder=x&timestamp=1000abc'')),
                 (''folder'', JStr ''x''), (''public_id'', JStr [])]\<rparr>,
        emit (Sha1 ''folder=x&timestamp=1000abc'') w0)
   \<and> post_sign_part0 cfg0 w0
        (keyed_request_of ''s3cret'' ''alice-token''
           [(''folder'', JStr ''x''), (''public_id'', JStr [])]) =
       (\<lparr>status = 200,
         json = [(''cloudName'', JStr ''demo''), (''apiKey'', JStr ''key''),
                 (''timestamp'', JNum ''1000''),
                 (''signature'', JStr (sha1 ''folder=x&timestamp=1000abc'')),
                 (''folder'', JStr ''x''), (''public_id'', JStr []),
                 (''stringToSign'', JStr ''folder=x&timestamp=1000'')]\<rparr>,
        emit (Sha1 ''folder=x&timestamp=1000abc'') w0)"
proof -
  let ?obj = "[(''folder'', JStr ''x''), (''public_id'', JStr [])]"
  have sts: "stringToSign (sign_params (JStr ''x'') (JStr []) 1000) =
      Inr ''folder=x&timestamp=1000''"
    by (simp add: stringToSign_sign_params int_to_string_1000)
  have a: "get_prop (body (keyed_request_of ''s3cret'' ''alice-token'' ?obj)) ''public_id'' =
      Inr (JStr [])"
    by (simp add: body_keyed_request_of)
  have b: "object_keys (sign_params (JStr ''x'') (JStr []) 1000) = [''folder'', ''timestamp'']"
    by (simp add: object_keys_def sign_params_def)
  show ?thesis
    using a b post_sign_index_alice [of ?obj "JStr ''x''" "JStr []", OF _ _ _ sts]
      post_sign_part0_alice [of ?obj "JStr ''x''" "JStr []", OF _ _ _ sts]
    by (simp add: js_coalesce_def)
qed

text \<open>
  C5, as the code has it. A successful answer of the first module of \<^verbatim>\<open>src/index.js\<close>
  (lines 145-178) has the six properties
  \<^verbatim>\<open>cloudName, apiKey, timestamp, signature, folder, public_id\<close>; the one of \<^verbatim>\<open>part_000\<close>
  and of the second and the third module of \<^verbatim>\<open>src/index.js\<close> (lines 310-346 and 376-413)
  has a seventh, \<^verbatim>\<open>stringToSign\<close>, the string that was signed. In all four the signature is
  the signer's, and the public id is there, \<^verbatim>\<open>null\<close> when the body has none.
\<close>

theorem sign_response_body:
  "(status (fst (post_sign_index cfg w req)) = 200 \<longrightarrow>
      (\<exists>folder public_id c k t.
         get_prop (body req) ''folder'' = Inr folder \<and>
         get_prop (body req) ''public_id'' = Inr public_id \<and>
         CLOUD_NAME cfg = Some c \<and> API_KEY cfg = Some k \<and>
         stringToSign (sign_params folder public_id (now w div 1000)) = Inr t \<and>
         sign (sha1_hex w) (sign_params folder public_id (now w div 1000))
           (env_str (API_SECRET cfg)) = Inr (sha1_hex w (t @ env_str (API_SECRET cfg))) \<and>
         fst (post_sign_index cfg w req) =
           \<lparr>status = 200,
            json = [(''cloudName'', JStr c), (''apiKey'', JStr k),
                     (''timestamp'', js_int (now w div 1000)),
                     (''signature'', JStr (sha1_hex w (t @ env_str (API_SECRET cfg)))),
                     (''folder'', folder),
                     (''public_id'', js_coalesce public_id JNull)]\<rparr> \<and>
         js_coalesce public_id JNull \<noteq> JUndefined \<and>
         (public_id = JUndefined \<longrightarrow>
            map_of (json (fst (post_sign_index cfg w req))) ''public_id'' = Some JNull)))
   \<and> (status (fst (post_sign_part0 cfg w req)) = 200 \<longrightarrow>
      (\<exists>folder public_id c k t.
         get_prop (body req) ''folder'' = Inr folder \<and>
         get_prop (body req) ''public_id'' = Inr public_id \<and>
         CLOUD_NAME cfg = Some c \<and> API_KEY cfg = Some k \<and>
         stringToSign (sign_params folder public_id (now w div 1000)) = Inr t \<and>
         sign (sha1_hex w) (sign_params folder public_id (now w div 1000))
           (env_str (API_SECRET cfg)) = Inr (sha1_hex w (t @ env_str (API_SECRET cfg))) \<and>
         fst (post_sign_part0 cfg w req) =
           \<lparr>status = 200,
            json = [(''cloudName'', JStr c), (''apiKey'', JStr k),
                     (''timestamp'', js_int (now w div 1000)),
                     (''signature'', JStr (sha1_hex w (t @ env_str (API_SECRET cfg)))),
                     (''folder'', folder),
                     (''public_id'', js_coalesce public_id JNull),
                     (''stringToSign'', JStr t)]\<rparr> \<and>
         js_coalesce public_id JNull \<noteq> JUndefined \<and>
         (public_id = JUndefined \<longrightarrow>
            map_of (json (fst (post_sign_part0 cfg w req))) ''public_id'' = Some JNull)))
   \<and> (status (fst (post_sign_index2 cfg w req)) = 200 \<longrightarrow>
      (\<exists>folder public_id c k t.
         get_prop (body req) ''folder'' = Inr folder \<and>
         get_prop (body req) ''public_id'' = Inr public_id \<and>
         CLOUD_NAME cfg = Some c \<and> API_KEY cfg = Some k \<and>
         stringToSign (sign_params folder public_id (now w div 1000)) = Inr t \<and>
         sign (sha1_hex w) (sign_params folder public_id (now w div 1000))
           (env_str (API_SECRET cfg)) = Inr (sha1_hex w (t @ env_str (API_SECRET cfg))) \<and>
         fst (post_sign_index2 cfg w req) =
           \<lparr>status = 200,
            json = [(''cloudName'', JStr c), (''apiKey'', JStr k),
                     (''timestamp'', js_int (now w div 1000)),
                     (''signature'', JStr (sha1_hex w (t @ env_str (API_SECRET cfg)))),
                     (''folder'', folder),
                     (''public_id'', js_coalesce public_id JNull),
                     (''stringToSign'', JStr t)]\<rparr> \<and>
         js_coalesce public_id JNull \<noteq> JUndefined \<and>
         (public_id = JUndefined \<longrightarrow>
            map_of (json (fst (post_sign_index2 cfg w req))) ''public_id'' = Some JNull)))
   \<and> (status (fst (post_sign_index3 cfg w req)) = 200 \<longrightarrow>
      (\<exists>folder public_id c k t.
         get_prop (body req) ''folder'' = Inr folder \<and>
         get_prop (body req) ''public_id'' = Inr public_id \<and>
         CLOUD_NAME cfg = Some c \<and> API_KEY cfg = Some k \<and>
         stringToSign (sign_params folder public_id (now w div 1000)) = Inr t \<and>
         sign (sha1_hex w) (sign_params folder public_id (now w div 1000))
           (env_str (API_SECRET cfg)) = Inr (sha1_hex w (t @ env_str (API_SECRET cfg))) \<and>
         fst (post_sign_index3 cfg w req) =
           \<lparr>status = 200,
            json = [(''cloudName'', JStr c), (''apiKey'', JStr k),
                     (''timestamp'', js_int (now w div 1000)),
                     (''signature'', JStr (sha1_hex w (t @ env_str (API_SECRET cfg)))),
                     (''folder'', folder),
                     (''public_id'', js_coalesce public_id JNull),
                     (''stringToSign'', JStr t)]\<rparr> \<and>
         js_coalesce public_id JNull \<noteq> JUndefined \<and>
         (public_id = JUndefined \<longrightarrow>
            map_of (json (fst (post_sign_index3 cfg w req))) ''public_id'' = Some JNull)))"
proof -
  have c0: "(status (fst (post_sign_index cfg w req)) = 200 \<longrightarrow>
          (\<exists>folder public_id c k t.
             get_prop (body req) ''folder'' = Inr folder \<and>
             get_prop (body req) ''public_id'' = Inr public_id \<and>
             CLOUD_NAME cfg = Some c \<and> API_KEY cfg = Some k \<and>
             stringToSign (sign_params folder public_id (now w div 1000)) = Inr t \<and>
             sign (sha1_hex w) (sign_params folder public_id (now w div 1000))
               (env_str (API_SECRET cfg)) = Inr (sha1_hex w (t @ env_str (API_SECRET cfg))) \<and>
             fst (post_sign_index cfg w req) =
               \<lparr>status = 200,
                json = [(''cloudName'', JStr c), (''apiKey'', JStr k),
                         (''timestamp'', js_int (now w div 1000)),
                         (''signature'', JStr (sha1_hex w (t @ env_str (API_SECRET cfg)))),
                         (''folder'', folder),
                         (''public_id'', js_coalesce public_id JNull)]\<rparr> \<and>
             js_coalesce public_id JNull \<noteq> JUndefined \<and>
             (public_id = JUndefined \<longrightarrow>
                map_of (json (fst (post_sign_index cfg w req))) ''public_id'' = Some JNull)))"
  proof
    assume "status (fst (post_sign_index cfg w req)) = 200"
    from post_sign_index_success [OF this] obtain folder public_id c k s where
      h: "get_prop (body req) ''folder'' = Inr folder"
         "get_prop (body req) ''public_id'' = Inr public_id"
         "CLOUD_NAME cfg = Some c" "API_KEY cfg = Some k"
         "stringToSign (sign_params folder public_id (now w div 1000)) = Inr s"
         "post_sign_index cfg w req =
             (\<lparr>status = 200,
               json = [(''cloudName'', JStr c), (''apiKey'', JStr k),
                        (''timestamp'', js_int (now w div 1000)),
                        (''signature'', JStr (sha1_hex w (s @ env_str (API_SECRET cfg)))),
                        (''folder'', folder),
                        (''public_id'', js_coalesce public_id JNull)]\<rparr>,
              emit (Sha1 (s @ env_str (API_SECRET cfg))) w)"
      by blast
    show "\<exists>folder public_id c k t.
         get_prop (body req) ''folder'' = Inr folder \<and>
         get_prop (body req) ''public_id'' = Inr public_id \<and>
         CLOUD_NAME cfg = Some c \<and> API_KEY cfg = Some k \<and>
         stringToSign (sign_params folder public_id (now w div 1000)) = Inr t \<and>
         sign (sha1_hex w) (sign_params folder public_id (now w div 1000))
           (env_str (API_SECRET cfg)) = Inr (sha1_hex w (t @ env_str (API_SECRET cfg))) \<and>
         fst (post_sign_index cfg w req) =
           \<lparr>status = 200,
            json = [(''cloudName'', JStr c), (''apiKey'', JStr k),
                     (''timestamp'', js_int (now w div 1000)),
                     (''signature'', JStr (sha1_hex w (t @ env_str (API_SECRET cfg)))),
                     (''folder'', folder),
                     (''public_id'', js_coalesce public_id JNull)]\<rparr> \<and>
         js_coalesce public_id JNull \<noteq> JUndefined \<and>
         (public_id = JUndefined \<longrightarrow>
            map_of (json (fst (post_sign_index cfg w req))) ''public_id'' = Some JNull)"
      by (rule exI [of _ folder], rule exI [of _ public_id], rule exI [of _ c], rule exI [of _ k],
          rule exI [of _ s])
        (simp add: h sign_def js_coalesce_null, simp add: js_coalesce_def)
  qed
  have c1: "(status (fst (post_sign_part0 cfg w req)) = 200 \<longrightarrow>
          (\<exists>folder public_id c k t.
             get_prop (body req) ''folder'' = Inr folder \<and>
             get_prop (body req) ''public_id'' = Inr public_id \<and>
             CLOUD_NAME cfg = Some c \<and> API_KEY cfg = Some k \<and>
             stringToSign (sign_params folder public_id (now w div 1000)) = Inr t \<and>
             sign (sha1_hex w) (sign_params folder public_id (now w div 1000))
               (env_str (API_SECRET cfg)) = Inr (sha1_hex w (t @ env_str (API_SECRET cfg))) \<and>
             fst (post_sign_part0 cfg w req) =
               \<lparr>status = 200,
                json = [(''cloudName'', JStr c), (''apiKey'', JStr k),
                         (''timestamp'', js_int (now w div 1000)),
                         (''signature'', JStr (sha1_hex w (t @ env_str (API_SECRET cfg)))),
                         (''folder'', folder),
                         (''public_id'', js_coalesce public_id JNull),
                         (''stringToSign'', JStr t)]\<rparr> \<and>
             js_coalesce public_id JNull \<noteq> JUndefined \<and>
             (public_id = JUndefined \<longrightarrow>
                map_of (json (fst (post_sign_part0 cfg w req))) ''public_id'' = Some JNull)))"
  proof
    assume "status (fst (post_sign_part0 cfg w req)) = 200"
    from post_sign_part0_success [OF this] obtain folder public_id c k s where
      h: "get_prop (body req) ''folder'' = Inr folder"
         "get_prop (body req) ''public_id'' = Inr public_id"
         "CLOUD_NAME cfg = Some c" "API_KEY cfg = Some k"
         "stringToSign (sign_params folder public_id (now w div 1000)) = Inr s"
         "post_sign_part0 cfg w req =
             (\<lparr>status = 200,
               json = [(''cloudName'', JStr c), (''apiKey'', JStr k),
                        (''timestamp'', js_int (now w div 1000)),
                        (''signature'', JStr (sha1_hex w (s @ env_str (API_SECRET cfg)))),
                        (''folder'', folder),
                        (''public_id'', js_coalesce public_id JNull),
                        (''stringToSign'', JStr s)]\<rparr>,
              emit (Sha1 (s @ env_str (API_SECRET cfg))) w)"
      by blast
    show "\<exists>folder public_id c k t.
         get_prop (body req) ''folder'' = Inr folder \<and>
         get_prop (body req) ''public_id'' = Inr public_id \<and>
         CLOUD_NAME cfg = Some c \<and> API_KEY cfg = Some k \<and>
         stringToSign (sign_params folder public_id (now w div 1000)) = Inr t \<and>
         sign (sha1_hex w) (sign_params folder public_id (now w div 1000))
           (env_str (API_SECRET cfg)) = Inr (sha1_hex w (t @ env_str (API_SECRET cfg))) \<and>
         fst (post_sign_part0 cfg w req) =
           \<lparr>status = 200,
            json = [(''cloudName'', JStr c), (''apiKey'', JStr k),
                     (''timestamp'', js_int (now w div 1000)),
                     (''signature'', JStr (sha1_hex w (t @ env_str (API_SECRET cfg)))),
                     (''folder'', folder),
                     (''public_id'', js_coalesce public_id JNull),
                     (''stringToSign'', JStr t)]\<rparr> \<and>
         js_coalesce public_id JNull \<noteq> JUndefined \<and>
         (public_id = JUndefined \<longrightarrow>
            map_of (json (fst (post_sign_part0 cfg w req))) ''public_id'' = Some JNull)"
      by (rule exI [of _ folder], rule exI [of _ public_id], rule exI [of _ c], rule exI [of _ k],
          rule exI [of _ s])
        (simp add: h sign_def js_coalesce_null, simp add: js_coalesce_def)
  qed
  have c2: "(status (fst (post_sign_index2 cfg w req)) = 200 \<longrightarrow>
          (\<exists>folder public_id c k t.
             get_prop (body req) ''folder'' = Inr folder \<and>
             get_prop (body req) ''public_id'' = Inr public_id \<and>
             CLOUD_NAME cfg = Some c \<and> API_KEY cfg = Some k \<and>
             stringToSign (sign_params folder public_id (now w div 1000)) = Inr t \<and>
             sign (sha1_hex w) (sign_params folder public_id (now w div 1000))
               (env_str (API_SECRET cfg)) = Inr (sha1_hex w (t @ env_str (API_SECRET cfg))) \<and>
             fst (post_sign_index2 cfg w req) =
               \<lparr>status = 200,
                json = [(''cloudName'', JStr c), (''apiKey'', JStr k),
                         (''timestamp'', js_int (now w div 1000)),
                         (''signature'', JStr (sha1_hex w (t @ env_str (API_SECRET cfg)))),
                         (''folder'', folder),
                         (''public_id'', js_coalesce public_id JNull),
                         (''stringToSign'', JStr t)]\<rparr> \<and>
             js_coalesce public_id JNull \<noteq> JUndefined \<and>
             (public_id = JUndefined \<longrightarrow>
                map_of (json (fst (post_sign_index2 cfg w req))) ''public_id'' = Some JNull)))"
  proof
    assume "status (fst (post_sign_index2 cfg w req)) = 200"
    from post_sign_index2_success [OF this] obtain folder public_id c k s where
      h: "get_prop (body req) ''folder'' = Inr folder"
         "get_prop (body req) ''public_id'' = Inr public_id"
         "CLOUD_NAME cfg = Some c" "API_KEY cfg = Some k"
         "stringToSign (sign_params folder public_id (now w div 1000)) = Inr s"
         "post_sign_index2 cfg w req =
             (\<lparr>status = 200,
               json = [(''cloudName'', JStr c), (''apiKey'', JStr k),
                        (''timestamp'', js_int (now w div 1000)),
                        (''signature'', JStr (sha1_hex w (s @ env_str (API_SECRET cfg)))),
                        (''folder'', folder),
                        (''public_id'', js_coalesce public_id JNull),
                        (''stringToSign'', JStr s)]\<rparr>,
              emit (Sha1 (s @ env_str (API_SECRET cfg))) w)"
      by blast
    show "\<exists>folder public_id c k t.
         get_prop (body req) ''folder'' = Inr folder \<and>
         get_prop (body req) ''public_id'' = Inr public_id \<and>
         CLOUD_NAME cfg = Some c \<and> API_KEY cfg = Some k \<and>
         stringToSign (sign_params folder public_id (now w div 1000)) = Inr t \<and>
         sign (sha1_hex w) (sign_params folder public_id (now w div 1000))
           (env_str (API_SECRET cfg)) = Inr (sha1_hex w (t @ env_str (API_SECRET cfg))) \<and>
         fst (post_sign_index2 cfg w req) =
           \<lparr>status = 200,
            json = [(''cloudName'', JStr c), (''apiKey'', JStr k),
                     (''timestamp'', js_int (now w div 1000)),
                     (''signature'', JStr (sha1_hex w (t @ env_str (API_SECRET cfg)))),
                     (''folder'', folder),
                     (''public_id'', js_coalesce public_id JNull),
                     (''stringToSign'', JStr t)]\<rparr> \<and>
         js_coalesce public_id JNull \<noteq> JUndefined \<and>
         (public_id = JUndefined \<longrightarrow>
            map_of (json (fst (post_sign_index2 cfg w req))) ''public_id'' = Some JNull)"
      by (rule exI [of _ folder], rule exI [of _ public_id], rule exI [of _ c], rule exI [of _ k],
          rule exI [of _ s])
        (simp add: h sign_def js_coalesce_null, simp add: js_coalesce_def)
  qed
  have c3: "(status (fst (post_sign_index3 cfg w req)) = 200 \<longrightarrow>
          (\<exists>folder public_id c k t.
             get_prop (body req) ''folder'' = Inr folder \<and>
             get_prop (body req) ''public_id'' = Inr public_id \<and>
             CLOUD_NAME cfg = Some c \<and> API_KEY cfg = Some k \<and>
             stringToSign (sign_params folder public_id (now w div 1000)) = Inr t \<and>
             sign (sha1_hex w) (sign_params folder public_id (now w div 1000))
               (env_str (API_SECRET cfg)) = Inr (sha1_hex w (t @ env_str (API_SECRET cfg))) \<and>
             fst (post_sign_index3 cfg w req) =
               \<lparr>status = 200,
                json = [(''cloudName'', JStr c), (''apiKey'', JStr k),
                         (''timestamp'', js_int (now w div 1000)),
                         (''signature'', JStr (sha1_hex w (t @ env_str (API_SECRET cfg)))),
                         (''folder'', folder),
                         (''public_id'', js_coalesce public_id JNull),
                         (''stringToSign'', JStr t)]\<rparr> \<and>
             js_coalesce public_id JNull \<noteq> JUndefined \<and>
             (public_id = JUndefined \<longrightarrow>
                map_of (json (fst (post_sign_index3 cfg w req))) ''public_id'' = Some JNull)))"
  proof
    assume "status (fst (post_sign_index3 cfg w req)) = 200"
    from post_sign_index3_success [OF this] obtain folder public_id c k s where
      h: "get_prop (body req) ''folder'' = Inr folder"
         "get_prop (body req) ''public_id'' = Inr public_id"
         "CLOUD_NAME cfg = Some c" "API_KEY cfg = Some k"
         "stringToSign (sign_params folder public_id (now w div 1000)) = Inr s"
         "post_sign_index3 cfg w req =
             (\<lparr>status = 200,
               json = [(''cloudName'', JStr c), (''apiKey'', JStr k),
                        (''timestamp'', js_int (now w div 1000)),
                        (''signature'', JStr (sha1_hex w (s @ env_str (API_SECRET cfg)))),
                        (''folder'', folder),
                        (''public_id'', js_coalesce public_id JNull),
                        (''stringToSign'', JStr s)]\<rparr>,
              emit (Sha1 (s @ env_str (API_SECRET cfg))) w)"
      by blast
    show "\<exists>folder public_id c k t.
         get_prop (body req) ''folder'' = Inr folder \<and>
         get_prop (body req) ''public_id'' = Inr public_id \<and>
         CLOUD_NAME cfg = Some c \<and> API_KEY cfg = Some k \<and>
         stringToSign (sign_params folder public_id (now w div 1000)) = Inr t \<and>
         sign (sha1_hex w) (sign_params folder public_id (now w div 1000))
           (env_str (API_SECRET cfg)) = Inr (sha1_hex w (t @ env_str (API_SECRET cfg))) \<and>
         fst (post_sign_index3 cfg w req) =
           \<lparr>status = 200,
            json = [(''cloudName'', JStr c), (''apiKey'', JStr k),
                     (''timestamp'', js_int (now w div 1000)),
                     (''signature'', JStr (sha1_hex w (t @ env_str (API_SECRET cfg)))),
                     (''folder'', folder),
                     (''public_id'', js_coalesce public_id JNull),
                     (''stringToSign'', JStr t)]\<rparr> \<and>
         js_coalesce public_id JNull \<noteq> JUndefined \<and>
         (public_id = JUndefined \<longrightarrow>
            map_of (json (fst (post_sign_index3 cfg w req))) ''public_id'' = Some JNull)"
      by (rule exI [of _ folder], rule exI [of _ public_id], rule exI [of _ c], rule exI [of _ k],
          rule exI [of _ s])
        (simp add: h sign_def js_coalesce_null, simp add: js_coalesce_def)
  qed
  show ?thesis using c0 c1 c2 c3 by blast
qed

theorem sign_response_body_witness:
  "status (fst (post_sign_index cfg0 w0
         (keyed_request_of ''s3cret'' ''alice-token'' [(''folder'', JStr ''x'')]))) = 200
   \<and> map fst (json (fst (post_sign_index cfg0 w0
         (keyed_request_of ''s3cret'' ''alice-token'' [(''folder'', JStr ''x'')])))) =
       [''cloudName'', ''apiKey'', ''timestamp'', ''signature'', ''folder'', ''public_id'']
   \<and> map_of (json (fst (post_sign_index cfg0 w0
         (keyed_request_of ''s3cret'' ''alice-token'' [(''folder'', JStr ''x'')])))) ''public_id'' = Some JNull
   \<and> status (fst (post_sign_part0 cfg0 w0
         (keyed_request_of ''s3cret'' ''alice-token'' [(''folder'', JStr ''x'')]))) = 200
   \<and> map fst (json (fst (post_sign_part0 cfg0 w0
         (keyed_request_of ''s3cret'' ''alice-token'' [(''folder'', JStr ''x'')])))) =
       [''cloudName'', ''apiKey'', ''timestamp'', ''signature'', ''folder'', ''public_id'',
        ''stringToSign'']
   \<and> map_of (json (fst (post_sign_part0 cfg0 w0
         (keyed_request_of ''s3cret'' ''alice-token'' [(''folder'', JStr ''x'')])))) ''public_id'' = Some JNull
   \<and> status (fst (post_sign_index2 cfg0 w0
         (keyed_request_of ''s3cret'' ''alice-token'' [(''folder'', JStr ''x'')]))) = 200
   \<and> map fst (json (fst (post_sign_index2 cfg0 w0
         (keyed_request_of ''s3cret'' ''alice-token'' [(''folder'', JStr ''x'')])))) =
       [''cloudName'', ''apiKey'', ''timestamp'', ''signature'', ''folder'', ''public_id'',
        ''stringToSign'']
   \<and> map_of (json (fst (post_sign_index2 cfg0 w0
         (keyed_request_of ''s3cret'' ''alice-token'' [(''folder'', JStr ''x'')])))) ''public_id'' = Some JNull
   \<and> status (fst (post_sign_index3 cfg0 w0
         (keyed_request_of ''s3cret'' ''alice-token'' [(''folder'', JStr ''x'')]))) = 200
   \<and> map fst (json (fst (post_sign_index3 cfg0 w0
         (keyed_request_of ''s3cret'' ''alice-token'' [(''folder'', JStr ''x'')])))) =
       [''cloudName'', ''apiKey'', ''timestamp'', ''signature'', ''folder'', ''public_id'',
        ''stringToSign'']
   \<and> map_of (json (fst (post_sign_index3 cfg0 w0
         (keyed_request_of ''s3cret'' ''alice-token'' [(''folder'', JStr ''x'')])))) ''public_id'' = Some JNull"
proof -
  let ?obj = "[(''folder'', JStr ''x'')]"
  let ?req = "keyed_request_of ''s3cret'' ''alice-token'' ?obj"
  have sts: "stringToSign (sign_params (JStr ''x'') JUndefined 1000) =
      Inr ''folder=x&timestamp=1000''"
    by (simp add: stringToSign_sign_params int_to_string_1000)
  note t = sign_response_body [where cfg = cfg0 and w = w0 and req = ?req]
  have s0: "status (fst (post_sign_index cfg0 w0 ?req)) = 200"
    by (simp add: post_sign_index_alice [of ?obj "JStr ''x''" JUndefined, OF _ _ _ sts])
  from t [THEN conjunct1, rule_format, OF s0]
  have k0: "map fst (json (fst (post_sign_index cfg0 w0 ?req))) =
         [''cloudName'', ''apiKey'', ''timestamp'', ''signature'', ''folder'', ''public_id'']
       \<and> map_of (json (fst (post_sign_index cfg0 w0 ?req))) ''public_id'' = Some JNull"
    by (auto simp: body_keyed_request_of split: sum.splits)
  have s1: "status (fst (post_sign_part0 cfg0 w0 ?req)) = 200"
    by (simp add: post_sign_part0_alice [of ?obj "JStr ''x''" JUndefined, OF _ _ _ sts])
  from t [THEN conjunct2, THEN conjunct1, rule_format, OF s1]
  have k1: "map fst (json (fst (post_sign_part0 cfg0 w0 ?req))) =
         [''cloudName'', ''apiKey'', ''timestamp'', ''signature'', ''folder'', ''public_id'',
          ''stringToSign'']
       \<and> map_of (json (fst (post_sign_part0 cfg0 w0 ?req))) ''public_id'' = Some JNull"
    by (auto simp: body_keyed_request_of split: sum.splits)
  have s2: "status (fst (post_sign_index2 cfg0 w0 ?req)) = 200"
    by (simp add: post_sign_index2_alice [of ?obj "JStr ''x''" JUndefined, OF _ _ _ sts])
  from t [THEN conjunct2, THEN conjunct2, THEN conjunct1, rule_format, OF s2]
  have k2: "map fst (json (fst (post_sign_index2 cfg0 w0 ?req))) =
         [''cloudName'', ''apiKey'', ''timestamp'', ''signature'', ''folder'', ''public_id'',
          ''stringToSign'']
       \<and> map_of (json (fst (post_sign_index2 cfg0 w0 ?req))) ''public_id'' = Some JNull"
    by (auto simp: body_keyed_request_of split: sum.splits)
  have s3: "status (fst (post_sign_index3 cfg0 w0 ?req)) = 200"
    by (simp add: post_sign_index3_alice [of ?obj "JStr ''x''" JUndefined, OF _ _ _ sts])
  from t [THEN conjunct2, THEN conjunct2, THEN conjunct2, rule_format, OF s3]
  have k3: "map fst (json (fst (post_sign_index3 cfg0 w0 ?req))) =
         [''cloudName'', ''apiKey'', ''timestamp'', ''signature'', ''folder'', ''public_id'',
          ''stringToSign'']
       \<and> map_of (json (fst (post_sign_index3 cfg0 w0 ?req))) ''public_id'' = Some JNull"
    by (auto simp: body_keyed_request_of split: sum.splits)
  show ?thesis using s0 k0 s1 k1 s2 k2 s3 k3 by blast
qed

text \<open>
  C5 as it is written fails for \<^verbatim>\<open>part_000\<close>: the body of its 200 answer is not the six
  properties, it carries \<^verbatim>\<open>stringToSign\<close> too.
\<close>

theorem sign_part0_body_counterexample:
  "status (fst (post_sign_part0 cfg0 w0 (request_of ''alice-token'' [(''folder'', JStr ''x'')]))) = 200
   \<and> map fst (json (fst (post_sign_part0 cfg0 w0
         (request_of ''alice-token'' [(''folder'', JStr ''x'')])))) \<noteq>
       [''cloudName'', ''apiKey'', ''timestamp'', ''signature'', ''folder'', ''public_id'']
   \<and> map_of (json (fst (post_sign_part0 cfg0 w0
         (request_of ''alice-token'' [(''folder'', JStr ''x'')])))) ''stringToSign'' =
       Some (JStr ''folder=x&timestamp=1000'')"
proof -
  have sts: "stringToSign (sign_params (JStr ''x'') JUndefined 1000) =
      Inr ''folder=x&timestamp=1000''"
    by (simp add: stringToSign_sign_params int_to_string_1000)
  show ?thesis
    by (simp add: post_sign_part0_def gate_part0_alice sign_handler_def body_request_of
          unix_seconds_w0 sha1_hex_w0 env_cfg0 res_json_def Let_def js_int_def
          int_to_string_1000 js_coalesce_def sts)
qed

section \<open>The claims about \<^verbatim>\<open>POST /cloudinary/delete\<close>\<close>

lemma destroy_stringToSign_signer:
  "destroy_stringToSign public_id timestamp =
     stringToSign [(''public_id'', public_id), (''timestamp'', js_int timestamp)]"
  by (simp add: destroy_stringToSign_def stringToSign_def object_keys_def render_pair_def
        sort_destroy_keys to_string_js_int split: sum.split)

lemma destroy_stringToSign_converted:
  "to_string public_id = Inr s \<Longrightarrow>
     destroy_stringToSign public_id timestamp =
       Inr (''public_id='' @ s @ ''&timestamp='' @ int_to_string timestamp)"
  by (simp add: destroy_stringToSign_def)

lemma destroy_not_sign:
  "destroy_stringToSign p ts = Inr a \<Longrightarrow> stringToSign (sign_params f q t) \<noteq> Inr a"
  by (auto simp: destroy_stringToSign_def stringToSign_sign_params split: sum.splits if_splits)

lemma delete_part0_reads:
  assumes "get_prop b ''public_id'' = get_prop (body req) ''public_id''"
  shows "post_delete_part0 cfg w (req\<lparr>body := b\<rparr>) = post_delete_part0 cfg w req"
proof -
  have h: "delete_part0 cfg w (req\<lparr>body := b\<rparr>) = delete_part0 cfg w req"
    using assms by (simp add: delete_part0_def)
  show ?thesis unfolding post_delete_part0_def gate_part0_body h ..
qed

text \<open>The handler on a public id that converts to \<open>s\<close>, and on one that does not.\<close>

lemma delete_part0_converted:
  assumes "get_prop (body req) ''public_id'' = Inr public_id" and "truthy public_id"
    and "\<not> unset (CLOUD_NAME cfg)" and "\<not> unset (API_KEY cfg)" and "\<not> unset (API_SECRET cfg)"
    and "to_string public_id = Inr s"
    and "a = ''public_id='' @ s @ ''&timestamp='' @ int_to_string (now w div 1000)"
  shows "delete_part0 cfg w req =
      (case fetch w (destroy_url cfg) (formBody cfg w s a) of
         Inl e \<Rightarrow> (res_json 500 [(''error'', JStr e)], destroy_called cfg w s a)
       | Inr (st, text) \<Rightarrow>
           if \<not> resp_ok st then
             (res_json 500
                [(''error'', JStr ''Cloudinary destroy failed''),
                 (''status'', js_int (int st)),
                 (''body'', json_or_text w text)],
              destroy_called cfg w s a)
           else
             (res_json 200 [(''ok'', JBool True), (''cloudinary'', json_or_text w text)],
              destroy_called cfg w s a))"
proof -
  have sts: "destroy_stringToSign public_id (unix_seconds w) = Inr a"
    using assms(6,7) by (simp add: destroy_stringToSign_def unix_seconds_def)
  show ?thesis using assms(1-6) by (simp add: delete_part0_def sts)
qed

lemma delete_part0_throws:
  assumes "get_prop (body req) ''public_id'' = Inr public_id" and "truthy public_id"
    and "\<not> unset (CLOUD_NAME cfg)" and "\<not> unset (API_KEY cfg)" and "\<not> unset (API_SECRET cfg)"
    and "to_string public_id = Inl e"
  shows "delete_part0 cfg w req = (res_json 500 [(''error'', JStr e)], w)"
  using assms by (simp add: delete_part0_def destroy_stringToSign_def)

lemma delete_part0_called:
  assumes "get_prop (body req) ''public_id'' = Inr public_id" and "truthy public_id"
    and "\<not> unset (CLOUD_NAME cfg)" and "\<not> unset (API_KEY cfg)" and "\<not> unset (API_SECRET cfg)"
    and "to_string public_id = Inr s"
  shows "snd (delete_part0 cfg w req) =
      destroy_called cfg w s (''public_id='' @ s @ ''&timestamp='' @ int_to_string (now w div 1000))"
  unfolding delete_part0_converted [OF assms refl]
  by (simp split: sum.split prod.split)

lemma delete_part0_effects:
  "snd (delete_part0 cfg w req) = w \<or>
   (\<exists>public_id s. get_prop (body req) ''public_id'' = Inr public_id \<and> truthy public_id \<and>
      to_string public_id = Inr s \<and>
      snd (delete_part0 cfg w req) =
        destroy_called cfg w s
          (''public_id='' @ s @ ''&timestamp='' @ int_to_string (now w div 1000)))"
proof (cases "get_prop (body req) ''public_id''")
  case (Inl e)
  then show ?thesis by (simp add: delete_part0_def)
next
  case p: (Inr public_id)
  show ?thesis
  proof (cases "truthy public_id \<and> \<not> unset (CLOUD_NAME cfg) \<and> \<not> unset (API_KEY cfg) \<and>
      \<not> unset (API_SECRET cfg)")
    case False
    then show ?thesis by (auto simp: delete_part0_def p)
  next
    case True
    show ?thesis
    proof (cases "to_string public_id")
      case (Inl e)
      with True show ?thesis by (simp add: delete_part0_throws [OF p])
    next
      case (Inr s)
      with True delete_part0_called [OF p _ _ _ _ Inr, of cfg w] p show ?thesis by blast
    qed
  qed
qed

lemma destroy_called_explicit:
  "destroy_called cfg w s a =
     emit (HttpPost (destroy_url cfg)
             [(''api_key'', env_str (API_KEY cfg)),
              (''timestamp'', int_to_string (now w div 1000)),
              (''public_id'', s),
              (''signature'', sha1_hex w (a @ env_str (API_SECRET cfg)))])
       (emit (Sha1 (a @ env_str (API_SECRET cfg))) w)"
  by (simp add: destroy_called_def formBody_def destroy_signature_def unix_seconds_def)

lemma w1_reads:
  "verifyIdToken w1 = verifyIdToken w0" "roles w1 = roles w0" "get_fails w1 = get_fails w0"
  by (simp_all add: w1_def)

lemma gate_part0_w1: "gate_part0 cfg w1 req = gate_part0 cfg w0 req"
  unfolding gate_part0_def requireAuth_part0_def requireAdminOrModeratorByRolesDoc_def
    firestore_get_def w1_reads ..

lemma gate_index_w1: "gate_index cfg w1 req = gate_index cfg w0 req"
  unfolding gate_index_def requireAuth_index_def requireAdmin_index_def
    firestore_get_def w1_reads ..

lemma w1_simps:
  "unix_seconds w1 = 1000" "sha1_hex w1 = sha1" "JSON_parse w1 = parse0"
  "fetch w1 url form = Inr (404, ''Not Found'')" "destroy w1 public_id = Inl ''Error: Not Found''"
  "now w1 = 1000999"
  by (simp_all add: w1_def w0_def unix_seconds_def)

lemma w0_simps:
  "JSON_parse w0 = parse0"
  "fetch w0 url form = Inr (200, destroyed_text)" "destroy w0 public_id = Inr destroyed_ok"
  "now w0 = 1000999"
  by (simp_all add: w0_def)

lemma not_found_text: "''Not Found'' \<noteq> destroyed_text"
  by (simp add: destroyed_text_def)

lemma json_or_text_parse0:
  "JSON_parse w = parse0 \<Longrightarrow> json_or_text w destroyed_text = destroyed_ok"
  "JSON_parse w = parse0 \<Longrightarrow> json_or_text w ''Not Found'' = JStr ''Not Found''"
  by (simp_all add: json_or_text_def parse0_def js_coalesce_def destroyed_ok_def not_found_text)

lemma int_to_string_404: "int_to_string 404 = ''404''"
  by code_simp

lemma now_div_w0: "(1000999 :: int) div 1000 = 1000"
  by simp

text \<open>
  C6, as the code has it. A delete that has passed the gate of \<^verbatim>\<open>part_000\<close> on a configured
  server, with a public id that converts to the string \<open>s\<close>, computes one digest, over
  \<^verbatim>\<open>public_id=<s>&timestamp=<ts>\<close> and the secret, and posts it with \<open>s\<close>; with a public id
  whose conversion throws it is answered 500 and nothing is hashed or posted. Any request
  either leaves the world as it was or signs exactly that. The string is what the signer
  gives for the two keys \<^verbatim>\<open>public_id\<close> and \<^verbatim>\<open>timestamp\<close>; it is never a string-to-sign of
  \<^verbatim>\<open>/sign\<close>, which begins with the folder; and the route reads nothing of the body but the
  public id.
\<close>

theorem delete_string_to_sign:
  "(gate_part0 cfg w req = Inr role \<and> get_prop (body req) ''public_id'' = Inr public_id \<and>
    truthy public_id \<and>
    \<not> unset (CLOUD_NAME cfg) \<and> \<not> unset (API_KEY cfg) \<and> \<not> unset (API_SECRET cfg) \<longrightarrow>
      (to_string public_id = Inr s \<longrightarrow>
         snd (post_delete_part0 cfg w req) =
           emit (HttpPost (destroy_url cfg)
                   [(''api_key'', env_str (API_KEY cfg)),
                    (''timestamp'', int_to_string (now w div 1000)),
                    (''public_id'', s),
                    (''signature'',
                     sha1_hex w (''public_id='' @ s @ ''&timestamp='' @
                                 int_to_string (now w div 1000) @ env_str (API_SECRET cfg)))])
             (emit (Sha1 (''public_id='' @ s @ ''&timestamp='' @
                          int_to_string (now w div 1000) @ env_str (API_SECRET cfg))) w))
    \<and> (to_string public_id = Inl e \<longrightarrow>
         post_delete_part0 cfg w req = (res_json 500 [(''error'', JStr e)], w)))
   \<and> (snd (post_delete_part0 cfg w req) = w \<or>
       (\<exists>p s. get_prop (body req) ''public_id'' = Inr p \<and> truthy p \<and> to_string p = Inr s \<and>
          snd (post_delete_part0 cfg w req) =
            emit (HttpPost (destroy_url cfg)
                    [(''api_key'', env_str (API_KEY cfg)),
                     (''timestamp'', int_to_string (now w div 1000)),
                     (''public_id'', s),
                     (''signature'',
                      sha1_hex w (''public_id='' @ s @ ''&timestamp='' @
                                  int_to_string (now w div 1000) @ env_str (API_SECRET cfg)))])
              (emit (Sha1 (''public_id='' @ s @ ''&timestamp='' @
                           int_to_string (now w div 1000) @ env_str (API_SECRET cfg))) w)))
   \<and> (to_string p' = Inr s' \<longrightarrow>
        destroy_stringToSign p' ts = Inr (''public_id='' @ s' @ ''&timestamp='' @ int_to_string ts))
   \<and> (to_string p' = Inl e' \<longrightarrow> destroy_stringToSign p' ts = Inl e')
   \<and> destroy_stringToSign p' ts = stringToSign [(''public_id'', p'), (''timestamp'', js_int ts)]
   \<and> (destroy_stringToSign p' ts = Inr a \<longrightarrow> stringToSign (sign_params f q t) \<noteq> Inr a)
   \<and> (get_prop b ''public_id'' = get_prop (body req) ''public_id'' \<longrightarrow>
        post_delete_part0 cfg w (req\<lparr>body := b\<rparr>) = post_delete_part0 cfg w req)"
proof -
  have a: "gate_part0 cfg w req = Inr role \<and> get_prop (body req) ''public_id'' = Inr public_id \<and>
    truthy public_id \<and>
    \<not> unset (CLOUD_NAME cfg) \<and> \<not> unset (API_KEY cfg) \<and> \<not> unset (API_SECRET cfg) \<longrightarrow>
      (to_string public_id = Inr s \<longrightarrow>
         snd (post_delete_part0 cfg w req) =
           emit (HttpPost (destroy_url cfg)
                   [(''api_key'', env_str (API_KEY cfg)),
                    (''timestamp'', int_to_string (now w div 1000)),
                    (''public_id'', s),
                    (''signature'',
                     sha1_hex w (''public_id='' @ s @ ''&timestamp='' @
                                 int_to_string (now w div 1000) @ env_str (API_SECRET cfg)))])
             (emit (Sha1 (''public_id='' @ s @ ''&timestamp='' @
                          int_to_string (now w div 1000) @ env_str (API_SECRET cfg))) w))
    \<and> (to_string public_id = Inl e \<longrightarrow>
         post_delete_part0 cfg w req = (res_json 500 [(''error'', JStr e)], w))"
  proof (intro impI, elim conjE)
    assume g: "gate_part0 cfg w req = Inr role"
      and p: "get_prop (body req) ''public_id'' = Inr public_id" "truthy public_id"
      and e: "\<not> unset (CLOUD_NAME cfg)" "\<not> unset (API_KEY cfg)" "\<not> unset (API_SECRET cfg)"
    have route: "post_delete_part0 cfg w req = delete_part0 cfg w req"
      by (simp add: post_delete_part0_def g)
    show "(to_string public_id = Inr s \<longrightarrow>
         snd (post_delete_part0 cfg w req) =
           emit (HttpPost (destroy_url cfg)
                   [(''api_key'', env_str (API_KEY cfg)),
                    (''timestamp'', int_to_string (now w div 1000)),
                    (''public_id'', s),
                    (''signature'',
                     sha1_hex w (''public_id='' @ s @ ''&timestamp='' @
                                 int_to_string (now w div 1000) @ env_str (API_SECRET cfg)))])
             (emit (Sha1 (''public_id='' @ s @ ''&timestamp='' @
                          int_to_string (now w div 1000) @ env_str (API_SECRET cfg))) w))
    \<and> (to_string public_id = Inl e \<longrightarrow>
         post_delete_part0 cfg w req = (res_json 500 [(''error'', JStr e)], w))"
      using delete_part0_called [OF p e, of s w] delete_part0_throws [OF p e, of e w]
      by (simp add: route destroy_called_explicit)
  qed
  have b: "snd (post_delete_part0 cfg w req) = w \<or>
       (\<exists>p s. get_prop (body req) ''public_id'' = Inr p \<and> truthy p \<and> to_string p = Inr s \<and>
          snd (post_delete_part0 cfg w req) =
            emit (HttpPost (destroy_url cfg)
                    [(''api_key'', env_str (API_KEY cfg)),
                     (''timestamp'', int_to_string (now w div 1000)),
                     (''public_id'', s),
                     (''signature'',
                      sha1_hex w (''public_id='' @ s @ ''&timestamp='' @
                                  int_to_string (now w div 1000) @ env_str (API_SECRET cfg)))])
              (emit (Sha1 (''public_id='' @ s @ ''&timestamp='' @
                           int_to_string (now w div 1000) @ env_str (API_SECRET cfg))) w))"
  proof (cases "gate_part0 cfg w req")
    case (Inl r)
    then show ?thesis by (simp add: post_delete_part0_def)
  next
    case (Inr v)
    then show ?thesis
      using delete_part0_effects [of cfg w req]
      by (simp add: post_delete_part0_def destroy_called_explicit)
  qed
  have c: "to_string p' = Inr s' \<longrightarrow>
      destroy_stringToSign p' ts = Inr (''public_id='' @ s' @ ''&timestamp='' @ int_to_string ts)"
    by (simp add: destroy_stringToSign_def)
  have c': "to_string p' = Inl e' \<longrightarrow> destroy_stringToSign p' ts = Inl e'"
    by (simp add: destroy_stringToSign_def)
  have d: "destroy_stringToSign p' ts = Inr a \<longrightarrow> stringToSign (sign_params f q t) \<noteq> Inr a"
    using destroy_not_sign [of p' ts a f q t] by blast
  have e: "get_prop b ''public_id'' = get_prop (body req) ''public_id'' \<longrightarrow>
        post_delete_part0 cfg w (req\<lparr>body := b\<rparr>) = post_delete_part0 cfg w req"
    using delete_part0_reads [of b req cfg w] by blast
  show ?thesis using a b c c' destroy_stringToSign_signer [of p' ts] d e by blast
qed

text \<open>
  alice deletes \<^verbatim>\<open>p1\<close> at unix time 1000: the digest is over \<^verbatim>\<open>public_id=p1&timestamp=1000\<close>
  and the secret, which is no string-to-sign of \<^verbatim>\<open>/sign\<close>, and a folder in the body changes
  nothing. She sends an object with a property \<^verbatim>\<open>toString\<close> as the public id: the answer is
  500 and the world is as it was.
\<close>

theorem delete_string_to_sign_witness:
  "snd (post_delete_part0 cfg0 w0 (request_of ''alice-token'' [(''public_id'', JStr ''p1'')])) =
     emit (HttpPost ''https://api.cloudinary.com/v1_1/demo/image/destroy''
             [(''api_key'', ''key''), (''timestamp'', ''1000''), (''public_id'', ''p1''),
              (''signature'', sha1 ''public_id=p1&timestamp=1000abc'')])
       (emit (Sha1 ''public_id=p1&timestamp=1000abc'') w0)
   \<and> post_delete_part0 cfg0 w0
        (request_of ''alice-token'' [(''folder'', JStr ''x''), (''public_id'', JStr ''p1'')]) =
       post_delete_part0 cfg0 w0 (request_of ''alice-token'' [(''public_id'', JStr ''p1'')])
   \<and> destroy_stringToSign (JStr ''p1'') 1000 = Inr ''public_id=p1&timestamp=1000''
   \<and> stringToSign (sign_params (JStr ''x'') (JStr ''p1'') 1000) \<noteq>
       Inr ''public_id=p1&timestamp=1000''
   \<and> to_string (JObj [(''toString'', JNum ''1'')]) =
       Inl ''TypeError: Cannot convert object to primitive value''
   \<and> destroy_stringToSign (JObj [(''toString'', JNum ''1'')]) 1000 =
       Inl ''TypeError: Cannot convert object to primitive value''
   \<and> post_delete_part0 cfg0 w0
        (request_of ''alice-token'' [(''public_id'', JObj [(''toString'', JNum ''1'')])]) =
       (res_json 500 [(''error'', JStr ''TypeError: Cannot convert object to primitive value'')],
        w0)"
proof -
  let ?obj = "[(''public_id'', JStr ''p1'')]"
  let ?obj' = "[(''folder'', JStr ''x''), (''public_id'', JStr ''p1'')]"
  let ?bad = "JObj [(''toString'', JNum ''1'')]"
  let ?err = "''TypeError: Cannot convert object to primitive value''"
  let ?req = "request_of ''alice-token'' ?obj"
  let ?req2 = "request_of ''alice-token'' [(''public_id'', ?bad)]"
  have req': "?req\<lparr>body := JObj ?obj'\<rparr> = request_of ''alice-token'' ?obj'"
    by (simp add: request_of_def)
  have conv: "to_string (JStr ''p1'') = Inr ''p1''" by simp
  have bad: "to_string ?bad = Inl ?err" by simp
  have h: "gate_part0 cfg0 w0 ?req = Inr ''admin'' \<and>
      get_prop (body ?req) ''public_id'' = Inr (JStr ''p1'') \<and> truthy (JStr ''p1'') \<and>
      \<not> unset (CLOUD_NAME cfg0) \<and> \<not> unset (API_KEY cfg0) \<and> \<not> unset (API_SECRET cfg0)"
    by (simp add: gate_part0_alice body_request_of env_cfg0)
  have h2: "gate_part0 cfg0 w0 ?req2 = Inr ''admin'' \<and>
      get_prop (body ?req2) ''public_id'' = Inr ?bad \<and> truthy ?bad \<and>
      \<not> unset (CLOUD_NAME cfg0) \<and> \<not> unset (API_KEY cfg0) \<and> \<not> unset (API_SECRET cfg0)"
    by (simp add: gate_part0_alice body_request_of env_cfg0)
  have rd: "get_prop (JObj ?obj') ''public_id'' = get_prop (body ?req) ''public_id''"
    by (simp add: body_request_of)
  note t = delete_string_to_sign [where cfg = cfg0 and w = w0 and req = ?req and role = "''admin''"
      and public_id = "JStr ''p1''" and s = "''p1''" and b = "JObj ?obj'"
      and p' = "JStr ''p1''" and s' = "''p1''" and ts = 1000
      and a = "''public_id=p1&timestamp=1000''" and f = "JStr ''x''" and q = "JStr ''p1''"
      and t = 1000]
  note u = delete_string_to_sign [where cfg = cfg0 and w = w0 and req = ?req2
      and role = "''admin''" and public_id = ?bad and e = ?err and p' = ?bad and e' = ?err
      and ts = 1000]
  have url: "destroy_url cfg0 = ''https://api.cloudinary.com/v1_1/demo/image/destroy''"
    by (simp add: destroy_url_def env_cfg0)
  have 1: "snd (post_delete_part0 cfg0 w0 ?req) =
     emit (HttpPost ''https://api.cloudinary.com/v1_1/demo/image/destroy''
             [(''api_key'', ''key''), (''timestamp'', ''1000''), (''public_id'', ''p1''),
              (''signature'', sha1 ''public_id=p1&timestamp=1000abc'')])
       (emit (Sha1 ''public_id=p1&timestamp=1000abc'') w0)"
    using t [THEN conjunct1, rule_format, OF h, THEN conjunct1, rule_format, OF conv]
    by (simp add: url env_cfg0 w0_simps sha1_hex_w0 int_to_string_1000)
  have 2: "post_delete_part0 cfg0 w0 (request_of ''alice-token'' ?obj') =
      post_delete_part0 cfg0 w0 ?req"
    using t [THEN conjunct2, THEN conjunct2, THEN conjunct2, THEN conjunct2, THEN conjunct2,
        THEN conjunct2, rule_format, OF rd]
    by (simp add: req')
  have 3: "destroy_stringToSign (JStr ''p1'') 1000 = Inr ''public_id=p1&timestamp=1000''"
    using t [THEN conjunct2, THEN conjunct2, THEN conjunct1, rule_format, OF conv]
    by (simp add: int_to_string_1000)
  have 4: "stringToSign (sign_params (JStr ''x'') (JStr ''p1'') 1000) \<noteq>
      Inr ''public_id=p1&timestamp=1000''"
    by (rule t [THEN conjunct2, THEN conjunct2, THEN conjunct2, THEN conjunct2, THEN conjunct2,
          THEN conjunct1, rule_format, OF 3])
  have 5: "destroy_stringToSign ?bad 1000 = Inl ?err"
    by (rule u [THEN conjunct2, THEN conjunct2, THEN conjunct2, THEN conjunct1, rule_format,
          OF bad])
  have 6: "post_delete_part0 cfg0 w0 ?req2 = (res_json 500 [(''error'', JStr ?err)], w0)"
    by (rule u [THEN conjunct1, rule_format, OF h2, THEN conjunct2, rule_format, OF bad])
  show ?thesis using 1 2 3 4 bad 5 6 by blast
qed

text \<open>
  C6 as it is written fails for a public id that is present and cannot be converted to a
  string: bob, a moderator, sends the object \<^verbatim>\<open>{toString: 1}\<close> as the public id. The
  template of the string-to-sign throws, there is no string-to-sign, the answer is 500 and
  nothing has been hashed or posted.
\<close>

theorem delete_unconvertible_counterexample:
  "get_prop (body (request_of ''bob-token'' [(''public_id'', JObj [(''toString'', JNum ''1'')])]))
      ''public_id'' = Inr (JObj [(''toString'', JNum ''1'')])
   \<and> truthy (JObj [(''toString'', JNum ''1'')])
   \<and> destroy_stringToSign (JObj [(''toString'', JNum ''1'')]) (unix_seconds w0) =
       Inl ''TypeError: Cannot convert object to primitive value''
   \<and> post_delete_part0 cfg0 w0
        (request_of ''bob-token'' [(''public_id'', JObj [(''toString'', JNum ''1'')])]) =
       (\<lparr>status = 500,
         json = [(''error'', JStr ''TypeError: Cannot convert object to primitive value'')]\<rparr>,
        w0)
   \<and> log w0 = []"
  by (simp add: post_delete_part0_def gate_part0_bob delete_part0_def body_request_of env_cfg0
        destroy_stringToSign_def res_json_def)
    (simp add: w0_def)

text \<open>
  C7, as the code has it. In \<^verbatim>\<open>src/index.js\<close> a destroy that the library resolves is
  answered 200 with \<^verbatim>\<open>ok\<close>, the public id and the library's result as it came, and one
  that it rejects is answered 500 \<^verbatim>\<open>Cloudinary delete failed\<close>. In \<^verbatim>\<open>part_000\<close> the form
  is posted once the public id has been converted to \<open>s\<close> and the string-to-sign \<open>a\<close>
  built; a 2xx answer of the media API is answered 200 with \<^verbatim>\<open>ok\<close> and, under the key
  \<^verbatim>\<open>cloudinary\<close>, the parsed body of that answer (its text when it does not parse); there
  is no \<^verbatim>\<open>public_id\<close> and no \<^verbatim>\<open>result\<close> key. Another status is answered 500
  \<^verbatim>\<open>Cloudinary destroy failed\<close> with that status and body. Neither is the 400 of a
  missing public id.
\<close>

theorem delete_response:
  "(gate_index cfg w req = Inr u \<and> get_prop (body req) ''public_id'' = Inr public_id \<and>
    truthy public_id \<longrightarrow>
      (destroy w public_id = Inr result \<longrightarrow>
         post_delete_index cfg w req =
           (res_json 200 [(''ok'', JBool True), (''public_id'', public_id), (''result'', result)],
            emit (Destroy public_id) w) \<and>
         (result \<noteq> JUndefined \<longrightarrow>
            json (fst (post_delete_index cfg w req)) =
              [(''ok'', JBool True), (''public_id'', public_id), (''result'', result)])) \<and>
      (destroy w public_id = Inl e \<longrightarrow>
         post_delete_index cfg w req =
           (\<lparr>status = 500,
             json = [(''error'', JStr ''Cloudinary delete failed''), (''details'', JStr e)]\<rparr>,
            emit (Destroy public_id) w)))
   \<and> (gate_part0 cfg w req = Inr role \<and> get_prop (body req) ''public_id'' = Inr public_id \<and>
      truthy public_id \<and>
      \<not> unset (CLOUD_NAME cfg) \<and> \<not> unset (API_KEY cfg) \<and> \<not> unset (API_SECRET cfg) \<and>
      to_string public_id = Inr s \<and>
      destroy_stringToSign public_id (unix_seconds w) = Inr a \<longrightarrow>
      (fetch w (destroy_url cfg) (formBody cfg w s a) = Inr (st, payload) \<and> resp_ok st \<longrightarrow>
         post_delete_part0 cfg w req =
           (\<lparr>status = 200,
             json = [(''ok'', JBool True), (''cloudinary'', json_or_text w payload)]\<rparr>,
            destroy_called cfg w s a)) \<and>
      (fetch w (destroy_url cfg) (formBody cfg w s a) = Inr (st, payload) \<and> \<not> resp_ok st \<longrightarrow>
         post_delete_part0 cfg w req =
           (\<lparr>status = 500,
             json = [(''error'', JStr ''Cloudinary destroy failed''), (''status'', js_int (int st)),
                     (''body'', json_or_text w payload)]\<rparr>,
            destroy_called cfg w s a)) \<and>
      (fetch w (destroy_url cfg) (formBody cfg w s a) = Inl e \<longrightarrow>
         post_delete_part0 cfg w req =
           (\<lparr>status = 500, json = [(''error'', JStr e)]\<rparr>, destroy_called cfg w s a)))
   \<and> json_or_text w payload =
       (case JSON_parse w payload of
          None \<Rightarrow> JStr payload
        | Some j \<Rightarrow> if nullish j then JStr payload else j)
   \<and> resp_ok st = (200 \<le> st \<and> st \<le> 299)"
proof -
  have jt: "json_or_text w payload =
       (case JSON_parse w payload of
          None \<Rightarrow> JStr payload
        | Some j \<Rightarrow> if nullish j then JStr payload else j)"
    by (simp add: json_or_text_def js_coalesce_def split: option.split)
  have jd: "json_or_text w payload \<noteq> JUndefined"
    unfolding jt by (auto split: option.split)
  have a: "gate_index cfg w req = Inr u \<and> get_prop (body req) ''public_id'' = Inr public_id \<and>
    truthy public_id \<longrightarrow>
      (destroy w public_id = Inr result \<longrightarrow>
         post_delete_index cfg w req =
           (res_json 200 [(''ok'', JBool True), (''public_id'', public_id), (''result'', result)],
            emit (Destroy public_id) w) \<and>
         (result \<noteq> JUndefined \<longrightarrow>
            json (fst (post_delete_index cfg w req)) =
              [(''ok'', JBool True), (''public_id'', public_id), (''result'', result)])) \<and>
      (destroy w public_id = Inl e \<longrightarrow>
         post_delete_index cfg w req =
           (\<lparr>status = 500,
             json = [(''error'', JStr ''Cloudinary delete failed''), (''details'', JStr e)]\<rparr>,
            emit (Destroy public_id) w))"
  proof (intro impI, elim conjE)
    assume g: "gate_index cfg w req = Inr u"
      and p: "get_prop (body req) ''public_id'' = Inr public_id" "truthy public_id"
    have env: "mustHaveEnv cfg = Inr ()" using g by (rule gate_index_env)
    have route: "post_delete_index cfg w req = delete_index cfg w req"
      by (simp add: post_delete_index_def g)
    show "(destroy w public_id = Inr result \<longrightarrow>
         post_delete_index cfg w req =
           (res_json 200 [(''ok'', JBool True), (''public_id'', public_id), (''result'', result)],
            emit (Destroy public_id) w) \<and>
         (result \<noteq> JUndefined \<longrightarrow>
            json (fst (post_delete_index cfg w req)) =
              [(''ok'', JBool True), (''public_id'', public_id), (''result'', result)])) \<and>
      (destroy w public_id = Inl e \<longrightarrow>
         post_delete_index cfg w req =
           (\<lparr>status = 500,
             json = [(''error'', JStr ''Cloudinary delete failed''), (''details'', JStr e)]\<rparr>,
            emit (Destroy public_id) w))"
      using p truthy_defined [OF p(2)]
      by (simp add: route delete_index_def env res_json_def)
  qed
  have b: "gate_part0 cfg w req = Inr role \<and> get_prop (body req) ''public_id'' = Inr public_id \<and>
      truthy public_id \<and>
      \<not> unset (CLOUD_NAME cfg) \<and> \<not> unset (API_KEY cfg) \<and> \<not> unset (API_SECRET cfg) \<and>
      to_string public_id = Inr s \<and>
      destroy_stringToSign public_id (unix_seconds w) = Inr a \<longrightarrow>
      (fetch w (destroy_url cfg) (formBody cfg w s a) = Inr (st, payload) \<and> resp_ok st \<longrightarrow>
         post_delete_part0 cfg w req =
           (\<lparr>status = 200,
             json = [(''ok'', JBool True), (''cloudinary'', json_or_text w payload)]\<rparr>,
            destroy_called cfg w s a)) \<and>
      (fetch w (destroy_url cfg) (formBody cfg w s a) = Inr (st, payload) \<and> \<not> resp_ok st \<longrightarrow>
         post_delete_part0 cfg w req =
           (\<lparr>status = 500,
             json = [(''error'', JStr ''Cloudinary destroy failed''), (''status'', js_int (int st)),
                     (''body'', json_or_text w payload)]\<rparr>,
            destroy_called cfg w s a)) \<and>
      (fetch w (destroy_url cfg) (formBody cfg w s a) = Inl e \<longrightarrow>
         post_delete_part0 cfg w req =
           (\<lparr>status = 500, json = [(''error'', JStr e)]\<rparr>, destroy_called cfg w s a))"
  proof (intro impI, elim conjE)
    assume g: "gate_part0 cfg w req = Inr role"
      and p: "get_prop (body req) ''public_id'' = Inr public_id" "truthy public_id"
      and e: "\<not> unset (CLOUD_NAME cfg)" "\<not> unset (API_KEY cfg)" "\<not> unset (API_SECRET cfg)"
      and s: "to_string public_id = Inr s"
      and a: "destroy_stringToSign public_id (unix_seconds w) = Inr a"
    have route: "post_delete_part0 cfg w req = delete_part0 cfg w req"
      by (simp add: post_delete_part0_def g)
    have a': "a = ''public_id='' @ s @ ''&timestamp='' @ int_to_string (now w div 1000)"
      using a s by (simp add: destroy_stringToSign_def unix_seconds_def)
    show "(fetch w (destroy_url cfg) (formBody cfg w s a) = Inr (st, payload) \<and> resp_ok st \<longrightarrow>
         post_delete_part0 cfg w req =
           (\<lparr>status = 200,
             json = [(''ok'', JBool True), (''cloudinary'', json_or_text w payload)]\<rparr>,
            destroy_called cfg w s a)) \<and>
      (fetch w (destroy_url cfg) (formBody cfg w s a) = Inr (st, payload) \<and> \<not> resp_ok st \<longrightarrow>
         post_delete_part0 cfg w req =
           (\<lparr>status = 500,
             json = [(''error'', JStr ''Cloudinary destroy failed''), (''status'', js_int (int st)),
                     (''body'', json_or_text w payload)]\<rparr>,
            destroy_called cfg w s a)) \<and>
      (fetch w (destroy_url cfg) (formBody cfg w s a) = Inl e \<longrightarrow>
         post_delete_part0 cfg w req =
           (\<lparr>status = 500, json = [(''error'', JStr e)]\<rparr>, destroy_called cfg w s a))"
      unfolding route delete_part0_converted [OF p e s a']
      using jd js_int_defined [of "int st"] by (simp add: res_json_def)
  qed
  have c: "resp_ok st = (200 \<le> st \<and> st \<le> 299)" by (simp add: resp_ok_def)
  show ?thesis using a b jt c by blast
qed

theorem delete_response_witness:
  "post_delete_index cfg0 w0 (request_of ''alice-token'' [(''public_id'', JStr ''p1'')]) =
     (\<lparr>status = 200,
       json = [(''ok'', JBool True), (''public_id'', JStr ''p1''),
               (''result'', JObj [(''result'', JStr ''ok'')])]\<rparr>,
      emit (Destroy (JStr ''p1'')) w0)
   \<and> post_delete_index cfg0 w1 (request_of ''alice-token'' [(''public_id'', JStr ''p1'')]) =
     (\<lparr>status = 500,
       json = [(''error'', JStr ''Cloudinary delete failed''),
               (''details'', JStr ''Error: Not Found'')]\<rparr>,
      emit (Destroy (JStr ''p1'')) w1)
   \<and> fst (post_delete_part0 cfg0 w0 (request_of ''alice-token'' [(''public_id'', JStr ''p1'')])) =
     \<lparr>status = 200,
      json = [(''ok'', JBool True), (''cloudinary'', JObj [(''result'', JStr ''ok'')])]\<rparr>
   \<and> fst (post_delete_part0 cfg0 w1 (request_of ''alice-token'' [(''public_id'', JStr ''p1'')])) =
     \<lparr>status = 500,
      json = [(''error'', JStr ''Cloudinary destroy failed''), (''status'', JNum ''404''),
              (''body'', JStr ''Not Found'')]\<rparr>"
proof -
  let ?req = "request_of ''alice-token'' [(''public_id'', JStr ''p1'')]"
  let ?a = "''public_id=p1&timestamp=1000''"
  have sts: "destroy_stringToSign (JStr ''p1'') 1000 = Inr ?a"
    by (simp add: destroy_stringToSign_def int_to_string_1000)
  note t0 = delete_response [where cfg = cfg0 and w = w0 and req = ?req and u = "()"
      and role = "''admin''" and public_id = "JStr ''p1''" and result = destroyed_ok
      and s = "''p1''" and a = ?a and st = 200 and payload = destroyed_text]
  note t1 = delete_response [where cfg = cfg0 and w = w1 and req = ?req and u = "()"
      and role = "''admin''" and public_id = "JStr ''p1''" and e = "''Error: Not Found''"
      and s = "''p1''" and a = ?a and st = 404 and payload = "''Not Found''"]
  have h0: "gate_index cfg0 w0 ?req = Inr () \<and>
      get_prop (body ?req) ''public_id'' = Inr (JStr ''p1'') \<and> truthy (JStr ''p1'')"
    by (simp add: gate_index_alice body_request_of)
  have h1: "gate_index cfg0 w1 ?req = Inr () \<and>
      get_prop (body ?req) ''public_id'' = Inr (JStr ''p1'') \<and> truthy (JStr ''p1'')"
    by (simp add: gate_index_w1 gate_index_alice body_request_of)
  have k0: "gate_part0 cfg0 w0 ?req = Inr ''admin'' \<and>
      get_prop (body ?req) ''public_id'' = Inr (JStr ''p1'') \<and> truthy (JStr ''p1'') \<and>
      \<not> unset (CLOUD_NAME cfg0) \<and> \<not> unset (API_KEY cfg0) \<and> \<not> unset (API_SECRET cfg0) \<and>
      to_string (JStr ''p1'') = Inr ''p1'' \<and>
      destroy_stringToSign (JStr ''p1'') (unix_seconds w0) = Inr ?a"
    by (simp add: gate_part0_alice body_request_of env_cfg0 unix_seconds_w0 sts)
  have k1: "gate_part0 cfg0 w1 ?req = Inr ''admin'' \<and>
      get_prop (body ?req) ''public_id'' = Inr (JStr ''p1'') \<and> truthy (JStr ''p1'') \<and>
      \<not> unset (CLOUD_NAME cfg0) \<and> \<not> unset (API_KEY cfg0) \<and> \<not> unset (API_SECRET cfg0) \<and>
      to_string (JStr ''p1'') = Inr ''p1'' \<and>
      destroy_stringToSign (JStr ''p1'') (unix_seconds w1) = Inr ?a"
    by (simp add: gate_part0_w1 gate_part0_alice body_request_of env_cfg0 w1_simps sts)
  have a: "post_delete_index cfg0 w0 ?req =
     (\<lparr>status = 200,
       json = [(''ok'', JBool True), (''public_id'', JStr ''p1''),
               (''result'', JObj [(''result'', JStr ''ok'')])]\<rparr>,
      emit (Destroy (JStr ''p1'')) w0)"
    using t0 [THEN conjunct1, rule_format, OF h0, THEN conjunct1, rule_format, THEN conjunct1]
    by (simp add: w0_simps res_json_def destroyed_ok_def)
  have b: "post_delete_index cfg0 w1 ?req =
     (\<lparr>status = 500,
       json = [(''error'', JStr ''Cloudinary delete failed''),
               (''details'', JStr ''Error: Not Found'')]\<rparr>,
      emit (Destroy (JStr ''p1'')) w1)"
    using t1 [THEN conjunct1, rule_format, OF h1, THEN conjunct2, rule_format]
    by (simp add: w1_simps)
  have c: "fst (post_delete_part0 cfg0 w0 ?req) =
     \<lparr>status = 200,
      json = [(''ok'', JBool True), (''cloudinary'', JObj [(''result'', JStr ''ok'')])]\<rparr>"
    using t0 [THEN conjunct2, THEN conjunct1, rule_format, OF k0, THEN conjunct1, rule_format]
    by (simp add: w0_simps resp_ok_def json_or_text_parse0 destroyed_ok_def)
  have d: "fst (post_delete_part0 cfg0 w1 ?req) =
     \<lparr>status = 500,
      json = [(''error'', JStr ''Cloudinary destroy failed''), (''status'', JNum ''404''),
              (''body'', JStr ''Not Found'')]\<rparr>"
    using t1 [THEN conjunct2, THEN conjunct1, rule_format, OF k1, THEN conjunct2, THEN conjunct1,
        rule_format]
    by (simp add: w1_simps resp_ok_def json_or_text_parse0 js_int_def int_to_string_404)
  show ?thesis using a b c d by blast
qed

text \<open>
  C7 as it is written fails for \<^verbatim>\<open>part_000\<close>: the 200 answer to a delete that the media
  API has carried out has the keys \<^verbatim>\<open>ok\<close> and \<^verbatim>\<open>cloudinary\<close>, and neither
  \<^verbatim>\<open>public_id\<close> nor \<^verbatim>\<open>result\<close>.
\<close>

theorem delete_part0_body_counterexample:
  "fst (post_delete_part0 cfg0 w0 (request_of ''alice-token'' [(''public_id'', JStr ''p1'')])) =
     \<lparr>status = 200,
      json = [(''ok'', JBool True), (''cloudinary'', JObj [(''result'', JStr ''ok'')])]\<rparr>
   \<and> map_of (json (fst (post_delete_part0 cfg0 w0
        (request_of ''alice-token'' [(''public_id'', JStr ''p1'')])))) ''public_id'' = None
   \<and> map_of (json (fst (post_delete_part0 cfg0 w0
        (request_of ''alice-token'' [(''public_id'', JStr ''p1'')])))) ''result'' = None"
  by (simp add: post_delete_part0_def gate_part0_alice delete_part0_def body_request_of env_cfg0
        destroy_stringToSign_def w0_simps resp_ok_def json_or_text_parse0 destroyed_ok_def
        res_json_def)

section \<open>The claims about the roles\<close>

text \<open>The handler of \<^verbatim>\<open>/roles/set\<close> either writes and answers 200, or does neither.\<close>

lemma roles_set_part0_cases:
  "(snd (roles_set_part0 w req_role req) = w \<and> status (fst (roles_set_part0 w req_role req)) \<noteq> 200)
   \<or> (req_role = ''admin'' \<and>
       (\<exists>u r. get_prop (body req) ''uid'' = Inr (JStr u) \<and> u \<noteq> [] \<and> set_fails w u = None \<and>
          get_prop (body req) ''role'' = Inr r \<and> r \<in> set allowed \<and>
          roles_set_part0 w req_role req =
            (\<lparr>status = 200, json = [(''ok'', JBool True), (''uid'', JStr u), (''role'', r)]\<rparr>,
             emit (RoleSet u r)
               (w\<lparr>roles := (roles w)(u \<mapsto>
                    (case roles w u of None \<Rightarrow> Map.empty | Some d \<Rightarrow> d)
                      (''role'' \<mapsto> r, ''updatedAt'' \<mapsto> js_int (server_time w)))\<rparr>))))"
proof (cases "req_role = ''admin''")
  case False
  then show ?thesis by (simp add: roles_set_part0_def res_json_def)
next
  case admin: True
  show ?thesis
  proof (cases "get_prop (body req) ''uid''")
    case (Inl e)
    then show ?thesis by (simp add: roles_set_part0_def admin res_json_def)
  next
    case target: (Inr target)
    from get_prop_total [OF target] obtain role
      where role: "get_prop (body req) ''role'' = Inr role" by blast
    show ?thesis
    proof (cases "truthy target \<and> role \<in> set allowed")
      case False
      then show ?thesis by (auto simp: roles_set_part0_def admin target role res_json_def)
    next
      case ok: True
      show ?thesis
      proof (cases "firestore_set w target role")
        case (Inl e)
        then show ?thesis
          using ok by (simp add: roles_set_part0_def admin target role res_json_def)
      next
        case (Inr w')
        then obtain u where u: "target = JStr u" "set_fails w u = None"
            "w' = emit (RoleSet u role)
               (w\<lparr>roles := (roles w)(u \<mapsto>
                    (case roles w u of None \<Rightarrow> Map.empty | Some d \<Rightarrow> d)
                      (''role'' \<mapsto> role, ''updatedAt'' \<mapsto> js_int (server_time w)))\<rparr>)"
          by (auto simp: firestore_set_def split: jsval.splits option.splits if_splits)
        have defined: "role \<noteq> JUndefined" using ok by (auto simp: allowed_def)
        have "roles_set_part0 w req_role req =
            (\<lparr>status = 200, json = [(''ok'', JBool True), (''uid'', JStr u), (''role'', role)]\<rparr>, w')"
          using ok Inr defined
          by (simp add: roles_set_part0_def admin target role res_json_def u(1))
        then show ?thesis using ok admin target role u by auto
      qed
    qed
  qed
qed

text \<open>
  C8. A moderator passes the gate of \<^verbatim>\<open>/roles/set\<close> and is answered 403
  \<^verbatim>\<open>Admins only\<close>, the world being as it was. Whenever the route changes the world or
  answers 200, the gate has resolved the role \<^verbatim>\<open>admin\<close>, and the role written is one of
  \<^verbatim>\<open>admin\<close>, \<^verbatim>\<open>moderator\<close>, \<^verbatim>\<open>user\<close>. An admin who sends a user id and such a role
  does get the document written.
\<close>

theorem roles_set_admin_only:
  "(gate_part0 cfg w req = Inr ''moderator'' \<longrightarrow>
      post_roles_set_part0 cfg w req =
        (\<lparr>status = 403, json = [(''error'', JStr ''Admins only'')]\<rparr>, w))
   \<and> (snd (post_roles_set_part0 cfg w req) \<noteq> w \<or>
       status (fst (post_roles_set_part0 cfg w req)) = 200 \<longrightarrow>
        gate_part0 cfg w req = Inr ''admin'' \<and>
        (\<exists>u r. get_prop (body req) ''uid'' = Inr (JStr u) \<and> u \<noteq> [] \<and>
           get_prop (body req) ''role'' = Inr r \<and>
           (r = JStr ''admin'' \<or> r = JStr ''moderator'' \<or> r = JStr ''user'') \<and>
           post_roles_set_part0 cfg w req =
             (\<lparr>status = 200, json = [(''ok'', JBool True), (''uid'', JStr u), (''role'', r)]\<rparr>,
              emit (RoleSet u r)
                (w\<lparr>roles := (roles w)(u \<mapsto>
                     (case roles w u of None \<Rightarrow> Map.empty | Some d \<Rightarrow> d)
                       (''role'' \<mapsto> r, ''updatedAt'' \<mapsto> js_int (server_time w)))\<rparr>))))
   \<and> (gate_part0 cfg w req = Inr ''admin'' \<and> get_prop (body req) ''uid'' = Inr (JStr u) \<and>
       u \<noteq> [] \<and> get_prop (body req) ''role'' = Inr r \<and>
       (r = JStr ''admin'' \<or> r = JStr ''moderator'' \<or> r = JStr ''user'') \<and>
       set_fails w u = None \<longrightarrow>
        post_roles_set_part0 cfg w req =
          (\<lparr>status = 200, json = [(''ok'', JBool True), (''uid'', JStr u), (''role'', r)]\<rparr>,
           emit (RoleSet u r)
             (w\<lparr>roles := (roles w)(u \<mapsto>
                  (case roles w u of None \<Rightarrow> Map.empty | Some d \<Rightarrow> d)
                    (''role'' \<mapsto> r, ''updatedAt'' \<mapsto> js_int (server_time w)))\<rparr>)))"
proof -
  have a: "gate_part0 cfg w req = Inr ''moderator'' \<longrightarrow>
      post_roles_set_part0 cfg w req =
        (\<lparr>status = 403, json = [(''error'', JStr ''Admins only'')]\<rparr>, w)"
    by (simp add: post_roles_set_part0_def roles_set_part0_def res_json_def)
  have b: "snd (post_roles_set_part0 cfg w req) \<noteq> w \<or>
       status (fst (post_roles_set_part0 cfg w req)) = 200 \<longrightarrow>
        gate_part0 cfg w req = Inr ''admin'' \<and>
        (\<exists>u r. get_prop (body req) ''uid'' = Inr (JStr u) \<and> u \<noteq> [] \<and>
           get_prop (body req) ''role'' = Inr r \<and>
           (r = JStr ''admin'' \<or> r = JStr ''moderator'' \<or> r = JStr ''user'') \<and>
           post_roles_set_part0 cfg w req =
             (\<lparr>status = 200, json = [(''ok'', JBool True), (''uid'', JStr u), (''role'', r)]\<rparr>,
              emit (RoleSet u r)
                (w\<lparr>roles := (roles w)(u \<mapsto>
                     (case roles w u of None \<Rightarrow> Map.empty | Some d \<Rightarrow> d)
                       (''role'' \<mapsto> r, ''updatedAt'' \<mapsto> js_int (server_time w)))\<rparr>)))"
  proof (cases "gate_part0 cfg w req")
    case (Inl r)
    then show ?thesis using gate_part0_status [OF Inl] by (simp add: post_roles_set_part0_def)
  next
    case (Inr req_role)
    then have route: "post_roles_set_part0 cfg w req = roles_set_part0 w req_role req"
      by (simp add: post_roles_set_part0_def)
    from roles_set_part0_cases [of w req_role req] show ?thesis
    proof
      assume "snd (roles_set_part0 w req_role req) = w \<and>
          status (fst (roles_set_part0 w req_role req)) \<noteq> 200"
      then show ?thesis by (simp add: route)
    next
      assume "req_role = ''admin'' \<and>
       (\<exists>u r. get_prop (body req) ''uid'' = Inr (JStr u) \<and> u \<noteq> [] \<and> set_fails w u = None \<and>
          get_prop (body req) ''role'' = Inr r \<and> r \<in> set allowed \<and>
          roles_set_part0 w req_role req =
            (\<lparr>status = 200, json = [(''ok'', JBool True), (''uid'', JStr u), (''role'', r)]\<rparr>,
             emit (RoleSet u r)
               (w\<lparr>roles := (roles w)(u \<mapsto>
                    (case roles w u of None \<Rightarrow> Map.empty | Some d \<Rightarrow> d)
                      (''role'' \<mapsto> r, ''updatedAt'' \<mapsto> js_int (server_time w)))\<rparr>)))"
      then obtain u r where h: "req_role = ''admin''"
          "get_prop (body req) ''uid'' = Inr (JStr u)" "u \<noteq> []"
          "get_prop (body req) ''role'' = Inr r" "r \<in> set allowed"
          "roles_set_part0 w req_role req =
            (\<lparr>status = 200, json = [(''ok'', JBool True), (''uid'', JStr u), (''role'', r)]\<rparr>,
             emit (RoleSet u r)
               (w\<lparr>roles := (roles w)(u \<mapsto>
                    (case roles w u of None \<Rightarrow> Map.empty | Some d \<Rightarrow> d)
                      (''role'' \<mapsto> r, ''updatedAt'' \<mapsto> js_int (server_time w)))\<rparr>))"
        by blast
      have enum: "r = JStr ''admin'' \<or> r = JStr ''moderator'' \<or> r = JStr ''user''"
        using h(5) by (simp add: allowed_def)
      have gate: "gate_part0 cfg w req = Inr ''admin''" using Inr h(1) by simp
      have "\<exists>u r. get_prop (body req) ''uid'' = Inr (JStr u) \<and> u \<noteq> [] \<and>
           get_prop (body req) ''role'' = Inr r \<and>
           (r = JStr ''admin'' \<or> r = JStr ''moderator'' \<or> r = JStr ''user'') \<and>
           post_roles_set_part0 cfg w req =
             (\<lparr>status = 200, json = [(''ok'', JBool True), (''uid'', JStr u), (''role'', r)]\<rparr>,
              emit (RoleSet u r)
                (w\<lparr>roles := (roles w)(u \<mapsto>
                     (case roles w u of None \<Rightarrow> Map.empty | Some d \<Rightarrow> d)
                       (''role'' \<mapsto> r, ''updatedAt'' \<mapsto> js_int (server_time w)))\<rparr>))"
        using h(2,3,4) enum h(6) unfolding route by (intro exI conjI)
      with gate show ?thesis by (intro impI conjI)
    qed
  qed
  have c: "gate_part0 cfg w req = Inr ''admin'' \<and> get_prop (body req) ''uid'' = Inr (JStr u) \<and>
       u \<noteq> [] \<and> get_prop (body req) ''role'' = Inr r \<and>
       (r = JStr ''admin'' \<or> r = JStr ''moderator'' \<or> r = JStr ''user'') \<and>
       set_fails w u = None \<longrightarrow>
        post_roles_set_part0 cfg w req =
          (\<lparr>status = 200, json = [(''ok'', JBool True), (''uid'', JStr u), (''role'', r)]\<rparr>,
           emit (RoleSet u r)
             (w\<lparr>roles := (roles w)(u \<mapsto>
                  (case roles w u of None \<Rightarrow> Map.empty | Some d \<Rightarrow> d)
                    (''role'' \<mapsto> r, ''updatedAt'' \<mapsto> js_int (server_time w)))\<rparr>))"
  proof (intro impI, elim conjE)
    assume g: "gate_part0 cfg w req = Inr ''admin''"
      and target: "get_prop (body req) ''uid'' = Inr (JStr u)" "u \<noteq> []"
      and role: "get_prop (body req) ''role'' = Inr r"
      and enum: "r = JStr ''admin'' \<or> r = JStr ''moderator'' \<or> r = JStr ''user''"
      and ok: "set_fails w u = None"
    have mem: "r \<in> set allowed" using enum by (auto simp: allowed_def)
    have defined: "r \<noteq> JUndefined" using enum by auto
    show "post_roles_set_part0 cfg w req =
          (\<lparr>status = 200, json = [(''ok'', JBool True), (''uid'', JStr u), (''role'', r)]\<rparr>,
           emit (RoleSet u r)
             (w\<lparr>roles := (roles w)(u \<mapsto>
                  (case roles w u of None \<Rightarrow> Map.empty | Some d \<Rightarrow> d)
                    (''role'' \<mapsto> r, ''updatedAt'' \<mapsto> js_int (server_time w)))\<rparr>))"
      using mem defined target(2)
      by (simp add: post_roles_set_part0_def g roles_set_part0_def target(1) role
            firestore_set_def ok res_json_def)
  qed
  show ?thesis by (intro conjI) (rule a, rule b, rule c)
qed

text \<open>
  bob, a moderator, may not make carol a moderator; alice, an admin, may, and the document of
  carol then says so.
\<close>

theorem roles_set_admin_only_witness:
  "gate_part0 cfg0 w0 (request_of ''bob-token''
       [(''uid'', JStr ''carol''), (''role'', JStr ''moderator'')]) = Inr ''moderator''
   \<and> post_roles_set_part0 cfg0 w0 (request_of ''bob-token''
       [(''uid'', JStr ''carol''), (''role'', JStr ''moderator'')]) =
       (\<lparr>status = 403, json = [(''error'', JStr ''Admins only'')]\<rparr>, w0)
   \<and> fst (post_roles_set_part0 cfg0 w0 (request_of ''alice-token''
       [(''uid'', JStr ''carol''), (''role'', JStr ''moderator'')])) =
       \<lparr>status = 200,
        json = [(''ok'', JBool True), (''uid'', JStr ''carol''), (''role'', JStr ''moderator'')]\<rparr>
   \<and> log (snd (post_roles_set_part0 cfg0 w0 (request_of ''alice-token''
       [(''uid'', JStr ''carol''), (''role'', JStr ''moderator'')]))) =
       [RoleSet ''carol'' (JStr ''moderator'')]
   \<and> resolved_role (roles (snd (post_roles_set_part0 cfg0 w0 (request_of ''alice-token''
       [(''uid'', JStr ''carol''), (''role'', JStr ''moderator'')]))) ''carol'') =
       Inr ''moderator''"
proof -
  let ?obj = "[(''uid'', JStr ''carol''), (''role'', JStr ''moderator'')]"
  let ?w = "emit (RoleSet ''carol'' (JStr ''moderator''))
         (w0\<lparr>roles := (roles w0)(''carol'' \<mapsto>
              (case roles w0 ''carol'' of None \<Rightarrow> Map.empty | Some d \<Rightarrow> d)
                (''role'' \<mapsto> JStr ''moderator'', ''updatedAt'' \<mapsto> js_int (server_time w0)))\<rparr>)"
  note tb = roles_set_admin_only [where cfg = cfg0 and w = w0
      and req = "request_of ''bob-token'' ?obj", THEN conjunct1, rule_format]
  note ta = roles_set_admin_only [where cfg = cfg0 and w = w0
      and req = "request_of ''alice-token'' ?obj" and u = "''carol''" and r = "JStr ''moderator''",
      THEN conjunct2, THEN conjunct2, rule_format]
  have b: "post_roles_set_part0 cfg0 w0 (request_of ''bob-token'' ?obj) =
       (\<lparr>status = 403, json = [(''error'', JStr ''Admins only'')]\<rparr>, w0)"
    using gate_part0_bob [of ?obj] by (rule tb)
  have pre: "gate_part0 cfg0 w0 (request_of ''alice-token'' ?obj) = Inr ''admin'' \<and>
      get_prop (body (request_of ''alice-token'' ?obj)) ''uid'' = Inr (JStr ''carol'') \<and>
      ''carol'' \<noteq> [] \<and>
      get_prop (body (request_of ''alice-token'' ?obj)) ''role'' = Inr (JStr ''moderator'') \<and>
      (JStr ''moderator'' = JStr ''admin'' \<or> JStr ''moderator'' = JStr ''moderator'' \<or>
       JStr ''moderator'' = JStr ''user'') \<and>
      set_fails w0 ''carol'' = None"
    by (simp add: gate_part0_alice body_request_of roles_w0(2))
  have a: "post_roles_set_part0 cfg0 w0 (request_of ''alice-token'' ?obj) =
      (\<lparr>status = 200,
        json = [(''ok'', JBool True), (''uid'', JStr ''carol''), (''role'', JStr ''moderator'')]\<rparr>,
       ?w)"
    using pre by (rule ta)
  have l: "log ?w = [RoleSet ''carol'' (JStr ''moderator'')]"
    by (simp add: emit_def w0_def)
  have r: "resolved_role (roles ?w ''carol'') = Inr ''moderator''"
    by (simp add: emit_def resolved_role_string normal_moderator)
  show ?thesis
    unfolding a b using gate_part0_bob [of ?obj] l r by simp
qed









end
